(* ===== verification/Prelude.thy ===== *)
theory Prelude
  imports Complex_Main "HOL-Library.AList" "HOL-Library.List_Lexorder"
    "HOL-Library.Char_ord" "HOL-Library.Sublist" "HOL-Library.Multiset"
begin

text \<open>
  The Python builtins the memory system uses, as executable HOL functions shared by
  every component theory:
  \<^item> a Python \<open>dict\<close> is an association list with insertion order
    (\<open>pydict\<close>); \<open>d[k] = v\<close> is \<open>dict_set\<close>, which replaces an existing key in
    place and appends a new one, as CPython's dicts do, and \<open>d.values()\<close> iterates
    in that order;
  \<^item> \<open>str.lower\<close>, \<open>needle in hay\<close>, \<open>str.split()\<close>, \<open>str.split("::")\<close>,
    \<open>"::".join\<close> on ASCII strings;
  \<^item> \<open>xs[:k]\<close>, \<open>sorted(xs, key=f, reverse=True)\<close> and \<open>max(xs, key=f)\<close>
    with Python's tie behaviour.
  Each executable routine is related to a library reference (\<open>sublist\<close>,
  \<open>sort_key\<close>, \<open>Max\<close>) by an equivalence lemma, and the lemmas are collected in
  \<open>py_simps\<close> for the component proofs.
\<close>

named_theorems py_simps "rewrite rules for the modelled Python builtins"

section \<open>Dictionaries with insertion order\<close>

type_synonym ('k, 'v) pydict = "('k \<times> 'v) list"

definition dict_set :: "'k \<Rightarrow> 'v \<Rightarrow> ('k, 'v) pydict \<Rightarrow> ('k, 'v) pydict" where
  "dict_set k v d = AList.update k v d"

definition dict_get :: "('k, 'v) pydict \<Rightarrow> 'k \<Rightarrow> 'v option" where
  "dict_get d k = map_of d k"

lemma dict_get_set [simp, py_simps]:
  "dict_get (dict_set k v d) k' = (if k' = k then Some v else dict_get d k')"
  by (simp add: dict_get_def dict_set_def update_conv)

lemma dict_keys_set [py_simps]:
  "map fst (dict_set k v d) = (if k \<in> set (map fst d) then map fst d else map fst d @ [k])"
  by (simp add: dict_set_def update_keys)

lemma distinct_dict_set [simp, py_simps]:
  "distinct (map fst d) \<Longrightarrow> distinct (map fst (dict_set k v d))"
  by (simp add: dict_set_def distinct_update)

lemma dict_set_fresh [py_simps]:
  "k \<notin> fst ` set d \<Longrightarrow> dict_set k v d = d @ [(k, v)]"
  by (induction d) (auto simp: dict_set_def)

lemma set_dict_set [py_simps]:
  "p \<in> set (dict_set k v d) \<Longrightarrow> p = (k, v) \<or> p \<in> set d"
  by (induction d) (auto simp: dict_set_def split: if_splits)

lemma set_dict_set_distinct [py_simps]:
  "distinct (map fst d) \<Longrightarrow> set (dict_set k v d) = insert (k, v) {p \<in> set d. fst p \<noteq> k}"
  by (induction d) (auto simp: dict_set_def, force+)

lemma dict_get_case_in [py_simps]:
  "x \<in> set (case dict_get d k of None \<Rightarrow> [] | Some l \<Rightarrow> l) \<Longrightarrow> \<exists>l. (k, l) \<in> set d \<and> x \<in> set l"
  by (auto simp: dict_get_def split: option.splits) (metis map_of_SomeD)

lemma dict_get_Some_in [py_simps]:
  "dict_get d k = Some v \<Longrightarrow> (k, v) \<in> set d"
  by (simp add: dict_get_def map_of_SomeD)

lemma dict_get_in_distinct [py_simps]:
  "distinct (map fst d) \<Longrightarrow> (k, v) \<in> set d \<Longrightarrow> dict_get d k = Some v"
  by (simp add: dict_get_def)

lemma dict_get_None [py_simps]:
  "dict_get d k = None \<longleftrightarrow> k \<notin> fst ` set d"
  by (simp add: dict_get_def map_of_eq_None_iff)

lemma dict_get_case_iff [py_simps]:
  assumes "distinct (map fst d)"
  shows "x \<in> set (case dict_get d k of None \<Rightarrow> [] | Some l \<Rightarrow> l) \<longleftrightarrow> (\<exists>l. (k, l) \<in> set d \<and> x \<in> set l)"
proof (cases "dict_get d k")
  case None
  then have "k \<notin> fst ` set d" by (simp add: dict_get_None)
  with None show ?thesis by force
next
  case (Some v)
  then have "(k, l) \<in> set d \<longleftrightarrow> l = v" for l
    using assms dict_get_in_distinct [of d k l] dict_get_Some_in [of d k v] by auto
  then show ?thesis using Some by auto
qed

lemma mset_concat_dict_set [py_simps]:
  "distinct (map fst d) \<Longrightarrow>
     mset (concat (map snd (dict_set k v d))) + mset (case dict_get d k of None \<Rightarrow> [] | Some l \<Rightarrow> l)
     = mset (concat (map snd d)) + mset v"
proof (induction d)
  case Nil
  then show ?case by (simp add: dict_set_def dict_get_def)
next
  case (Cons p d)
  obtain k' l' where p: "p = (k', l')" by (cases p)
  show ?case
  proof (cases "k' = k")
    case True
    with p show ?thesis by (simp add: dict_set_def dict_get_def)
  next
    case False
    with Cons.IH Cons.prems p show ?thesis
      by (simp add: dict_set_def dict_get_def add.assoc add.left_commute)
  qed
qed

section \<open>Strings\<close>

text \<open>
  Strings are \<open>char list\<close>s; the model assumes ASCII text, so that Python's code
  points are Isabelle's bytes. \<open>str.lower\<close> lowers the ASCII capitals.
\<close>

definition py_lower_char :: "char \<Rightarrow> char" where
  "py_lower_char c =
     (if CHR ''A'' \<le> c \<and> c \<le> CHR ''Z'' then char_of (of_char c + (32::nat)) else c)"

definition py_lower :: "string \<Rightarrow> string" where
  "py_lower s = map py_lower_char s"

lemma py_lower_Nil [simp, py_simps]: "py_lower [] = []"
  and py_lower_Cons [simp, py_simps]: "py_lower (c # cs) = py_lower_char c # py_lower cs"
  and py_lower_append [simp, py_simps]: "py_lower (xs @ ys) = py_lower xs @ py_lower ys"
  by (simp_all add: py_lower_def)

text \<open>The facts \<open>simp\<close> needs to lower a concrete string.\<close>

lemmas py_lower_eval = py_lower_def py_lower_char_def char_of_def bit_0

text \<open>\<open>needle in hay\<close> for strings: a left-to-right scan with a prefix test.\<close>

fun starts_with :: "string \<Rightarrow> string \<Rightarrow> bool" where
  "starts_with [] ys = True"
| "starts_with (x # xs) [] = False"
| "starts_with (x # xs) (y # ys) = (x = y \<and> starts_with xs ys)"

fun py_contains :: "string \<Rightarrow> string \<Rightarrow> bool" where
  "py_contains n [] = (n = [])"
| "py_contains n (c # cs) = (starts_with n (c # cs) \<or> py_contains n cs)"

lemma starts_with_prefix [py_simps]: "starts_with xs ys = prefix xs ys"
  by (induction xs ys rule: starts_with.induct) auto

lemma py_contains_sublist [py_simps]: "py_contains n h = sublist n h"
  by (induction h) (auto simp: starts_with_prefix sublist_Cons_right)

lemma py_contains_append [py_simps]:
  assumes "py_contains n h"
  shows "py_contains n (p @ h @ q)"
proof -
  from assms obtain ps ss where "h = ps @ n @ ss"
    by (auto simp: py_contains_sublist sublist_def)
  then have "p @ h @ q = (p @ ps) @ n @ (ss @ q)" by simp
  then have "sublist n (p @ h @ q)" unfolding sublist_def by blast
  then show ?thesis by (simp add: py_contains_sublist)
qed

lemma sum_dict_set [py_simps]:
  "distinct (map fst d) \<Longrightarrow>
     sum_list (map snd (dict_set k v d)) + (case dict_get d k of None \<Rightarrow> 0 | Some n \<Rightarrow> n)
     = sum_list (map snd d) + (v :: nat)"
proof (induction d)
  case Nil
  then show ?case by (simp add: dict_set_def dict_get_def)
next
  case (Cons p d)
  obtain k' n' where p: "p = (k', n')" by (cases p)
  show ?case
  proof (cases "k' = k")
    case True
    with p show ?thesis by (simp add: dict_set_def dict_get_def)
  next
    case False
    with Cons.IH Cons.prems p show ?thesis
      by (simp add: dict_set_def dict_get_def)
  qed
qed

lemma py_contains_Nil [simp, py_simps]: "py_contains [] h"
  by (cases h) auto

lemma count_concat_map_ge:
  "(\<forall>x \<in> set xs. a \<in> set (f x)) \<Longrightarrow> length xs \<le> count (mset (concat (map f xs))) a"
proof (induction xs)
  case (Cons x xs)
  then have c1: "0 < count (mset (f x)) a" and c2: "length xs \<le> count (mset (concat (map f xs))) a"
    by simp_all
  from c1 c2 show ?case
    by (simp only: list.map concat.simps mset_append count_union length_Cons)
qed simp

lemma dropWhile_eq_Cons_length: "dropWhile P xs = y # ys \<Longrightarrow> length ys < length xs"
  by (induction xs) (auto split: if_splits)

text \<open>\<open>str.split()\<close> with no separator: runs of whitespace separate words, and no
  word is empty.\<close>

definition is_py_space :: "char \<Rightarrow> bool" where
  "is_py_space c \<longleftrightarrow>
     c \<in> set [CHR 0x09, CHR 0x0A, CHR 0x0B, CHR 0x0C, CHR 0x0D,
              CHR 0x1C, CHR 0x1D, CHR 0x1E, CHR 0x1F, CHR 0x20]"

text \<open>\<open>s.strip()\<close>: whitespace removed at both ends.\<close>

definition py_strip :: "string \<Rightarrow> string" where
  "py_strip s = rev (dropWhile is_py_space (rev (dropWhile is_py_space s)))"

text \<open>The regular-expression class \<open>\w\<close> on ASCII text: letters, digits and the
  underscore.\<close>

definition is_word_char :: "char \<Rightarrow> bool" where
  "is_word_char c \<longleftrightarrow>
     (CHR ''a'' \<le> c \<and> c \<le> CHR ''z'') \<or> (CHR ''A'' \<le> c \<and> c \<le> CHR ''Z'') \<or>
     (CHR ''0'' \<le> c \<and> c \<le> CHR ''9'') \<or> c = CHR ''_''"

fun py_split_acc :: "string \<Rightarrow> string \<Rightarrow> string list" where
  "py_split_acc cur [] = (if cur = [] then [] else [rev cur])"
| "py_split_acc cur (c # cs) =
     (if is_py_space c
      then (if cur = [] then py_split_acc [] cs else rev cur # py_split_acc [] cs)
      else py_split_acc (c # cur) cs)"

definition py_split :: "string \<Rightarrow> string list" where
  "py_split s = py_split_acc [] s"

lemma py_split_acc_words [py_simps]:
  "\<forall>c \<in> set cur. \<not> is_py_space c \<Longrightarrow> w \<in> set (py_split_acc cur s) \<Longrightarrow>
     w \<noteq> [] \<and> (\<forall>c \<in> set w. \<not> is_py_space c)"
proof (induction cur s rule: py_split_acc.induct)
  case (1 cur)
  then show ?case by (cases "cur = []") auto
next
  case (2 cur c cs)
  show ?case
  proof (cases "is_py_space c")
    case True
    show ?thesis
    proof (cases "cur = []")
      case True
      with \<open>is_py_space c\<close> "2.prems" "2.IH"(1) show ?thesis by simp
    next
      case False
      with \<open>is_py_space c\<close> "2.prems" "2.IH"(2) show ?thesis by auto
    qed
  next
    case False
    with "2.prems" "2.IH"(3) show ?thesis by simp
  qed
qed

lemma py_split_words [py_simps]:
  "w \<in> set (py_split s) \<Longrightarrow> w \<noteq> [] \<and> (\<forall>c \<in> set w. \<not> is_py_space c)"
  unfolding py_split_def by (rule py_split_acc_words) auto

text \<open>\<open>sep.join(xs)\<close> and \<open>s.split("::")\<close>, scanning left to right for
  non-overlapping separators as CPython does.\<close>

fun py_join :: "string \<Rightarrow> string list \<Rightarrow> string" where
  "py_join sep [] = []"
| "py_join sep [x] = x"
| "py_join sep (x # y # zs) = x @ sep @ py_join sep (y # zs)"

fun split_dcolon_acc :: "string \<Rightarrow> string \<Rightarrow> string list" where
  "split_dcolon_acc cur [] = [rev cur]"
| "split_dcolon_acc cur [c] = [rev (c # cur)]"
| "split_dcolon_acc cur (c # d # cs) =
     (if c = CHR '':'' \<and> d = CHR '':''
      then rev cur # split_dcolon_acc [] cs
      else split_dcolon_acc (c # cur) (d # cs))"

definition split_dcolon :: "string \<Rightarrow> string list" where
  "split_dcolon s = split_dcolon_acc [] s"

definition colon_free :: "string \<Rightarrow> bool" where
  "colon_free s \<longleftrightarrow> CHR '':'' \<notin> set s"

lemma split_dcolon_acc_plain [py_simps]:
  "colon_free x \<Longrightarrow> split_dcolon_acc cur (x @ rest) = split_dcolon_acc (rev x @ cur) rest"
proof (induction x arbitrary: cur)
  case Nil
  then show ?case by simp
next
  case (Cons c x)
  then have c: "c \<noteq> CHR '':''" and x: "colon_free x" by (auto simp: colon_free_def)
  show ?case
  proof (cases "x @ rest")
    case Nil
    then show ?thesis by simp
  next
    case (Cons d ds)
    with c have "split_dcolon_acc cur (c # x @ rest) = split_dcolon_acc (c # cur) (x @ rest)"
      by simp
    also have "\<dots> = split_dcolon_acc (rev x @ c # cur) rest"
      using Cons.IH [OF x] by simp
    finally show ?thesis by simp
  qed
qed

lemma split_dcolon_join [py_simps]:
  "xs \<noteq> [] \<Longrightarrow> \<forall>x \<in> set xs. colon_free x \<Longrightarrow> split_dcolon (py_join ''::'' xs) = xs"
proof (induction "''::''" xs rule: py_join.induct)
  case (2 x)
  then show ?case
    using split_dcolon_acc_plain [of x "[]" "[]"] by (simp add: split_dcolon_def)
next
  case (3 x y zs)
  then have "split_dcolon (py_join ''::'' (y # zs)) = y # zs" by simp
  moreover have "colon_free x" using "3.prems" by simp
  ultimately show ?case
    using split_dcolon_acc_plain [of x "[]" "''::'' @ py_join ''::'' (y # zs)"]
    by (simp add: split_dcolon_def)
qed simp

lemma split_dcolon_pair [py_simps]:
  "colon_free a \<Longrightarrow> colon_free b \<Longrightarrow> split_dcolon (a @ ''::'' @ b) = [a, b]"
  using split_dcolon_join [of "[a, b]"] by simp

text \<open>\<open>s.replace(old, new)\<close> with a non-empty \<open>old\<close> (the only use is
  \<open>"min_"\<close>): every non-overlapping occurrence, scanning left to right.\<close>

fun py_replace :: "string \<Rightarrow> string \<Rightarrow> string \<Rightarrow> string" where
  "py_replace old new [] = []"
| "py_replace old new (c # cs) =
     (if old \<noteq> [] \<and> prefix old (c # cs) then new @ py_replace old new (drop (length old) (c # cs))
      else c # py_replace old new cs)"

text \<open>\<open>str(i)\<close> (and \<open>f"{i}"\<close>) for an \<open>int\<close>: its decimal digits.\<close>

fun digits_nat :: "nat \<Rightarrow> string" where
  "digits_nat n =
     (if n < 10 then [char_of (48 + n)] else digits_nat (n div 10) @ [char_of (48 + n mod 10)])"

definition py_str_int :: "int \<Rightarrow> string" where
  "py_str_int i = (if i < 0 then ''-'' @ digits_nat (nat (- i)) else digits_nat (nat i))"

lemmas py_str_eval = py_str_int_def char_of_def bit_0

section \<open>Lists: slicing, sorting, maximum\<close>

text \<open>\<open>xs[:k]\<close>: a negative bound counts from the end.\<close>

definition py_slice_to :: "'a list \<Rightarrow> int \<Rightarrow> 'a list" where
  "py_slice_to xs k = (if 0 \<le> k then take (nat k) xs else take (nat (int (length xs) + k)) xs)"

lemma py_slice_to_prefix [py_simps]: "prefix (py_slice_to xs k) xs"
  by (simp add: py_slice_to_def take_is_prefix)

lemma length_py_slice_to [py_simps]: "0 \<le> k \<Longrightarrow> length (py_slice_to xs k) \<le> nat k"
  by (simp add: py_slice_to_def)

text \<open>\<open>sorted(xs, key=f, reverse=True)\<close>: CPython keeps equal keys in their original
  order under \<open>reverse=True\<close>, which is the stable ascending sort on \<open>- f\<close>.\<close>

definition sort_desc :: "('a \<Rightarrow> 'b::linordered_ab_group_add) \<Rightarrow> 'a list \<Rightarrow> 'a list" where
  "sort_desc f xs = sort_key (\<lambda>x. - f x) xs"

lemma mset_sort_desc [simp, py_simps]: "mset (sort_desc f xs) = mset xs"
  by (simp add: sort_desc_def)

lemma set_sort_desc [simp, py_simps]: "set (sort_desc f xs) = set xs"
  by (simp add: sort_desc_def)

lemma length_sort_desc [simp, py_simps]: "length (sort_desc f xs) = length xs"
  by (simp add: sort_desc_def)

lemma sorted_sort_desc [py_simps]: "sorted_wrt (\<ge>) (map f (sort_desc f xs))"
proof -
  have "sorted (map (\<lambda>x. - f x) (sort_desc f xs))"
    by (simp add: sort_desc_def)
  then show ?thesis
    by (simp add: sorted_wrt_map)
qed

lemma sort_desc_stable [py_simps]:
  "filter (\<lambda>y. f y = v) (sort_desc f xs) = filter (\<lambda>y. f y = v) xs"
proof -
  have "filter (\<lambda>y. - f y = - v) (sort_key (\<lambda>x. - f x) xs) = filter (\<lambda>y. - f y = - v) xs"
    by (rule sort_key_stable)
  then show ?thesis by (simp add: sort_desc_def)
qed

lemma insort_key_map:
  "(\<And>x. f' (g x) = f x) \<Longrightarrow> insort_key f' (g x) (map g xs) = map g (insort_key f x xs)"
  by (induction xs) auto

lemma sort_key_map:
  "(\<And>x. f' (g x) = f x) \<Longrightarrow> sort_key f' (map g xs) = map g (sort_key f xs)"
  by (induction xs) (simp_all add: insort_key_map)

text \<open>Sorting \<open>(x, f x)\<close> pairs by their second component and dropping it is
  sorting by \<open>f\<close>.\<close>

lemma sort_desc_pairs [py_simps]:
  "map fst (sort_desc snd (map (\<lambda>x. (x, f x)) xs)) = sort_desc f xs"
  using sort_key_map [of "\<lambda>p. - snd p" "\<lambda>x. (x, f x)" "\<lambda>x. - f x" xs]
  by (simp add: sort_desc_def comp_def)

lemma py_slice_to_map [py_simps]: "py_slice_to (map g xs) k = map g (py_slice_to xs k)"
  by (simp add: py_slice_to_def take_map)

lemma length_py_slice_to_eq [py_simps]:
  "length (py_slice_to xs k) =
     (if 0 \<le> k then min (nat k) (length xs) else nat (int (length xs) + k))"
  by (simp add: py_slice_to_def min.commute)

text \<open>The first \<open>n\<close> of a descending sort are a top-\<open>n\<close>: no element left out
  has a larger key than one kept.\<close>

lemma sort_desc_top:
  assumes "x \<in> set (take n (sort_desc f xs))" "y \<in># mset xs - mset (take n (sort_desc f xs))"
  shows "f y \<le> f x"
proof -
  let ?ys = "sort_desc f xs"
  have "mset xs = mset (take n ?ys) + mset (drop n ?ys)"
    by (simp flip: mset_append)
  then have "y \<in> set (drop n ?ys)" using assms(2) by simp
  moreover have "sorted_wrt (\<ge>) (map f (take n ?ys) @ map f (drop n ?ys))"
    using sorted_sort_desc [of f xs] by (simp flip: map_append)
  ultimately show ?thesis using assms(1) by (auto simp: sorted_wrt_append)
qed

text \<open>\<open>max(xs, key=f)\<close> keeps the current best unless a later element is strictly
  greater: the first maximal element wins.\<close>

fun py_max_key :: "('a \<Rightarrow> 'b::linorder) \<Rightarrow> 'a \<Rightarrow> 'a list \<Rightarrow> 'a" where
  "py_max_key f b [] = b"
| "py_max_key f b (x # xs) = py_max_key f (if f b < f x then x else b) xs"

lemma py_max_key_in [py_simps]: "py_max_key f b xs \<in> set (b # xs)"
  by (induction f b xs rule: py_max_key.induct) auto

lemma py_max_key_ge [py_simps]: "y \<in> set (b # xs) \<Longrightarrow> f y \<le> f (py_max_key f b xs)"
proof (induction f b xs arbitrary: y rule: py_max_key.induct)
  case (1 f b)
  then show ?case by simp
next
  case (2 f b x xs)
  have "f b \<le> f (if f b < f x then x else b)" and "f x \<le> f (if f b < f x then x else b)"
    by auto
  with "2.IH" "2.prems" show ?case
    by (auto intro: order_trans)
qed

lemma py_max_key_first [py_simps]:
  "\<exists>i < Suc (length xs). (b # xs) ! i = py_max_key f b xs \<and>
     (\<forall>j < i. f ((b # xs) ! j) < f (py_max_key f b xs))"
proof (induction f b xs rule: py_max_key.induct)
  case (1 f b)
  show ?case by (intro exI [of _ 0]) simp
next
  case (2 f b x xs)
  define b' where "b' = (if f b < f x then x else b)"
  define r where "r = py_max_key f b' xs"
  have r: "py_max_key f b (x # xs) = r" by (simp add: r_def b'_def)
  from "2.IH" obtain i where i: "i < Suc (length xs)" "(b' # xs) ! i = r"
      "\<forall>j < i. f ((b' # xs) ! j) < f r"
    by (auto simp: r_def b'_def)
  have ge: "f b' \<le> f r" using py_max_key_ge [of b' b' xs f] by (simp add: r_def)
  show ?case
  proof (cases "f b < f x")
    case True
    then have b': "b' = x" by (simp add: b'_def)
    have "(b # x # xs) ! Suc i = r" using i(2) b' by simp
    moreover have "\<forall>j < Suc i. f ((b # x # xs) ! j) < f r"
    proof (intro allI impI)
      fix j assume j: "j < Suc i"
      show "f ((b # x # xs) ! j) < f r"
      proof (cases j)
        case 0
        then show ?thesis using True ge b' by simp
      next
        case (Suc j')
        then show ?thesis using i(3) j b' by simp
      qed
    qed
    ultimately show ?thesis using i(1) r by (intro exI [of _ "Suc i"]) auto
  next
    case False
    then have b': "b' = b" by (simp add: b'_def)
    show ?thesis
    proof (cases i)
      case 0
      then have "r = b" using i(2) b' by simp
      then show ?thesis using r by (intro exI [of _ 0]) auto
    next
      case (Suc i')
      have b_lt: "f b < f r" using i(3) Suc b' by fastforce
      have "(b # x # xs) ! Suc (Suc i') = r" using i(2) Suc b' by simp
      moreover have "\<forall>j < Suc (Suc i'). f ((b # x # xs) ! j) < f r"
      proof (intro allI impI)
        fix j assume j: "j < Suc (Suc i')"
        show "f ((b # x # xs) ! j) < f r"
        proof (cases j)
          case 0
          then show ?thesis using b_lt by simp
        next
          case (Suc j')
          show ?thesis
          proof (cases j')
            case 0
            then show ?thesis using Suc False b_lt by simp
          next
            case (Suc j'')
            have "Suc j'' < i" using j \<open>j = Suc j'\<close> Suc \<open>i = Suc i'\<close> by simp
            with i(3) have "f ((b' # xs) ! Suc j'') < f r" by blast
            then show ?thesis using \<open>j = Suc j'\<close> Suc b' by simp
          qed
        qed
      qed
      ultimately show ?thesis using i(1) Suc r by (intro exI [of _ "Suc (Suc i')"]) auto
    qed
  qed
qed

text \<open>\<open>len(a & b)\<close> and \<open>len(a | b)\<close> for the duplicate-free lists that
  model Python sets.\<close>

lemma length_filter_in_distinct [py_simps]:
  "distinct xs \<Longrightarrow> length (filter (\<lambda>w. w \<in> set ys) xs) = card (set xs \<inter> set ys)"
  by (metis distinct_filter distinct_card set_filter Int_def)

lemma length_remdups_union [py_simps]: "length (remdups (xs @ ys)) = card (set xs \<union> set ys)"
  by (simp add: length_remdups_card_conv)

text \<open>Membership in the output of nested \<open>for\<close> loops that append.\<close>

lemma in_concat_map [py_simps]: "x \<in> set (concat (map f xs)) \<longleftrightarrow> (\<exists>y. y \<in> set xs \<and> x \<in> set (f y))"
  by auto

text \<open>The pairs \<open>(xs[i], xs[j])\<close> with \<open>i < j\<close> that a nested loop
  \<open>for i, x in enumerate(xs): for y in xs[i+1:]\<close> visits, split at the head.\<close>

lemma ordered_pairs_Cons [py_simps]:
  "(\<exists>i j. i < j \<and> j < length (x # xs) \<and> P ((x # xs) ! i) ((x # xs) ! j)) \<longleftrightarrow>
     (\<exists>y. y \<in> set xs \<and> P x y) \<or> (\<exists>i j. i < j \<and> j < length xs \<and> P (xs ! i) (xs ! j))"
proof
  assume "\<exists>i j. i < j \<and> j < length (x # xs) \<and> P ((x # xs) ! i) ((x # xs) ! j)"
  then obtain i j where ij: "i < j" "j < length (x # xs)" "P ((x # xs) ! i) ((x # xs) ! j)"
    by blast
  then obtain j' where j: "j = Suc j'" by (cases j) auto
  show "(\<exists>y. y \<in> set xs \<and> P x y) \<or> (\<exists>i j. i < j \<and> j < length xs \<and> P (xs ! i) (xs ! j))"
  proof (cases i)
    case 0
    then show ?thesis using ij j by (auto simp: in_set_conv_nth)
  next
    case (Suc i')
    then show ?thesis using ij j by auto
  qed
next
  assume "(\<exists>y. y \<in> set xs \<and> P x y) \<or> (\<exists>i j. i < j \<and> j < length xs \<and> P (xs ! i) (xs ! j))"
  then show "\<exists>i j. i < j \<and> j < length (x # xs) \<and> P ((x # xs) ! i) ((x # xs) ! j)"
  proof
    assume "\<exists>y. y \<in> set xs \<and> P x y"
    then obtain j where "j < length xs" "P x (xs ! j)" by (auto simp: in_set_conv_nth)
    then show ?thesis by (rule_tac x = 0 in exI, rule_tac x = "Suc j" in exI) simp
  next
    assume "\<exists>i j. i < j \<and> j < length xs \<and> P (xs ! i) (xs ! j)"
    then obtain i j where "i < j" "j < length xs" "P (xs ! i) (xs ! j)" by blast
    then show ?thesis by (rule_tac x = "Suc i" in exI, rule_tac x = "Suc j" in exI) simp
  qed
qed


section \<open>Exceptions\<close>

text \<open>The Python exceptions the modelled code raises, as values: code that can raise
  returns \<open>py_error + 'a\<close>, \<open>Inl\<close> the exception. \<open>sbind\<close> runs two
  statements in sequence and propagates the first exception, and \<open>sfold\<close> is a
  \<open>for\<close> loop over a list whose body can raise.\<close>

datatype py_error = ValueError | KeyError | TypeError | AttributeError | ZeroDivisionError

definition sbind :: "'e + 'a \<Rightarrow> ('a \<Rightarrow> 'e + 'b) \<Rightarrow> 'e + 'b" where
  "sbind x f = (case x of Inl e \<Rightarrow> Inl e | Inr a \<Rightarrow> f a)"

fun sfold :: "('s \<Rightarrow> 'a \<Rightarrow> 'e + 's) \<Rightarrow> 'a list \<Rightarrow> 's \<Rightarrow> 'e + 's" where
  "sfold f [] s = Inr s"
| "sfold f (x # xs) s = sbind (f s x) (sfold f xs)"

lemma sbind_simps [simp, py_simps]: "sbind (Inl e) f = Inl e" "sbind (Inr a) f = f a"
  by (simp_all add: sbind_def)

lemma sbind_Inr_iff [py_simps]: "sbind x f = Inr b \<longleftrightarrow> (\<exists>a. x = Inr a \<and> f a = Inr b)"
  by (cases x) simp_all

lemma sbind_Inl_iff [py_simps]:
  "sbind x f = Inl e \<longleftrightarrow> x = Inl e \<or> (\<exists>a. x = Inr a \<and> f a = Inl e)"
  by (cases x) simp_all

lemma sfold_append [py_simps]: "sfold f (xs @ ys) s = sbind (sfold f xs s) (sfold f ys)"
  by (induction xs arbitrary: s) (simp_all add: sbind_def split: sum.split)

text \<open>A property that every iteration keeps holds after the loop.\<close>

lemma sfold_invariant:
  assumes "\<And>s x s'. P s \<Longrightarrow> x \<in> set xs \<Longrightarrow> f s x = Inr s' \<Longrightarrow> P s'"
    and "P s" and "sfold f xs s = Inr s'"
  shows "P s'"
  using assms
proof (induction xs arbitrary: s)
  case Nil
  then show ?case by simp
next
  case (Cons x xs)
  from Cons.prems(3) obtain s1 where s1: "f s x = Inr s1" "sfold f xs s1 = Inr s'"
    by (auto simp: sbind_Inr_iff)
  have "P s1" using Cons.prems(1) [OF Cons.prems(2) _ s1(1)] by simp
  moreover have "\<And>t y t'. P t \<Longrightarrow> y \<in> set xs \<Longrightarrow> f t y = Inr t' \<Longrightarrow> P t'"
    by (meson Cons.prems(1) list.set_intros(2))
  ultimately show ?case using Cons.IH s1(2) by blast
qed

text \<open>A loop whose body never raises never raises.\<close>

lemma sfold_total:
  assumes "\<And>s x. P s \<Longrightarrow> x \<in> set xs \<Longrightarrow> \<exists>s'. f s x = Inr s' \<and> P s'" and "P s"
  shows "\<exists>s'. sfold f xs s = Inr s' \<and> P s'"
  using assms
proof (induction xs arbitrary: s)
  case Nil
  then show ?case by simp
next
  case (Cons x xs)
  obtain s1 where s1: "f s x = Inr s1" "P s1" using Cons.prems by (meson list.set_intros(1))
  have "\<And>t y. P t \<Longrightarrow> y \<in> set xs \<Longrightarrow> \<exists>t'. f t y = Inr t' \<and> P t'"
    by (meson Cons.prems(1) list.set_intros(2))
  then obtain s' where "sfold f xs s1 = Inr s'" "P s'" using Cons.IH s1(2) by blast
  then show ?case using s1(1) by simp
qed

end
