(* ===== verification/Memory_Unit.thy ===== *)
theory Memory_Unit
  imports Prelude
begin

text \<open>
  The fact record of \<open>src/models/memory_unit.py\<close>: the pydantic classes
  \<open>Provenance\<close> and \<open>MemoryUnit\<close> as records, the canonical key
  (\<open>MemoryUnit.get_key\<close>, and the identical \<open>canonical_key\<close> of
  \<open>src/eval/utils.py\<close>), the type predicates, and the update test and update score
  that the resolver uses. Python's \<open>float\<close> confidences and scores are exact
  rationals here; Python's \<open>int\<close> chapters and versions are \<open>int\<close>. The field
  \<open>id\<close> is called \<open>mem_id\<close> (\<open>id\<close> is the HOL identity function).
\<close>

section \<open>Records\<close>

record provenance =
  prov_chapter :: int
  prov_source :: string
  prov_timestamp :: string

record memory_unit =
  mem_id :: string
  mem_type :: string
  subjects :: "string list"
  predicate :: string
  object :: string
  fact_text :: string
  chapter_start :: int
  chapter_end :: "int option"
  visibility :: string
  confidence :: rat
  is_active :: bool
  provenance :: provenance
  version :: int
  supersedes :: "string option"
  superseded_by :: "string option"
  update_reason :: "string option"
  update_confidence :: "rat option"
  embedding :: "rat list option"
  attrs :: "(string \<times> string) list"

text \<open>The three memory types and the two reserved entities, as the code spells them.\<close>

abbreviation WM :: string where "WM \<equiv> ''WM''"
abbreviation IC :: string where "IC \<equiv> ''IC''"
abbreviation C2U :: string where "C2U \<equiv> ''C2U''"
abbreviation world_entity :: string where "world_entity \<equiv> ''world''"
abbreviation user_entity :: string where "user_entity \<equiv> ''user_123''"

section \<open>Canonical key\<close>

definition canonical_key :: "string list \<Rightarrow> string \<Rightarrow> string \<Rightarrow> string" where
  "canonical_key subjs pred obj = py_join ''::'' (sort subjs) @ ''::'' @ pred @ ''::'' @ obj"

definition get_key :: "memory_unit \<Rightarrow> string" where
  "get_key m = canonical_key (subjects m) (predicate m) (object m)"

section \<open>Type predicates\<close>

definition is_world_memory :: "memory_unit \<Rightarrow> bool" where
  "is_world_memory m \<longleftrightarrow> mem_type m = WM \<and> subjects m = [world_entity]"

definition is_character_memory :: "memory_unit \<Rightarrow> bool" where
  "is_character_memory m \<longleftrightarrow> mem_type m = IC \<and> length (subjects m) = 2"

definition is_user_memory :: "memory_unit \<Rightarrow> bool" where
  "is_user_memory m \<longleftrightarrow> mem_type m = C2U \<and> user_entity \<in> set (subjects m)"

section \<open>Update test and update score\<close>

text \<open>\<open>self.can_update(new_memory)\<close>, its three early returns in order.\<close>

definition can_update :: "memory_unit \<Rightarrow> memory_unit \<Rightarrow> bool" where
  "can_update self new =
     (if get_key self \<noteq> get_key new then False
      else if \<not> is_active self then False
      else if chapter_start new \<le> chapter_start self then False
      else True)"

text \<open>\<open>self.get_update_score(new_memory)\<close>: the score accumulates four terms and
  is capped at 1 by \<open>min(1.0, score)\<close>; there is no lower clamp.\<close>

definition update_score_raw :: "memory_unit \<Rightarrow> memory_unit \<Rightarrow> rat" where
  "update_score_raw self new =
     confidence new * 0.3
     + min 0.2 (of_int (chapter_start new - chapter_start self) * 0.05)
     + (if confidence new > confidence self then 0.2 else 0)
     + (if chapter_start self < chapter_start new - 5 then 0.1 else 0)"

definition get_update_score :: "memory_unit \<Rightarrow> memory_unit \<Rightarrow> rat" where
  "get_update_score self new =
     (if \<not> can_update self new then 0 else min 1 (update_score_raw self new))"

section \<open>Construction of a candidate\<close>

text \<open>
  \<open>MemoryExtractor._create_memory_unit\<close> (\<open>src/llm/memory_extractor.py\<close>)
  builds every candidate the store receives. The uuid and the ISO timestamp are its
  nondeterministic inputs and are parameters here; the visibility, when missing or
  empty, comes from \<open>visibility_defaults\<close> of \<open>load_defaults\<close>
  (\<open>src/config/defaults.py\<close>, whose fallback table is modelled), and the text is
  cut to 140 characters.
\<close>

definition visibility_default :: "string \<Rightarrow> string" where
  "visibility_default t =
     (if t = WM then ''global'' else if t = IC then ''shared''
      else if t = C2U then ''private'' else ''shared'')"

definition create_memory_unit ::
  "string \<Rightarrow> string \<Rightarrow> string list \<Rightarrow> string \<Rightarrow> string \<Rightarrow> string \<Rightarrow> rat \<Rightarrow>
   string option \<Rightarrow> int \<Rightarrow> string \<Rightarrow> memory_unit" where
  "create_memory_unit uid typ subjs text pred obj conf vis chapter stamp =
     \<lparr>mem_id = uid, mem_type = typ, subjects = subjs, predicate = pred, object = obj,
      fact_text = take 140 text, chapter_start = chapter, chapter_end = None,
      visibility = (case vis of None \<Rightarrow> visibility_default typ
                    | Some v \<Rightarrow> if v = [] then visibility_default typ else v),
      confidence = conf, is_active = True,
      provenance = \<lparr>prov_chapter = chapter, prov_source = ''synopsis'', prov_timestamp = stamp\<rparr>,
      version = 1, supersedes = None, superseded_by = None, update_reason = None,
      update_confidence = None, embedding = None, attrs = [(''language'', ''en'')]\<rparr>"

text \<open>Two candidates of the spec's examples, used by the witnesses.\<close>

definition affair_fact :: "int \<Rightarrow> rat \<Rightarrow> memory_unit" where
  "affair_fact ch conf =
     create_memory_unit ''cand'' IC [''dimitri'', ''byleth'']
       ''Byleth and Dimitri started an affair.'' ''relationship_status'' ''started_affair''
       conf None ch ''t0''"

definition world_fact :: "string \<Rightarrow> memory_unit" where
  "world_fact text =
     create_memory_unit ''w'' WM [world_entity] text ''alert'' ''company_memo'' 0.9 None 1 ''t0''"

section \<open>Lemmas\<close>

lemma sort_eq_of_mset_eq: "mset xs = mset ys \<Longrightarrow> sort xs = sort ys"
  by (metis properties_for_sort mset_sort sorted_sort)

lemma py_join_snoc2:
  "xs \<noteq> [] \<Longrightarrow> py_join sep (xs @ [p, q]) = py_join sep xs @ sep @ p @ sep @ q"
  by (induction sep xs rule: py_join.induct) auto

lemma canonical_key_join:
  assumes "subjs \<noteq> []"
  shows "canonical_key subjs pred obj = py_join ''::'' (sort subjs @ [pred, obj])"
proof -
  have "sort subjs \<noteq> []" using assms by (metis length_0_conv length_sort)
  then show ?thesis by (simp add: canonical_key_def py_join_snoc2)
qed

lemma can_update_iff:
  "can_update self new \<longleftrightarrow>
     get_key self = get_key new \<and> is_active self \<and> chapter_start self < chapter_start new"
  by (auto simp: can_update_def)

lemma update_score_raw_nonneg:
  "0 \<le> confidence new \<Longrightarrow> chapter_start self < chapter_start new \<Longrightarrow>
     0 \<le> update_score_raw self new"
  by (simp add: update_score_raw_def)

lemma update_score_raw_le:
  assumes "confidence new \<le> 1"
  shows "update_score_raw self new \<le> 0.8"
proof -
  have "min (0.2::rat) (of_int (chapter_start new - chapter_start self) * 0.05) \<le> 0.2"
    by simp
  moreover have "confidence new * 0.3 \<le> 0.3" using assms by simp
  moreover have "(if confidence new > confidence self then 0.2 else 0) \<le> (0.2::rat)"
    by simp
  moreover have "(if chapter_start self < chapter_start new - 5 then 0.1 else 0) \<le> (0.1::rat)"
    by simp
  ultimately show ?thesis unfolding update_score_raw_def by linarith
qed

lemma update_score_raw_ge:
  assumes "0 \<le> confidence new" and "chapter_start self < chapter_start new"
  shows "0 \<le> update_score_raw self new"
  using assms by (simp add: update_score_raw_def)

section \<open>Properties of the fact record\<close>

text \<open>C7. The canonical key ignores the order of the subjects (spec, section 8:
  \<open>key(["b","a"],p,o) == key(["a","b"],p,o)\<close>): any two subject lists that are
  permutations of each other give the same key.\<close>

theorem canonical_key_perm:
  "mset xs = mset ys \<Longrightarrow> canonical_key xs pred obj = canonical_key ys pred obj"
proof -
  assume "mset xs = mset ys"
  then have "sort xs = sort ys" by (rule sort_eq_of_mset_eq)
  then show ?thesis by (simp add: canonical_key_def)
qed

theorem canonical_key_perm_witness:
  "mset [''b'', ''a''] = mset [''a'', ''b''] \<and>
   canonical_key [''b'', ''a''] ''relationship_status'' ''started_affair'' =
   canonical_key [''a'', ''b''] ''relationship_status'' ''started_affair''"
proof -
  have "mset [''b'', ''a''] = mset [''a'', ''b'']" by simp
  with canonical_key_perm [OF this] show ?thesis by simp
qed

text \<open>C8. When no identifier contains a colon and there is at least one subject, the
  key determines the slot: equal keys mean the same subjects up to order, the same
  predicate and the same object.\<close>

theorem canonical_key_inj:
  assumes "xs \<noteq> []" and "ys \<noteq> []"
    and "\<forall>x \<in> set xs. colon_free x" and "\<forall>y \<in> set ys. colon_free y"
    and "colon_free p" and "colon_free q" and "colon_free o1" and "colon_free o2"
    and eq: "canonical_key xs p o1 = canonical_key ys q o2"
  shows "mset xs = mset ys \<and> p = q \<and> o1 = o2"
proof -
  have sx: "split_dcolon (py_join ''::'' (sort xs @ [p, o1])) = sort xs @ [p, o1]"
    using assms by (intro split_dcolon_join) simp_all
  have sy: "split_dcolon (py_join ''::'' (sort ys @ [q, o2])) = sort ys @ [q, o2]"
    using assms by (intro split_dcolon_join) simp_all
  have "py_join ''::'' (sort xs @ [p, o1]) = py_join ''::'' (sort ys @ [q, o2])"
    using eq assms(1,2) by (simp add: canonical_key_join)
  then have l: "sort xs @ [p, o1] = sort ys @ [q, o2]"
    using sx sy by metis
  then have "length (sort xs @ [p, o1]) = length (sort ys @ [q, o2])" by (rule arg_cong)
  then have "length (sort xs) = length (sort ys)" by simp
  with l have "sort xs = sort ys \<and> p = q \<and> o1 = o2"
    using append_eq_append_conv [of "sort xs" "sort ys" "[p, o1]" "[q, o2]"] by simp
  then show ?thesis by (metis mset_sort)
qed

theorem canonical_key_inj_witness:
  "canonical_key [''dimitri'', ''byleth''] ''contact'' ''private_meeting'' =
   canonical_key [''byleth'', ''dimitri''] ''contact'' ''private_meeting'' \<and>
   mset [''dimitri'', ''byleth''] = mset [''byleth'', ''dimitri'']"
proof -
  have "mset [''dimitri'', ''byleth''] = mset [''byleth'', ''dimitri''] \<and>
      ''contact'' = ''contact'' \<and> ''private_meeting'' = ''private_meeting''"
    by (rule canonical_key_inj) (simp_all add: colon_free_def canonical_key_def)
  then show ?thesis by (simp add: canonical_key_def)
qed

text \<open>Without that condition the key is not an identity: a subject containing the
  separator \<open>::\<close> gives two different slots the same key, so that the resolver and
  the consistency checks treat unrelated facts as versions of one another.\<close>

theorem canonical_key_collision:
  "canonical_key [''a'', ''b''] ''c'' ''d'' = canonical_key [''a::b''] ''c'' ''d'' \<and>
   mset [''a'', ''b''] \<noteq> mset [''a::b'']"
  by (simp add: canonical_key_def)

text \<open>With a non-negative candidate confidence the update score lies in [0, 1]:
  the code caps it at 1 and the terms it adds are then non-negative.\<close>

theorem get_update_score_bounds:
  "0 \<le> confidence new \<Longrightarrow> 0 \<le> get_update_score self new \<and> get_update_score self new \<le> 1"
  by (auto simp: get_update_score_def can_update_iff intro: update_score_raw_ge)

theorem get_update_score_bounds_witness:
  "0 \<le> confidence (affair_fact 4 0.95) \<and>
   get_update_score (affair_fact 1 0.9) (affair_fact 4 0.95) = 0.635 \<and>
   0 \<le> get_update_score (affair_fact 1 0.9) (affair_fact 4 0.95) \<and>
   get_update_score (affair_fact 1 0.9) (affair_fact 4 0.95) \<le> 1"
proof -
  have c: "0 \<le> confidence (affair_fact 4 0.95)"
    by (simp add: affair_fact_def create_memory_unit_def)
  have v: "get_update_score (affair_fact 1 0.9) (affair_fact 4 0.95) = 0.635"
    by (simp add: get_update_score_def can_update_def update_score_raw_def get_key_def
        affair_fact_def create_memory_unit_def)
  show ?thesis using get_update_score_bounds [OF c] c v by simp
qed

text \<open>C13. For confidences at most 1 the score never exceeds 0.8, so the branch
  \<open>score > 0.8\<close> (reason \<open>high_confidence_update\<close>) of
  \<open>smart_update_or_create\<close> is unreachable.\<close>

theorem get_update_score_le_08:
  "confidence new \<le> 1 \<Longrightarrow> get_update_score self new \<le> 0.8"
proof -
  assume c: "confidence new \<le> 1"
  have "min 1 (update_score_raw self new) \<le> 0.8"
    using update_score_raw_le [OF c, of self] by linarith
  then show ?thesis unfolding get_update_score_def by auto
qed

theorem get_update_score_le_08_witness:
  "confidence (affair_fact 9 1) \<le> 1 \<and>
   get_update_score (affair_fact 1 0.5) (affair_fact 9 1) = 0.8"
proof -
  have c: "confidence (affair_fact 9 1) \<le> 1" by (simp add: affair_fact_def create_memory_unit_def)
  have "get_update_score (affair_fact 1 0.5) (affair_fact 9 1) = 0.8"
    by (simp add: get_update_score_def can_update_def update_score_raw_def get_key_def
        affair_fact_def create_memory_unit_def)
  then show ?thesis using get_update_score_le_08 [OF c] c by simp
qed

text \<open>At the default threshold 0.6, a candidate that is not more confident than
  the existing fact reaches the threshold only with confidence exactly 1 and a gap of
  more than five chapters: recency alone never triggers a supersession.\<close>

theorem get_update_score_threshold:
  assumes "confidence new \<le> 1" and "\<not> confidence self < confidence new"
    and "0.6 \<le> get_update_score self new"
  shows "confidence new = 1 \<and> chapter_start self < chapter_start new - 5"
proof -
  have cu: "can_update self new"
    using assms(3) by (auto simp: get_update_score_def split: if_splits)
  then have raw: "0.6 \<le> update_score_raw self new"
    using assms(3) by (simp add: get_update_score_def)
  have m: "min (0.2::rat) (of_int (chapter_start new - chapter_start self) * 0.05) \<le> 0.2"
    by simp
  show ?thesis
  proof (cases "chapter_start self < chapter_start new - 5")
    case True
    with raw assms(1,2) m show ?thesis unfolding update_score_raw_def by simp
  next
    case False
    with raw assms(1,2) m show ?thesis unfolding update_score_raw_def by simp
  qed
qed

theorem get_update_score_threshold_witness:
  "confidence (affair_fact 7 1) \<le> 1 \<and>
   \<not> confidence (affair_fact 1 1) < confidence (affair_fact 7 1) \<and>
   0.6 \<le> get_update_score (affair_fact 1 1) (affair_fact 7 1) \<and>
   confidence (affair_fact 7 1) = 1 \<and>
   chapter_start (affair_fact 1 1) < chapter_start (affair_fact 7 1) - 5"
proof -
  have a: "confidence (affair_fact 7 1) \<le> 1"
    and b: "\<not> confidence (affair_fact 1 1) < confidence (affair_fact 7 1)"
    by (simp_all add: affair_fact_def create_memory_unit_def)
  have c: "0.6 \<le> get_update_score (affair_fact 1 1) (affair_fact 7 1)"
    by (simp add: get_update_score_def can_update_def update_score_raw_def get_key_def
        affair_fact_def create_memory_unit_def)
  show ?thesis using get_update_score_threshold [OF a b c] a b c by simp
qed

end
