(* ===== verification/Store.thy ===== *)
theory Store
  imports Memory_Unit
begin

text \<open>
  The state and the read operations of \<open>SimpleMemoryStore\<close>
  (\<open>src/storage/simple_memory_store.py\<close>). The Python store keeps the same
  \<open>MemoryUnit\<close> objects in two dictionaries, \<open>chapter_memories\<close> (chapter to a
  list of objects) and \<open>all_memories\<close> (id to object), and the resolver mutates an
  object through one of them. The model makes the sharing explicit: \<open>heap\<close> holds
  every object ever created, at its address (its index), and both dictionaries hold
  addresses. Loading, adding, and reading are defined here; the update path is in
  \<open>Resolver\<close>.
\<close>

section \<open>State\<close>

record store =
  heap :: "memory_unit list"
  chapter_memories :: "(int, nat list) pydict"
  all_memories :: "(string, nat) pydict"

definition empty_store :: store where
  "empty_store = \<lparr>heap = [], chapter_memories = [], all_memories = []\<rparr>"

definition deref :: "store \<Rightarrow> nat \<Rightarrow> memory_unit" where
  "deref s a = heap s ! a"

definition alloc :: "memory_unit \<Rightarrow> store \<Rightarrow> nat \<times> store" where
  "alloc m s = (length (heap s), s\<lparr>heap := heap s @ [m]\<rparr>)"

definition set_obj :: "nat \<Rightarrow> memory_unit \<Rightarrow> store \<Rightarrow> store" where
  "set_obj a m s = s\<lparr>heap := (heap s)[a := m]\<rparr>"

text \<open>The objects of \<open>all_memories.values()\<close>, in dictionary order: the abstract
  view of the store, and what \<open>save_memories\<close> writes, one line per record.\<close>

definition records :: "store \<Rightarrow> memory_unit list" where
  "records s = map (deref s \<circ> snd) (all_memories s)"

definition chapter_list :: "store \<Rightarrow> int \<Rightarrow> nat list" where
  "chapter_list s ch = (case dict_get (chapter_memories s) ch of None \<Rightarrow> [] | Some l \<Rightarrow> l)"

section \<open>Writing\<close>

text \<open>\<open>_add_memory_to_chapter\<close>: create the chapter's list if absent, then append.\<close>

definition add_memory_to_chapter :: "nat \<Rightarrow> int \<Rightarrow> store \<Rightarrow> store" where
  "add_memory_to_chapter a ch s =
     s\<lparr>chapter_memories := dict_set ch (chapter_list s ch @ [a]) (chapter_memories s)\<rparr>"

text \<open>\<open>load_memories\<close>, for the records already parsed from the lines of the file:
  each is a new object, indexed by its \<open>chapter_start\<close> and stored under its id
  (a repeated id overwrites the dictionary entry).\<close>

definition load_one :: "memory_unit \<Rightarrow> store \<Rightarrow> store" where
  "load_one m s =
     (let (a, s1) = alloc m s;
          s2 = add_memory_to_chapter a (chapter_start m) s1
      in s2\<lparr>all_memories := dict_set (mem_id m) a (all_memories s2)\<rparr>)"

definition load_memories :: "memory_unit list \<Rightarrow> store \<Rightarrow> store" where
  "load_memories ms s = fold load_one ms s"

definition save_memories :: "store \<Rightarrow> memory_unit list" where
  "save_memories s = records s"

text \<open>\<open>add_new_memory(memory, chapter)\<close>: the candidate object gets a fresh id
  (the value \<open>u\<close> of \<open>uuid.uuid4()\<close>), the chapter as start and as provenance
  chapter, and is stored.\<close>

definition add_new_memory :: "memory_unit \<Rightarrow> int \<Rightarrow> string \<Rightarrow> store \<Rightarrow> store \<times> memory_unit" where
  "add_new_memory m ch u s =
     (let m' = m\<lparr>mem_id := u, chapter_start := ch,
                 provenance := (provenance m)\<lparr>prov_chapter := ch\<rparr>\<rparr>;
          (a, s1) = alloc m' s;
          s2 = add_memory_to_chapter a ch s1
      in (s2\<lparr>all_memories := dict_set u a (all_memories s2)\<rparr>, m'))"

section \<open>Reading\<close>

text \<open>\<open>find_existing_memory\<close>: the first active object with the same key.\<close>

definition find_existing_memory :: "memory_unit \<Rightarrow> store \<Rightarrow> memory_unit option" where
  "find_existing_memory m s = find (\<lambda>e. is_active e \<and> get_key e = get_key m) (records s)"

text \<open>\<open>get_memories_at_chapter(chapter)\<close>: chapters \<open>1 .. chapter\<close> in order, each
  chapter's list in insertion order, keeping the active objects whose end is unset or
  not before the chapter.\<close>

definition visible_at :: "int \<Rightarrow> memory_unit \<Rightarrow> bool" where
  "visible_at c m \<longleftrightarrow> is_active m \<and> (case chapter_end m of None \<Rightarrow> True | Some e \<Rightarrow> c \<le> e)"

definition get_memories_at_chapter :: "store \<Rightarrow> int \<Rightarrow> memory_unit list" where
  "get_memories_at_chapter s c =
     concat (map (\<lambda>ch. filter (visible_at c) (map (deref s) (chapter_list s ch))) [1..c])"

text \<open>\<open>get_memory_timeline(key)\<close>: \<open>list.sort\<close> is stable, as \<open>sort_key\<close> is.\<close>

definition get_memory_timeline :: "store \<Rightarrow> string \<Rightarrow> memory_unit list" where
  "get_memory_timeline s key = sort_key chapter_start (filter (\<lambda>m. get_key m = key) (records s))"

definition get_chapter_summary :: "store \<Rightarrow> (int, nat) pydict" where
  "get_chapter_summary s = map (\<lambda>(ch, l). (ch, length l)) (chapter_memories s)"

definition get_total_memories :: "store \<Rightarrow> nat" where
  "get_total_memories s = length (all_memories s)"

definition get_chapters_with_memories :: "store \<Rightarrow> int list" where
  "get_chapters_with_memories s = sort (map fst (chapter_memories s))"

text \<open>
  \<open>get_memory_evolution(memory_id)\<close> is the loop
  \<open>while current_id: ... current_id = memory.supersedes\<close>, which stops at an empty
  or missing id and has no visited set, so a cyclic chain never stops. It is modelled
  with fuel: each iteration spends one unit, and \<open>None\<close> means that the loop has not
  stopped within the fuel given.
\<close>

fun evolution_fuel :: "nat \<Rightarrow> store \<Rightarrow> string option \<Rightarrow> memory_unit list \<Rightarrow> memory_unit list option" where
  "evolution_fuel 0 s cur acc = None"
| "evolution_fuel (Suc n) s cur acc =
     (case cur of
        None \<Rightarrow> Some acc
      | Some c \<Rightarrow>
          if c = [] then Some acc
          else (case dict_get (all_memories s) c of
                  None \<Rightarrow> Some acc
                | Some a \<Rightarrow> evolution_fuel n s (supersedes (deref s a)) (deref s a # acc)))"

definition get_memory_evolution :: "nat \<Rightarrow> store \<Rightarrow> string \<Rightarrow> memory_unit list option" where
  "get_memory_evolution fuel s mid = evolution_fuel fuel s (Some mid) []"

section \<open>Invariant\<close>

text \<open>
  What the store keeps true between its two dictionaries: ids are unique keys, every
  entry of \<open>all_memories\<close> points at an allocated object carrying that id, every
  object of a chapter list starts in that chapter, and the chapter lists hold exactly
  the objects of \<open>all_memories\<close>, each once.
\<close>

definition store_inv :: "store \<Rightarrow> bool" where
  "store_inv s \<longleftrightarrow>
     distinct (map fst (all_memories s)) \<and>
     distinct (map fst (chapter_memories s)) \<and>
     (\<forall>(k, a) \<in> set (all_memories s). a < length (heap s) \<and> mem_id (heap s ! a) = k) \<and>
     (\<forall>(ch, l) \<in> set (chapter_memories s). \<forall>a \<in> set l.
        a < length (heap s) \<and> chapter_start (heap s ! a) = ch) \<and>
     mset (concat (map snd (chapter_memories s))) = mset (map snd (all_memories s)) \<and>
     distinct (map snd (all_memories s))"

text \<open>A chain is well formed when every stored record has a positive version and the
  record it supersedes is stored and has a smaller version: what the resolver builds,
  since it gives the successor the version of its predecessor plus one.\<close>

definition chain_ok :: "store \<Rightarrow> bool" where
  "chain_ok s \<longleftrightarrow>
     (\<forall>(k, a) \<in> set (all_memories s).
        1 \<le> version (heap s ! a) \<and>
        (\<forall>p. supersedes (heap s ! a) = Some p \<longrightarrow>
           (\<exists>b. dict_get (all_memories s) p = Some b \<and> version (heap s ! b) < version (heap s ! a))))"

definition evo_measure :: "store \<Rightarrow> string option \<Rightarrow> nat" where
  "evo_measure s cur =
     (case cur of None \<Rightarrow> 0
      | Some c \<Rightarrow> (case dict_get (all_memories s) c of None \<Rightarrow> 0
                   | Some a \<Rightarrow> nat (version (heap s ! a))))"

lemma store_inv_empty: "store_inv empty_store"
  by (simp add: store_inv_def empty_store_def)

section \<open>Lemmas on the state\<close>

lemma load_one_eq:
  "load_one m s =
     \<lparr>heap = heap s @ [m],
      chapter_memories = dict_set (chapter_start m) (chapter_list s (chapter_start m) @ [length (heap s)])
                           (chapter_memories s),
      all_memories = dict_set (mem_id m) (length (heap s)) (all_memories s)\<rparr>"
  by (simp add: load_one_def alloc_def add_memory_to_chapter_def chapter_list_def)

lemma add_new_memory_load_one:
  "add_new_memory m ch u s =
     (let m' = m\<lparr>mem_id := u, chapter_start := ch,
                 provenance := (provenance m)\<lparr>prov_chapter := ch\<rparr>\<rparr>
      in (load_one m' s, m'))"
  by (simp add: add_new_memory_def load_one_def alloc_def add_memory_to_chapter_def
      chapter_list_def Let_def)

lemma chapter_list_inv:
  "store_inv s \<Longrightarrow> a \<in> set (chapter_list s ch) \<Longrightarrow>
     a < length (heap s) \<and> chapter_start (heap s ! a) = ch"
proof -
  assume inv: "store_inv s" and a: "a \<in> set (chapter_list s ch)"
  then obtain l where l: "dict_get (chapter_memories s) ch = Some l" and "a \<in> set l"
    by (cases "dict_get (chapter_memories s) ch") (auto simp: chapter_list_def)
  moreover from l have "(ch, l) \<in> set (chapter_memories s)" by (rule dict_get_Some_in)
  ultimately show ?thesis using inv unfolding store_inv_def by blast
qed

lemma in_chapter_lists:
  assumes "store_inv s"
  shows "a \<in> snd ` set (all_memories s) \<longleftrightarrow> (\<exists>ch. a \<in> set (chapter_list s ch))"
proof -
  from assms have "set (concat (map snd (chapter_memories s))) = snd ` set (all_memories s)"
    unfolding store_inv_def by (metis set_map set_mset_mset)
  moreover have "a \<in> set (concat (map snd (chapter_memories s))) \<longleftrightarrow>
      (\<exists>ch. a \<in> set (chapter_list s ch))"
  proof
    assume "a \<in> set (concat (map snd (chapter_memories s)))"
    then obtain ch l where p: "(ch, l) \<in> set (chapter_memories s)" and "a \<in> set l" by auto
    moreover from assms p have "chapter_list s ch = l"
      by (simp add: store_inv_def chapter_list_def dict_get_in_distinct)
    ultimately show "\<exists>ch. a \<in> set (chapter_list s ch)" by blast
  next
    assume "\<exists>ch. a \<in> set (chapter_list s ch)"
    then obtain ch where a: "a \<in> set (chapter_list s ch)" ..
    then obtain l where l: "dict_get (chapter_memories s) ch = Some l" and "a \<in> set l"
      by (cases "dict_get (chapter_memories s) ch") (auto simp: chapter_list_def)
    moreover from l have "(ch, l) \<in> set (chapter_memories s)" by (rule dict_get_Some_in)
    ultimately show "a \<in> set (concat (map snd (chapter_memories s)))" by force
  qed
  ultimately show ?thesis by blast
qed

lemma records_deref:
  "m \<in> set (records s) \<longleftrightarrow> (\<exists>a \<in> snd ` set (all_memories s). m = heap s ! a)"
  by (auto simp: records_def deref_def)

lemma store_inv_load_one:
  assumes inv: "store_inv s" and fresh: "mem_id m \<notin> fst ` set (all_memories s)"
  shows "store_inv (load_one m s)"
proof -
  let ?n = "length (heap s)"
  let ?ch = "chapter_start m"
  have all': "dict_set (mem_id m) ?n (all_memories s) = all_memories s @ [(mem_id m, ?n)]"
    using fresh by (rule dict_set_fresh)
  have old: "\<forall>(k, a) \<in> set (all_memories s). a < ?n \<and> mem_id (heap s ! a) = k"
    using inv by (simp add: store_inv_def)
  then have n_new: "?n \<notin> snd ` set (all_memories s)" by fastforce
  have chaps: "\<forall>(ch, l) \<in> set (dict_set ?ch (chapter_list s ?ch @ [?n]) (chapter_memories s)).
      \<forall>a \<in> set l. a < Suc ?n \<and> chapter_start ((heap s @ [m]) ! a) = ch"
  proof (intro ballI, clarify)
    fix ch l a
    assume p: "(ch, l) \<in> set (dict_set ?ch (chapter_list s ?ch @ [?n]) (chapter_memories s))"
      and a: "a \<in> set l"
    from set_dict_set [OF p] show "a < Suc ?n \<and> chapter_start ((heap s @ [m]) ! a) = ch"
    proof
      assume "(ch, l) = (?ch, chapter_list s ?ch @ [?n])"
      with a chapter_list_inv [OF inv] show ?thesis by (auto simp: nth_append)
    next
      assume "(ch, l) \<in> set (chapter_memories s)"
      with a inv show ?thesis by (fastforce simp: store_inv_def nth_append)
    qed
  qed
  have ms: "mset (concat (map snd (dict_set ?ch (chapter_list s ?ch @ [?n]) (chapter_memories s))))
      = mset (concat (map snd (chapter_memories s))) + {#?n#}"
    using mset_concat_dict_set [of "chapter_memories s" ?ch "chapter_list s ?ch @ [?n]"] inv
    by (simp add: store_inv_def chapter_list_def)
  show ?thesis
    unfolding load_one_eq store_inv_def
    using inv old chaps ms n_new fresh
    by (auto simp: store_inv_def all' nth_append)
qed

lemma records_load_one:
  assumes inv: "store_inv s" and fresh: "mem_id m \<notin> fst ` set (all_memories s)"
  shows "records (load_one m s) = records s @ [m]"
proof -
  have all': "dict_set (mem_id m) (length (heap s)) (all_memories s)
      = all_memories s @ [(mem_id m, length (heap s))]"
    using fresh by (rule dict_set_fresh)
  have "\<forall>(k, a) \<in> set (all_memories s). a < length (heap s)"
    using inv by (auto simp: store_inv_def)
  then show ?thesis
    by (auto simp: load_one_eq records_def deref_def all' nth_append)
qed

lemma keys_load_one:
  "fst ` set (all_memories (load_one m s)) = insert (mem_id m) (fst ` set (all_memories s))"
  by (simp add: load_one_eq dict_set_def dom_update)

text \<open>Loading records with fresh, distinct ids keeps the invariant and appends them,
  in file order, to \<open>all_memories.values()\<close>.\<close>

lemma load_memories_fresh:
  assumes "store_inv s" "distinct (map mem_id ms)"
    "\<forall>m \<in> set ms. mem_id m \<notin> fst ` set (all_memories s)"
  shows "store_inv (load_memories ms s) \<and> records (load_memories ms s) = records s @ ms"
  using assms
proof (induction ms arbitrary: s)
  case Nil
  then show ?case by (simp add: load_memories_def)
next
  case (Cons m ms)
  then have "store_inv (load_one m s)" "records (load_one m s) = records s @ [m]"
    by (simp_all add: store_inv_load_one records_load_one)
  moreover have "\<forall>x \<in> set ms. mem_id x \<notin> fst ` set (all_memories (load_one m s))"
    using Cons.prems by (auto simp: keys_load_one) (metis image_eqI)
  ultimately show ?case
    using Cons.IH [of "load_one m s"] Cons.prems by (simp add: load_memories_def)
qed

lemma records_load_memories_empty:
  "distinct (map mem_id ms) \<Longrightarrow> records (load_memories ms empty_store) = ms"
  using load_memories_fresh [of empty_store ms] store_inv_empty
  by (simp add: records_def empty_store_def)

text \<open>The facts \<open>simp\<close> needs to run the point-in-time query on a concrete store.\<close>

lemmas store_query_eval = get_memories_at_chapter_def load_one_eq empty_store_def chapter_list_def
  dict_set_def dict_get_def deref_def visible_at_def upto.simps

lemma in_get_memories_at_chapter:
  "m \<in> set (get_memories_at_chapter s c) \<longleftrightarrow>
     (\<exists>ch a. 1 \<le> ch \<and> ch \<le> c \<and> a \<in> set (chapter_list s ch) \<and> m = heap s ! a \<and> visible_at c m)"
  by (auto simp: get_memories_at_chapter_def deref_def)

lemma in_get_memories_at_chapterI:
  assumes inv: "store_inv s" and r: "m \<in> set (records s)" and vis: "visible_at c m"
    and cs: "1 \<le> chapter_start m" "chapter_start m \<le> c"
  shows "m \<in> set (get_memories_at_chapter s c)"
proof -
  from r obtain a where a: "a \<in> snd ` set (all_memories s)" and m: "m = heap s ! a"
    by (auto simp: records_deref)
  from a in_chapter_lists [OF inv] obtain ch where ach: "a \<in> set (chapter_list s ch)" by blast
  from chapter_list_inv [OF inv ach] m have "chapter_start m = ch" by simp
  with ach m vis cs show ?thesis
    by (auto simp: in_get_memories_at_chapter)
qed

lemma evo_measure_step:
  assumes ok: "chain_ok s" and a: "dict_get (all_memories s) c = Some a"
  shows "evo_measure s (supersedes (heap s ! a)) < evo_measure s (Some c)"
proof -
  from a have ca: "(c, a) \<in> set (all_memories s)" by (rule dict_get_Some_in)
  with ok have v: "1 \<le> version (heap s ! a)" by (auto simp: chain_ok_def)
  show ?thesis
  proof (cases "supersedes (heap s ! a)")
    case None
    with a v show ?thesis by (simp add: evo_measure_def)
  next
    case (Some p)
    show ?thesis
    proof (cases "dict_get (all_memories s) p")
      case None
      with Some a v show ?thesis by (simp add: evo_measure_def)
    next
      case (Some b)
      from \<open>supersedes (heap s ! a) = Some p\<close> ok ca
      obtain b' where "dict_get (all_memories s) p = Some b'"
        and "version (heap s ! b') < version (heap s ! a)"
        unfolding chain_ok_def by fastforce
      with Some have "version (heap s ! b) < version (heap s ! a)" by simp
      moreover from Some have "(p, b) \<in> set (all_memories s)" by (rule dict_get_Some_in)
      with ok have "1 \<le> version (heap s ! b)" by (auto simp: chain_ok_def)
      ultimately show ?thesis
        using \<open>supersedes (heap s ! a) = Some p\<close> Some a by (simp add: evo_measure_def)
    qed
  qed
qed

lemma evolution_fuel_enough:
  "chain_ok s \<Longrightarrow> evo_measure s cur < n \<Longrightarrow> \<exists>ys. evolution_fuel n s cur acc = Some ys"
proof (induction n arbitrary: cur acc)
  case 0
  then show ?case by simp
next
  case (Suc n)
  show ?case
  proof (cases cur)
    case None
    then show ?thesis by simp
  next
    case (Some c)
    show ?thesis
    proof (cases "c = [] \<or> dict_get (all_memories s) c = None")
      case True
      with Some show ?thesis by auto
    next
      case False
      then obtain a where a: "dict_get (all_memories s) c = Some a" and c: "c \<noteq> []" by auto
      from evo_measure_step [OF Suc.prems(1) a] Suc.prems(2) Some
      have "evo_measure s (supersedes (heap s ! a)) < n" by simp
      with Suc.IH [OF Suc.prems(1)] obtain ys where
        "evolution_fuel n s (supersedes (heap s ! a)) (heap s ! a # acc) = Some ys" by blast
      with Some a c show ?thesis by (simp add: deref_def)
    qed
  qed
qed

lemma evolution_fuel_mono:
  "evolution_fuel n s cur acc = Some ys \<Longrightarrow> evolution_fuel (Suc n) s cur acc = Some ys"
proof (induction n arbitrary: cur acc)
  case 0
  then show ?case by simp
next
  case (Suc n)
  show ?case
  proof (cases "\<exists>c a. cur = Some c \<and> c \<noteq> [] \<and> dict_get (all_memories s) c = Some a")
    case True
    then obtain c a where c: "cur = Some c" "c \<noteq> []" and a: "dict_get (all_memories s) c = Some a"
      by blast
    with Suc.prems have "evolution_fuel n s (supersedes (deref s a)) (deref s a # acc) = Some ys"
      by simp
    then have "evolution_fuel (Suc n) s (supersedes (deref s a)) (deref s a # acc) = Some ys"
      by (rule Suc.IH)
    with c a show ?thesis by simp
  next
    case False
    with Suc.prems show ?thesis
      by (cases cur) (auto split: option.splits if_splits)
  qed
qed

lemma evolution_fuel_cycle:
  assumes "dict_get (all_memories s) k = Some a" and "supersedes (deref s a) = Some k" and "k \<noteq> []"
  shows "evolution_fuel n s (Some k) acc = None"
  using assms by (induction n arbitrary: acc) simp_all

section \<open>Properties of the store\<close>

text \<open>C1. Point-in-time retrieval never returns a record that starts after the
  chapter asked for, nor one whose end lies before it, nor an inactive one; and, since
  the loop runs over chapters 1 to c, it never returns a record starting before
  chapter 1.\<close>

theorem get_memories_at_chapter_sound:
  assumes "store_inv s" and "m \<in> set (get_memories_at_chapter s c)"
  shows "is_active m \<and> 1 \<le> chapter_start m \<and> chapter_start m \<le> c \<and>
         (\<forall>e. chapter_end m = Some e \<longrightarrow> c \<le> e)"
proof -
  from assms(2) obtain ch a where ch: "1 \<le> ch" "ch \<le> c" and a: "a \<in> set (chapter_list s ch)"
      and m: "m = heap s ! a" and vis: "visible_at c m"
    by (auto simp: in_get_memories_at_chapter)
  from chapter_list_inv [OF assms(1) a] m have "chapter_start m = ch" by simp
  with ch vis show ?thesis by (auto simp: visible_at_def split: option.splits)
qed

theorem get_memories_at_chapter_sound_witness:
  "store_inv (load_one (affair_fact 3 0.9) empty_store) \<and>
   affair_fact 3 0.9 \<in> set (get_memories_at_chapter (load_one (affair_fact 3 0.9) empty_store) 5) \<and>
   is_active (affair_fact 3 0.9) \<and> 1 \<le> chapter_start (affair_fact 3 0.9) \<and>
   chapter_start (affair_fact 3 0.9) \<le> 5"
proof -
  have inv: "store_inv (load_one (affair_fact 3 0.9) empty_store)"
    by (rule store_inv_load_one [OF store_inv_empty]) (simp add: empty_store_def)
  have mem: "affair_fact 3 0.9 \<in> set (get_memories_at_chapter (load_one (affair_fact 3 0.9) empty_store) 5)"
    by (simp add: get_memories_at_chapter_def load_one_eq empty_store_def chapter_list_def
        dict_set_def dict_get_def deref_def visible_at_def affair_fact_def create_memory_unit_def
        upto.simps)
  show ?thesis using get_memories_at_chapter_sound [OF inv mem] inv mem by simp
qed

text \<open>C2. Refinement of the abstract query: the records returned at chapter c are
  exactly the stored records that are visible at c and start in chapters 1 to c.\<close>

theorem get_memories_at_chapter_refines:
  assumes inv: "store_inv s"
  shows "set (get_memories_at_chapter s c) =
         {m \<in> set (records s). visible_at c m \<and> 1 \<le> chapter_start m \<and> chapter_start m \<le> c}"
proof (intro equalityI subsetI)
  fix m assume "m \<in> set (get_memories_at_chapter s c)"
  then obtain ch a where ch: "1 \<le> ch" "ch \<le> c" and a: "a \<in> set (chapter_list s ch)"
      and m: "m = heap s ! a" and vis: "visible_at c m"
    by (auto simp: in_get_memories_at_chapter)
  from a in_chapter_lists [OF inv] have "a \<in> snd ` set (all_memories s)" by blast
  with m have "m \<in> set (records s)" by (auto simp: records_deref)
  moreover from chapter_list_inv [OF inv a] m have "chapter_start m = ch" by simp
  ultimately show "m \<in> {m \<in> set (records s). visible_at c m \<and> 1 \<le> chapter_start m \<and> chapter_start m \<le> c}"
    using ch vis by simp
next
  fix m assume "m \<in> {m \<in> set (records s). visible_at c m \<and> 1 \<le> chapter_start m \<and> chapter_start m \<le> c}"
  then show "m \<in> set (get_memories_at_chapter s c)"
    using in_get_memories_at_chapterI [OF inv] by blast
qed

theorem get_memories_at_chapter_refines_witness:
  "store_inv (load_one (affair_fact 3 0.9) empty_store) \<and>
   set (get_memories_at_chapter (load_one (affair_fact 3 0.9) empty_store) 2) =
   {m \<in> set (records (load_one (affair_fact 3 0.9) empty_store)).
      visible_at 2 m \<and> 1 \<le> chapter_start m \<and> chapter_start m \<le> 2}"
proof -
  have inv: "store_inv (load_one (affair_fact 3 0.9) empty_store)"
    by (rule store_inv_load_one [OF store_inv_empty]) (simp add: empty_store_def)
  show ?thesis using get_memories_at_chapter_refines [OF inv, of 2] inv by simp
qed

text \<open>C5. The evolution walk stops on every well-formed chain: with one more unit of
  fuel than the start record's version, \<open>get_memory_evolution\<close> returns a list.\<close>

theorem get_memory_evolution_terminates:
  "chain_ok s \<Longrightarrow> \<exists>xs. get_memory_evolution (Suc (evo_measure s (Some mid))) s mid = Some xs"
  unfolding get_memory_evolution_def by (rule evolution_fuel_enough) simp_all

theorem get_memory_evolution_terminates_witness:
  "chain_ok (load_one (affair_fact 3 0.9) empty_store) \<and>
   get_memory_evolution (Suc (evo_measure (load_one (affair_fact 3 0.9) empty_store) (Some ''cand'')))
     (load_one (affair_fact 3 0.9) empty_store) ''cand'' = Some [affair_fact 3 0.9]"
proof -
  have ok: "chain_ok (load_one (affair_fact 3 0.9) empty_store)"
    by (simp add: chain_ok_def load_one_eq empty_store_def dict_set_def affair_fact_def
        create_memory_unit_def)
  from get_memory_evolution_terminates [OF ok, of "''cand''"] ok show ?thesis
    by (simp add: get_memory_evolution_def evo_measure_def load_one_eq empty_store_def
        dict_set_def dict_get_def deref_def affair_fact_def create_memory_unit_def)
qed

text \<open>C6. The walk has no visited set: on a record that names itself as the record
  it supersedes, \<open>get_memory_evolution\<close> does not return for any amount of fuel,
  where the spec requires a \<open>ChainCycleError\<close>.\<close>

theorem get_memory_evolution_cycle:
  "dict_get (all_memories s) k = Some a \<Longrightarrow> supersedes (deref s a) = Some k \<Longrightarrow> k \<noteq> [] \<Longrightarrow>
     get_memory_evolution n s k = None"
  unfolding get_memory_evolution_def by (rule evolution_fuel_cycle)

theorem get_memory_evolution_cycle_witness:
  "\<forall>n. get_memory_evolution n
         (load_one ((affair_fact 3 0.9)\<lparr>mem_id := ''x'', supersedes := Some ''x''\<rparr>) empty_store) ''x''
       = None"
proof
  fix n
  let ?s = "load_one ((affair_fact 3 0.9)\<lparr>mem_id := ''x'', supersedes := Some ''x''\<rparr>) empty_store"
  have a: "dict_get (all_memories ?s) ''x'' = Some 0"
    by (simp add: load_one_eq empty_store_def dict_set_def dict_get_def)
  have b: "supersedes (deref ?s 0) = Some ''x''"
    by (simp add: load_one_eq empty_store_def deref_def)
  show "get_memory_evolution n ?s ''x'' = None"
    using get_memory_evolution_cycle [OF a b] by simp
qed

text \<open>A dangling \<open>supersedes\<close> is not an error either: the walk stops at the
  missing id and returns the chain found so far, where the spec requires a
  \<open>DanglingReferenceError\<close>.\<close>

theorem get_memory_evolution_dangling:
  "get_memory_evolution 2
     (load_one ((affair_fact 3 0.9)\<lparr>mem_id := ''x'', supersedes := Some ''gone''\<rparr>) empty_store) ''x''
   = Some [(affair_fact 3 0.9)\<lparr>mem_id := ''x'', supersedes := Some ''gone''\<rparr>]"
  by (simp add: get_memory_evolution_def load_one_eq empty_store_def dict_set_def dict_get_def
      deref_def numeral_2_eq_2)

end
