(* ===== verification/Resolver.thy ===== *)
theory Resolver
  imports Store
begin

text \<open>
  The update path of \<open>SimpleMemoryStore\<close>: \<open>find_all_candidate_memories\<close>,
  \<open>find_best_update_candidate\<close>, \<open>update_existing_memory\<close> and
  \<open>smart_update_or_create\<close>. Candidates are heap addresses, because
  \<open>update_existing_memory\<close> mutates the chosen object in place. The two calls of
  \<open>uuid.uuid4()\<close> in \<open>update_existing_memory\<close> are the inputs \<open>u1\<close> (the
  provisional \<open>superseded_by\<close>, overwritten before the method returns) and \<open>u2\<close>
  (the new record's id); \<open>add_new_memory\<close> uses \<open>u1\<close>. The action string
  \<open>"updated_existing_score_%.2f"\<close> or \<open>"created_new"\<close> is the datatype
  \<open>update_action\<close>, which keeps the score instead of its rendering.
\<close>

section \<open>Definitions\<close>

definition find_all_candidate_memories :: "memory_unit \<Rightarrow> store \<Rightarrow> nat list" where
  "find_all_candidate_memories m s =
     filter (\<lambda>a. get_key (deref s a) = get_key m \<and> can_update (deref s a) m)
       (map snd (all_memories s))"

text \<open>The local list \<open>scored_candidates\<close>: each candidate with its score, in
  dictionary order, scores below \<open>min_score\<close> dropped.\<close>

definition scored_candidates :: "memory_unit \<Rightarrow> rat \<Rightarrow> store \<Rightarrow> (nat \<times> rat) list" where
  "scored_candidates m min_score s =
     filter (\<lambda>(a, sc). min_score \<le> sc)
       (map (\<lambda>a. (a, get_update_score (deref s a) m)) (find_all_candidate_memories m s))"

text \<open>\<open>max(scored_candidates, key=lambda x: x[1])\<close> keeps the first of the maximal
  scores.\<close>

definition find_best_update_candidate :: "memory_unit \<Rightarrow> rat \<Rightarrow> store \<Rightarrow> (nat \<times> rat) option" where
  "find_best_update_candidate m min_score s =
     (if find_all_candidate_memories m s = [] then None
      else (case scored_candidates m min_score s of
              [] \<Rightarrow> None
            | x # xs \<Rightarrow> Some (py_max_key snd x xs)))"

text \<open>The \<open>MemoryUnit(...)\<close> call of \<open>update_existing_memory\<close>: identity fields
  from the existing record, text, confidence and provenance from the new information.\<close>

definition updated_version :: "memory_unit \<Rightarrow> memory_unit \<Rightarrow> int \<Rightarrow> string \<Rightarrow> string \<Rightarrow> memory_unit" where
  "updated_version e new_info ch reason u =
     \<lparr>mem_id = u, mem_type = mem_type e, subjects = subjects e, predicate = predicate e,
      object = object e, fact_text = fact_text new_info, chapter_start = ch, chapter_end = None,
      visibility = visibility e, confidence = confidence new_info, is_active = True,
      provenance = provenance new_info, version = version e + 1, supersedes = Some (mem_id e),
      superseded_by = None, update_reason = Some reason,
      update_confidence = Some (confidence new_info), embedding = None, attrs = attrs e\<rparr>"

definition update_existing_memory ::
  "nat \<Rightarrow> memory_unit \<Rightarrow> int \<Rightarrow> string \<Rightarrow> string \<Rightarrow> string \<Rightarrow> store \<Rightarrow> store \<times> memory_unit" where
  "update_existing_memory a new_info ch reason u1 u2 s =
     (let e = deref s a;
          e1 = e\<lparr>is_active := False, chapter_end := Some (ch - 1), superseded_by := Some u1\<rparr>;
          s1 = set_obj a e1 s;
          upd = updated_version e1 new_info ch reason u2;
          s2 = set_obj a (e1\<lparr>superseded_by := Some (mem_id upd)\<rparr>) s1;
          (b, s3) = alloc upd s2;
          s4 = add_memory_to_chapter b ch s3
      in (s4\<lparr>all_memories := dict_set (mem_id upd) b (all_memories s4)\<rparr>, upd))"

definition update_reason_for :: "rat \<Rightarrow> string" where
  "update_reason_for score =
     (if score > 0.8 then ''high_confidence_update''
      else if score > 0.6 then ''moderate_update''
      else ''low_confidence_update'')"

datatype update_action = Updated_existing rat | Created_new

definition smart_update_or_create ::
  "memory_unit \<Rightarrow> int \<Rightarrow> rat \<Rightarrow> string \<Rightarrow> string \<Rightarrow> store \<Rightarrow> store \<times> memory_unit \<times> update_action" where
  "smart_update_or_create m ch threshold u1 u2 s =
     (case find_best_update_candidate m threshold s of
        Some (a, score) \<Rightarrow>
          (let (s', r) = update_existing_memory a m ch (update_reason_for score) u1 u2 s
           in (s', r, Updated_existing score))
      | None \<Rightarrow> (let (s', r) = add_new_memory m ch u1 s in (s', r, Created_new)))"

text \<open>The default \<open>update_threshold\<close> of \<open>smart_update_or_create\<close>.\<close>

definition default_update_threshold :: rat where
  "default_update_threshold = 0.6"

section \<open>Lemmas\<close>

text \<open>A later observation that is less confident than the record it would update never
  reaches the default threshold.\<close>

lemma update_score_less_confident:
  assumes "confidence new < confidence self" and "confidence self \<le> 1"
  shows "get_update_score self new < 0.6"
proof -
  have "min (0.2::rat) (of_int (chapter_start new - chapter_start self) * 0.05) \<le> 0.2" by simp
  moreover have "confidence new * 0.3 < 0.3" using assms by simp
  ultimately have "update_score_raw self new < 0.6"
    using assms by (simp add: update_score_raw_def)
  then show ?thesis by (simp add: get_update_score_def)
qed


text \<open>The three mutations of the existing object collapse into one write, and the
  rest is a load of the new record.\<close>

definition superseded :: "memory_unit \<Rightarrow> int \<Rightarrow> string \<Rightarrow> memory_unit" where
  "superseded e ch u = e\<lparr>is_active := False, chapter_end := Some (ch - 1), superseded_by := Some u\<rparr>"

lemma updated_version_superseded:
  "updated_version (e\<lparr>is_active := x, chapter_end := y, superseded_by := z\<rparr>) new_info ch reason u =
   updated_version e new_info ch reason u"
  by (simp add: updated_version_def)

lemma update_existing_eq:
  "update_existing_memory a new_info ch reason u1 u2 s =
     (load_one (updated_version (deref s a) new_info ch reason u2)
        (set_obj a (superseded (deref s a) ch u2) s),
      updated_version (deref s a) new_info ch reason u2)"
  by (simp add: update_existing_memory_def load_one_def set_obj_def alloc_def
      add_memory_to_chapter_def chapter_list_def Let_def superseded_def updated_version_def)

lemma store_inv_set_obj:
  assumes inv: "store_inv s" and a: "a < length (heap s)"
    and id: "mem_id m = mem_id (heap s ! a)" and cs: "chapter_start m = chapter_start (heap s ! a)"
  shows "store_inv (set_obj a m s)"
proof -
  have "\<And>b. mem_id ((heap s)[a := m] ! b) = mem_id (heap s ! b) \<and>
      chapter_start ((heap s)[a := m] ! b) = chapter_start (heap s ! b)"
    by (case_tac "b = a") (simp_all add: a id cs)
  with inv show ?thesis
    by (auto simp: store_inv_def set_obj_def)
qed

lemma chain_okI:
  assumes "\<And>k a. (k, a) \<in> set (all_memories s) \<Longrightarrow> 1 \<le> version (heap s ! a)"
    and "\<And>k a q. (k, a) \<in> set (all_memories s) \<Longrightarrow> supersedes (heap s ! a) = Some q \<Longrightarrow>
           \<exists>b. dict_get (all_memories s) q = Some b \<and> version (heap s ! b) < version (heap s ! a)"
  shows "chain_ok s"
  using assms unfolding chain_ok_def by blast

lemma chain_okD:
  assumes "chain_ok s" and "(k, a) \<in> set (all_memories s)"
  shows "1 \<le> version (heap s ! a)"
    and "supersedes (heap s ! a) = Some q \<Longrightarrow>
           \<exists>b. dict_get (all_memories s) q = Some b \<and> version (heap s ! b) < version (heap s ! a)"
  using assms unfolding chain_ok_def by blast+

lemma chain_ok_set_obj:
  assumes ok: "chain_ok s" and a: "a < length (heap s)"
    and v: "version m = version (heap s ! a)" and p: "supersedes m = supersedes (heap s ! a)"
  shows "chain_ok (set_obj a m s)"
proof -
  have "\<And>b. version ((heap s)[a := m] ! b) = version (heap s ! b) \<and>
      supersedes ((heap s)[a := m] ! b) = supersedes (heap s ! b)"
    by (case_tac "b = a") (simp_all add: a v p)
  with ok show ?thesis by (simp add: chain_ok_def set_obj_def)
qed

lemma chain_ok_load_one:
  assumes ok: "chain_ok s" and inv: "store_inv s"
    and fresh: "mem_id m \<notin> fst ` set (all_memories s)" and v: "1 \<le> version m"
    and p: "\<forall>q. supersedes m = Some q \<longrightarrow>
              (\<exists>b. dict_get (all_memories s) q = Some b \<and> version (heap s ! b) < version m)"
  shows "chain_ok (load_one m s)"
proof (rule chain_okI)
  let ?n = "length (heap s)"
  have all': "dict_set (mem_id m) ?n (all_memories s) = all_memories s @ [(mem_id m, ?n)]"
    using fresh by (rule dict_set_fresh)
  have lt: "\<And>k a. (k, a) \<in> set (all_memories s) \<Longrightarrow> a < ?n"
    using inv by (auto simp: store_inv_def)
  have get: "\<And>q b. dict_get (all_memories s) q = Some b \<Longrightarrow>
      dict_get (all_memories (load_one m s)) q = Some b \<and> b < ?n"
    using fresh lt by (force simp: load_one_eq dest: dict_get_Some_in)
  have h: "heap (load_one m s) = heap s @ [m]" by (simp add: load_one_eq)
  {
    fix k a assume "(k, a) \<in> set (all_memories (load_one m s))"
    then have "(k, a) \<in> set (all_memories s) \<or> (k, a) = (mem_id m, ?n)"
      by (auto simp: load_one_eq all')
  } note cases_ka = this
  fix k a
  assume ka: "(k, a) \<in> set (all_memories (load_one m s))"
  show "1 \<le> version (heap (load_one m s) ! a)"
    using cases_ka [OF ka] chain_okD(1) [OF ok] lt v h by (auto simp: nth_append)
  fix q
  assume sq: "supersedes (heap (load_one m s) ! a) = Some q"
  show "\<exists>b. dict_get (all_memories (load_one m s)) q = Some b \<and>
            version (heap (load_one m s) ! b) < version (heap (load_one m s) ! a)"
  proof (cases "(k, a) \<in> set (all_memories s)")
    case True
    with lt have an: "a < ?n" by blast
    with sq h have "supersedes (heap s ! a) = Some q" by (simp add: nth_append)
    from chain_okD(2) [OF ok True this] obtain b where
      b: "dict_get (all_memories s) q = Some b" "version (heap s ! b) < version (heap s ! a)" by blast
    with get [OF b(1)] an h show ?thesis by (auto simp: nth_append)
  next
    case False
    with cases_ka [OF ka] have an: "a = ?n" by simp
    with sq h have "supersedes m = Some q" by simp
    with p obtain b where
      b: "dict_get (all_memories s) q = Some b" "version (heap s ! b) < version m" by blast
    with get [OF b(1)] an h show ?thesis by (auto simp: nth_append)
  qed
qed

lemma find_best_Some:
  assumes "find_best_update_candidate m thr s = Some (a, sc)"
  shows "(a, sc) \<in> set (scored_candidates m thr s)"
    and "\<forall>p \<in> set (scored_candidates m thr s). snd p \<le> sc"
    and "\<exists>i < length (scored_candidates m thr s). scored_candidates m thr s ! i = (a, sc) \<and>
           (\<forall>j < i. snd (scored_candidates m thr s ! j) < sc)"
proof -
  from assms obtain x xs where sc: "scored_candidates m thr s = x # xs"
      and r: "py_max_key snd x xs = (a, sc)"
    by (auto simp: find_best_update_candidate_def split: if_splits list.splits)
  show "(a, sc) \<in> set (scored_candidates m thr s)"
    using py_max_key_in [of snd x xs] sc r by simp
  show "\<forall>p \<in> set (scored_candidates m thr s). snd p \<le> sc"
    using py_max_key_ge [of _ x xs snd] sc r by fastforce
  show "\<exists>i < length (scored_candidates m thr s). scored_candidates m thr s ! i = (a, sc) \<and>
           (\<forall>j < i. snd (scored_candidates m thr s ! j) < sc)"
    using py_max_key_first [of xs x snd] sc r by simp
qed

lemma find_best_None:
  "find_best_update_candidate m thr s = None \<longleftrightarrow> scored_candidates m thr s = []"
  by (auto simp: find_best_update_candidate_def scored_candidates_def split: list.splits)

lemma scored_candidates_mem:
  "(a, sc) \<in> set (scored_candidates m thr s) \<longleftrightarrow>
     a \<in> set (find_all_candidate_memories m s) \<and> sc = get_update_score (deref s a) m \<and> thr \<le> sc"
  by (auto simp: scored_candidates_def)

lemma candidate_stored:
  "a \<in> set (find_all_candidate_memories m s) \<Longrightarrow> \<exists>k. (k, a) \<in> set (all_memories s)"
  by (auto simp: find_all_candidate_memories_def)

lemma stored_lookup:
  "store_inv s \<Longrightarrow> (k, a) \<in> set (all_memories s) \<Longrightarrow>
     a < length (heap s) \<and> mem_id (heap s ! a) = k \<and> dict_get (all_memories s) k = Some a"
  by (auto simp: store_inv_def dict_get_in_distinct)

lemma keys_set_obj [simp]: "all_memories (set_obj a m s) = all_memories s"
  and heap_set_obj [simp]: "heap (set_obj a m s) = (heap s)[a := m]"
  by (simp_all add: set_obj_def)

lemma superseded_fields [simp]:
  "mem_id (superseded e ch u) = mem_id e" "chapter_start (superseded e ch u) = chapter_start e"
  "version (superseded e ch u) = version e" "supersedes (superseded e ch u) = supersedes e"
  "is_active (superseded e ch u) = False" "chapter_end (superseded e ch u) = Some (ch - 1)"
  "superseded_by (superseded e ch u) = Some u"
  by (simp_all add: superseded_def)

lemma updated_version_fields [simp]:
  "mem_id (updated_version e n ch r u) = u" "chapter_start (updated_version e n ch r u) = ch"
  "version (updated_version e n ch r u) = version e + 1"
  "supersedes (updated_version e n ch r u) = Some (mem_id e)"
  "is_active (updated_version e n ch r u) = True"
  "get_key (updated_version e n ch r u) = get_key e"
  by (simp_all add: updated_version_def get_key_def)

lemma update_existing_invs:
  assumes inv: "store_inv s" and ok: "chain_ok s" and ka: "(k, a) \<in> set (all_memories s)"
    and fresh: "u2 \<notin> fst ` set (all_memories s)"
  shows "store_inv (fst (update_existing_memory a n ch r u1 u2 s)) \<and>
         chain_ok (fst (update_existing_memory a n ch r u1 u2 s))"
proof -
  let ?e = "heap s ! a"
  let ?s1 = "set_obj a (superseded ?e ch u2) s"
  from stored_lookup [OF inv ka] have a: "a < length (heap s)" and id: "mem_id ?e = k"
    and get: "dict_get (all_memories s) k = Some a" by auto
  have inv1: "store_inv ?s1" using store_inv_set_obj [OF inv a] by simp
  have ok1: "chain_ok ?s1" using chain_ok_set_obj [OF ok a] by simp
  have v: "1 \<le> version ?e" using chain_okD(1) [OF ok ka] .
  have st: "store_inv (load_one (updated_version ?e n ch r u2) ?s1)"
    using store_inv_load_one [OF inv1] fresh by simp
  have "chain_ok (load_one (updated_version ?e n ch r u2) ?s1)"
    using chain_ok_load_one [OF ok1 inv1] fresh v get id a by simp
  with st show ?thesis by (simp add: update_existing_eq deref_def)
qed

lemmas store_eval_simps = load_one_eq empty_store_def dict_set_def dict_get_def deref_def
  chapter_list_def affair_fact_def create_memory_unit_def get_key_def canonical_key_def

section \<open>Properties of the resolver\<close>

text \<open>C4. Supersession (spec, section 8): after \<open>update_existing_memory\<close> the old
  object is inactive, closed at the chapter before the new record's start and linked
  forward to it; the new record links back, has the next version, is active and starts
  at the update chapter; both are in the store, and no other object changes.\<close>

theorem update_existing_memory_post:
  assumes inv: "store_inv s" and ka: "(k, a) \<in> set (all_memories s)"
    and fresh: "u2 \<notin> fst ` set (all_memories s)"
    and run: "update_existing_memory a new_info ch reason u1 u2 s = (s', upd)"
  shows "\<not> is_active (deref s' a) \<and> chapter_end (deref s' a) = Some (chapter_start upd - 1) \<and>
    superseded_by (deref s' a) = Some (mem_id upd) \<and> supersedes upd = Some (mem_id (deref s a)) \<and>
    version upd = version (deref s a) + 1 \<and> is_active upd \<and> chapter_start upd = ch \<and>
    upd \<in> set (records s') \<and> deref s' a \<in> set (records s') \<and>
    (\<forall>b < length (heap s). b \<noteq> a \<longrightarrow> deref s' b = deref s b)"
proof -
  let ?e = "heap s ! a"
  let ?s1 = "set_obj a (superseded ?e ch u2) s"
  from stored_lookup [OF inv ka] have a: "a < length (heap s)" by simp
  from run have s': "s' = load_one upd ?s1" and upd: "upd = updated_version ?e new_info ch reason u2"
    by (auto simp: update_existing_eq deref_def)
  have inv1: "store_inv ?s1" using store_inv_set_obj [OF inv a] by simp
  have h: "heap s' = (heap s)[a := superseded ?e ch u2] @ [upd]" by (simp add: s' load_one_eq)
  have da: "deref s' a = superseded ?e ch u2" using a by (simp add: deref_def h nth_append)
  have recs: "records s' = records ?s1 @ [upd]"
    using records_load_one [OF inv1] fresh upd s' by simp
  have "heap ?s1 ! a \<in> set (records ?s1)" using ka by (force simp: records_deref)
  then have "deref s' a \<in> set (records s')" using recs a da by simp
  moreover have "\<forall>b < length (heap s). b \<noteq> a \<longrightarrow> deref s' b = deref s b"
    by (simp add: deref_def h nth_append)
  ultimately show ?thesis using da recs upd by (simp add: deref_def)
qed

theorem update_existing_memory_post_witness:
  "(case update_existing_memory 0 (affair_fact 4 0.95) 4 ''moderate_update'' ''t'' ''v2''
          (load_one (affair_fact 1 0.9) empty_store) of
     (s', upd) \<Rightarrow> \<not> is_active (deref s' 0) \<and> chapter_end (deref s' 0) = Some 3 \<and>
                  superseded_by (deref s' 0) = Some ''v2'' \<and> supersedes upd = Some ''cand'' \<and>
                  version upd = 2 \<and> upd \<in> set (records s'))"
proof -
  let ?s = "load_one (affair_fact 1 0.9) empty_store"
  obtain s' upd where run: "update_existing_memory 0 (affair_fact 4 0.95) 4 ''moderate_update''
      ''t'' ''v2'' ?s = (s', upd)" by fastforce
  have inv: "store_inv ?s"
    by (rule store_inv_load_one [OF store_inv_empty]) (simp add: empty_store_def)
  have ka: "(''cand'', 0) \<in> set (all_memories ?s)" by (simp add: store_eval_simps)
  have fresh: "''v2'' \<notin> fst ` set (all_memories ?s)" by (simp add: store_eval_simps)
  have d0: "deref ?s 0 = affair_fact 1 0.9" by (simp add: store_eval_simps)
  have "mem_id upd = ''v2''" "chapter_start upd = 4"
    using run by (auto simp: update_existing_eq)
  with update_existing_memory_post [OF inv ka fresh run] d0 run show ?thesis
    by (simp add: affair_fact_def create_memory_unit_def)
qed

lemma smart_update_or_create_invs:
  assumes inv: "store_inv s" and ok: "chain_ok s"
    and f1: "u1 \<notin> fst ` set (all_memories s)" and f2: "u2 \<notin> fst ` set (all_memories s)"
    and v: "1 \<le> version m" and p: "supersedes m = None"
  shows "store_inv (fst (smart_update_or_create m ch thr u1 u2 s)) \<and>
         chain_ok (fst (smart_update_or_create m ch thr u1 u2 s))"
proof (cases "find_best_update_candidate m thr s")
  case None
  let ?m' = "m\<lparr>mem_id := u1, chapter_start := ch, provenance := (provenance m)\<lparr>prov_chapter := ch\<rparr>\<rparr>"
  have "fst (smart_update_or_create m ch thr u1 u2 s) = load_one ?m' s"
    using None by (simp add: smart_update_or_create_def add_new_memory_load_one Let_def)
  moreover have "store_inv (load_one ?m' s)" using store_inv_load_one [OF inv] f1 by simp
  moreover have "chain_ok (load_one ?m' s)" using chain_ok_load_one [OF ok inv] f1 v p by simp
  ultimately show ?thesis by simp
next
  case (Some r)
  obtain a sc where r: "r = (a, sc)" by (cases r)
  with Some have "(a, sc) \<in> set (scored_candidates m thr s)" by (simp add: find_best_Some(1))
  then obtain k where ka: "(k, a) \<in> set (all_memories s)"
    by (auto simp: scored_candidates_mem dest: candidate_stored)
  have "fst (smart_update_or_create m ch thr u1 u2 s) =
      fst (update_existing_memory a m ch (update_reason_for sc) u1 u2 s)"
    using Some r by (simp add: smart_update_or_create_def split: prod.splits)
  with update_existing_invs [OF inv ok ka f2] show ?thesis by simp
qed


text \<open>Each call stores exactly one new id, the one it was given: \<open>u1\<close> when it
  creates, \<open>u2\<close> when it supersedes.\<close>

lemma smart_update_or_create_keys:
  assumes f1: "u1 \<notin> fst ` set (all_memories s)" and f2: "u2 \<notin> fst ` set (all_memories s)"
  shows "\<exists>u \<in> {u1, u2}. all_memories (fst (smart_update_or_create m ch thr u1 u2 s)) =
           all_memories s @ [(u, length (heap s))]"
proof (cases "find_best_update_candidate m thr s")
  case None
  then show ?thesis
    using f1 by (auto simp: smart_update_or_create_def add_new_memory_load_one Let_def load_one_eq
        dict_set_fresh)
next
  case (Some r)
  obtain a sc where r: "r = (a, sc)" by (cases r)
  then show ?thesis
    using Some f2 by (auto simp: smart_update_or_create_def update_existing_eq load_one_eq
        dict_set_fresh split: prod.splits)
qed

text \<open>C3. \<open>smart_update_or_create\<close> keeps the store invariant and well-formed
  version chains, for fresh uuids and a candidate of version at least 1 with no
  predecessor, as the extractor produces.\<close>

theorem smart_update_or_create_inv:
  assumes inv: "store_inv s" and ok: "chain_ok s"
    and f1: "u1 \<notin> fst ` set (all_memories s)" and f2: "u2 \<notin> fst ` set (all_memories s)"
    and v: "1 \<le> version m" and p: "supersedes m = None"
  shows "store_inv (fst (smart_update_or_create m ch thr u1 u2 s)) \<and>
         chain_ok (fst (smart_update_or_create m ch thr u1 u2 s))"
  by (rule smart_update_or_create_invs [OF inv ok f1 f2 v p])

theorem smart_update_or_create_inv_witness:
  "store_inv (fst (smart_update_or_create (affair_fact 4 0.95) 4 0.6 ''u1'' ''u2''
                    (load_one (affair_fact 1 0.9) empty_store))) \<and>
   chain_ok (fst (smart_update_or_create (affair_fact 4 0.95) 4 0.6 ''u1'' ''u2''
                    (load_one (affair_fact 1 0.9) empty_store)))"
proof -
  let ?s = "load_one (affair_fact 1 0.9) empty_store"
  have inv: "store_inv ?s"
    by (rule store_inv_load_one [OF store_inv_empty]) (simp add: empty_store_def)
  have ok: "chain_ok ?s" by (simp add: chain_ok_def store_eval_simps)
  have f: "''u1'' \<notin> fst ` set (all_memories ?s)" "''u2'' \<notin> fst ` set (all_memories ?s)"
    by (simp_all add: store_eval_simps)
  have c: "1 \<le> version (affair_fact 4 0.95)" "supersedes (affair_fact 4 0.95) = None"
    by (simp_all add: affair_fact_def create_memory_unit_def)
  show ?thesis by (rule smart_update_or_create_inv [OF inv ok f c])
qed

text \<open>C12. A two-hop chain (spec, section 8): after superseding a root record, the
  evolution of the new record is \<open>[existing, new]\<close>, in ascending chapter order.\<close>

theorem evolution_after_update:
  assumes inv: "store_inv s" and ka: "(k, a) \<in> set (all_memories s)"
    and root: "supersedes (deref s a) = None" and k: "k \<noteq> []"
    and fresh: "u2 \<notin> fst ` set (all_memories s)" and u2: "u2 \<noteq> []"
    and later: "chapter_start (deref s a) < ch"
    and run: "update_existing_memory a new_info ch reason u1 u2 s = (s', upd)"
  shows "get_memory_evolution 3 s' u2 = Some [deref s' a, upd] \<and>
         chapter_start (deref s' a) < chapter_start upd"
proof -
  let ?e = "heap s ! a"
  let ?s1 = "set_obj a (superseded ?e ch u2) s"
  let ?n = "length (heap s)"
  from stored_lookup [OF inv ka] have a: "a < ?n" and id: "mem_id ?e = k"
    and get: "dict_get (all_memories s) k = Some a" by auto
  from run have s': "s' = load_one upd ?s1" and upd: "upd = updated_version ?e new_info ch reason u2"
    by (auto simp: update_existing_eq deref_def)
  have h: "heap s' = (heap s)[a := superseded ?e ch u2] @ [upd]" by (simp add: s' load_one_eq)
  have g1: "dict_get (all_memories s') u2 = Some ?n" using upd by (simp add: s' load_one_eq)
  have ku: "k \<noteq> u2" using fresh ka by force
  have g2: "dict_get (all_memories s') k = Some a" using ku get upd by (simp add: s' load_one_eq)
  have d1: "deref s' ?n = upd" by (simp add: deref_def h nth_append)
  have d2: "deref s' a = superseded ?e ch u2" using a by (simp add: deref_def h nth_append)
  have "get_memory_evolution 3 s' u2 = Some [deref s' a, upd]"
    using g1 g2 d1 d2 u2 k id root upd by (simp add: get_memory_evolution_def eval_nat_numeral deref_def)
  moreover have "chapter_start (deref s' a) < chapter_start upd"
    using d2 later upd by (simp add: deref_def)
  ultimately show ?thesis ..
qed

theorem evolution_after_update_witness:
  "(case update_existing_memory 0 (affair_fact 4 0.95) 4 ''moderate_update'' ''t'' ''v2''
          (load_one (affair_fact 1 0.9) empty_store) of
     (s', upd) \<Rightarrow> get_memory_evolution 3 s' ''v2'' = Some [deref s' 0, upd] \<and>
                  chapter_start (deref s' 0) = 1 \<and> chapter_start upd = 4)"
proof -
  let ?s = "load_one (affair_fact 1 0.9) empty_store"
  obtain s' upd where run: "update_existing_memory 0 (affair_fact 4 0.95) 4 ''moderate_update''
      ''t'' ''v2'' ?s = (s', upd)" by fastforce
  have inv: "store_inv ?s"
    by (rule store_inv_load_one [OF store_inv_empty]) (simp add: empty_store_def)
  have ka: "(''cand'', 0) \<in> set (all_memories ?s)" by (simp add: store_eval_simps)
  have root: "supersedes (deref ?s 0) = None" by (simp add: store_eval_simps)
  have fresh: "''v2'' \<notin> fst ` set (all_memories ?s)" by (simp add: store_eval_simps)
  have later: "chapter_start (deref ?s 0) < 4" by (simp add: store_eval_simps)
  have e: "get_memory_evolution 3 s' ''v2'' = Some [deref s' 0, upd]"
    using evolution_after_update [OF inv ka root _ fresh _ later run] by simp
  have c: "chapter_start (deref s' 0) = 1" "chapter_start upd = 4"
    using run by (auto simp: update_existing_eq store_eval_simps)
  from e c run show ?thesis by simp
qed

text \<open>C10. The choice among the candidates: the chosen record is a candidate (same
  key, active, earlier start), its score reaches the threshold and is maximal, and every
  scored candidate before it in \<open>all_memories\<close> order scores strictly less. Ties go
  to the record stored first, deterministically, where the spec asks for an
  \<open>AmbiguousUpdateError\<close>.\<close>

theorem find_best_update_candidate_first_max:
  assumes "find_best_update_candidate m thr s = Some (a, sc)"
  shows "a \<in> set (find_all_candidate_memories m s) \<and> can_update (deref s a) m \<and>
    sc = get_update_score (deref s a) m \<and> thr \<le> sc \<and>
    (\<forall>b \<in> set (find_all_candidate_memories m s).
       thr \<le> get_update_score (deref s b) m \<longrightarrow> get_update_score (deref s b) m \<le> sc) \<and>
    (\<exists>i < length (scored_candidates m thr s). scored_candidates m thr s ! i = (a, sc) \<and>
       (\<forall>j < i. snd (scored_candidates m thr s ! j) < sc))"
proof -
  from find_best_Some(1) [OF assms] have mem: "a \<in> set (find_all_candidate_memories m s)"
    and sc: "sc = get_update_score (deref s a) m" and thr: "thr \<le> sc"
    by (simp_all add: scored_candidates_mem)
  have cu: "can_update (deref s a) m" using mem by (simp add: find_all_candidate_memories_def)
  have "\<forall>b \<in> set (find_all_candidate_memories m s).
       thr \<le> get_update_score (deref s b) m \<longrightarrow> get_update_score (deref s b) m \<le> sc"
  proof (intro ballI impI)
    fix b assume "b \<in> set (find_all_candidate_memories m s)" and "thr \<le> get_update_score (deref s b) m"
    then have "(b, get_update_score (deref s b) m) \<in> set (scored_candidates m thr s)"
      by (simp add: scored_candidates_mem)
    with find_best_Some(2) [OF assms] show "get_update_score (deref s b) m \<le> sc" by fastforce
  qed
  with mem cu sc thr find_best_Some(3) [OF assms] show ?thesis by blast
qed

theorem find_best_update_candidate_first_max_witness:
  "find_best_update_candidate (affair_fact 4 0.95) 0.6
     (load_one ((affair_fact 1 0.9)\<lparr>mem_id := ''c2''\<rparr>) (load_one (affair_fact 1 0.9) empty_store))
   = Some (0, 0.635) \<and>
   scored_candidates (affair_fact 4 0.95) 0.6
     (load_one ((affair_fact 1 0.9)\<lparr>mem_id := ''c2''\<rparr>) (load_one (affair_fact 1 0.9) empty_store))
   = [(0, 0.635), (1, 0.635)]"
proof -
  let ?s = "load_one ((affair_fact 1 0.9)\<lparr>mem_id := ''c2''\<rparr>) (load_one (affair_fact 1 0.9) empty_store)"
  have sc: "scored_candidates (affair_fact 4 0.95) 0.6 ?s = [(0, 0.635), (1, 0.635)]"
    by (simp add: scored_candidates_def find_all_candidate_memories_def get_update_score_def
        can_update_def update_score_raw_def store_eval_simps)
  have ne: "find_all_candidate_memories (affair_fact 4 0.95) ?s \<noteq> []"
    using sc by (auto simp: scored_candidates_def)
  have fb: "find_best_update_candidate (affair_fact 4 0.95) 0.6 ?s = Some (0, 0.635)"
    using sc ne by (simp add: find_best_update_candidate_def)
  from find_best_update_candidate_first_max [OF fb] have "0 \<in> set (find_all_candidate_memories (affair_fact 4 0.95) ?s)"
    by simp
  with fb sc show ?thesis by simp
qed

text \<open>C9. The create path: \<open>smart_update_or_create\<close> creates a new record exactly
  when no candidate's score reaches the threshold, and otherwise reports the update with
  the winning score.\<close>

theorem smart_update_or_create_creates_iff:
  "snd (snd (smart_update_or_create m ch thr u1 u2 s)) = Created_new \<longleftrightarrow>
     (\<forall>a \<in> set (find_all_candidate_memories m s). get_update_score (deref s a) m < thr)"
proof -
  have "snd (snd (smart_update_or_create m ch thr u1 u2 s)) = Created_new \<longleftrightarrow>
      find_best_update_candidate m thr s = None"
    by (auto simp: smart_update_or_create_def Let_def split: option.splits prod.splits)
  also have "\<dots> \<longleftrightarrow> scored_candidates m thr s = []" by (rule find_best_None)
  also have "\<dots> \<longleftrightarrow> (\<forall>a \<in> set (find_all_candidate_memories m s). get_update_score (deref s a) m < thr)"
    by (auto simp: scored_candidates_def filter_empty_conv not_le)
  finally show ?thesis .
qed

theorem smart_update_or_create_creates_iff_witness:
  "find_all_candidate_memories (affair_fact 2 0.5) (load_one (affair_fact 1 0.9) empty_store) = [0] \<and>
   get_update_score (affair_fact 1 0.9) (affair_fact 2 0.5) = 0.2 \<and>
   snd (snd (smart_update_or_create (affair_fact 2 0.5) 2 0.6 ''u1'' ''u2''
                (load_one (affair_fact 1 0.9) empty_store))) = Created_new"
proof -
  let ?s = "load_one (affair_fact 1 0.9) empty_store"
  have c: "find_all_candidate_memories (affair_fact 2 0.5) ?s = [0]"
    by (simp add: find_all_candidate_memories_def can_update_def store_eval_simps)
  have d: "deref ?s 0 = affair_fact 1 0.9" by (simp add: store_eval_simps)
  have sc: "get_update_score (affair_fact 1 0.9) (affair_fact 2 0.5) = 0.2"
    by (simp add: get_update_score_def can_update_def update_score_raw_def store_eval_simps)
  show ?thesis
    using smart_update_or_create_creates_iff [of "affair_fact 2 0.5" 2 "0.6" "''u1''" "''u2''" ?s]
      c d sc by simp
qed

text \<open>C11. The resolver does not keep one current record per key: whenever every
  candidate is more confident than a later observation of the same fact (confidences at
  most 1), the observation scores below the default threshold and is stored as a second
  active record with the same key, beside the existing one, which the time-overlap check
  then reports.\<close>

theorem smart_update_or_create_duplicates_key:
  assumes inv: "store_inv s" and fresh: "u1 \<notin> fst ` set (all_memories s)" and act: "is_active m"
    and a: "a \<in> set (find_all_candidate_memories m s)"
    and less: "\<forall>b \<in> set (find_all_candidate_memories m s).
                 confidence m < confidence (deref s b) \<and> confidence (deref s b) \<le> 1"
  shows "snd (snd (smart_update_or_create m ch default_update_threshold u1 u2 s)) = Created_new \<and>
         deref s a \<in> set (records (fst (smart_update_or_create m ch default_update_threshold u1 u2 s))) \<and>
         fst (snd (smart_update_or_create m ch default_update_threshold u1 u2 s)) \<in>
           set (records (fst (smart_update_or_create m ch default_update_threshold u1 u2 s))) \<and>
         mem_id (fst (snd (smart_update_or_create m ch default_update_threshold u1 u2 s))) \<noteq> mem_id (deref s a) \<and>
         is_active (deref s a) \<and> is_active (fst (snd (smart_update_or_create m ch default_update_threshold u1 u2 s))) \<and>
         get_key (fst (snd (smart_update_or_create m ch default_update_threshold u1 u2 s))) = get_key (deref s a)"
proof -
  let ?m' = "m\<lparr>mem_id := u1, chapter_start := ch, provenance := (provenance m)\<lparr>prov_chapter := ch\<rparr>\<rparr>"
  have "\<forall>b \<in> set (find_all_candidate_memories m s). get_update_score (deref s b) m < default_update_threshold"
    using less update_score_less_confident by (auto simp: default_update_threshold_def)
  then have "scored_candidates m default_update_threshold s = []"
    by (auto simp: scored_candidates_def filter_empty_conv not_le)
  then have R: "smart_update_or_create m ch default_update_threshold u1 u2 s = (load_one ?m' s, ?m', Created_new)"
    by (simp add: smart_update_or_create_def add_new_memory_load_one Let_def find_best_None [THEN iffD2])
  have recs: "records (load_one ?m' s) = records s @ [?m']"
    using records_load_one [OF inv] fresh by simp
  obtain k where ka: "(k, a) \<in> set (all_memories s)" using candidate_stored [OF a] by blast
  have in_s: "deref s a \<in> set (records s)" using ka by (force simp: records_def)
  have "mem_id (deref s a) = k" using stored_lookup [OF inv ka] by (simp add: deref_def)
  with ka fresh have ne: "u1 \<noteq> mem_id (deref s a)" by force
  have cand: "get_key (deref s a) = get_key m \<and> is_active (deref s a)"
    using a by (auto simp: find_all_candidate_memories_def can_update_iff)
  show ?thesis
    using R recs in_s ne cand act by (simp add: get_key_def)
qed

text \<open>C11, applied: the affair of chapter 1 with confidence 0.9, observed again in
  chapter 2 with confidence 0.5.\<close>

theorem smart_update_or_create_duplicates_key_witness:
  "snd (snd (smart_update_or_create (affair_fact 2 0.5) 2 default_update_threshold ''u1'' ''u2''
      (load_one (affair_fact 1 0.9) empty_store))) = Created_new \<and>
   is_active (fst (snd (smart_update_or_create (affair_fact 2 0.5) 2 default_update_threshold ''u1'' ''u2''
      (load_one (affair_fact 1 0.9) empty_store))))"
proof -
  let ?s = "load_one (affair_fact 1 0.9) empty_store"
  have inv: "store_inv ?s"
    by (rule store_inv_load_one [OF store_inv_empty]) (simp add: empty_store_def)
  have fresh: "''u1'' \<notin> fst ` set (all_memories ?s)" by (simp add: store_eval_simps affair_fact_def create_memory_unit_def)
  have c: "find_all_candidate_memories (affair_fact 2 0.5) ?s = [0]"
    by (simp add: find_all_candidate_memories_def can_update_def store_eval_simps)
  have d: "deref ?s 0 = affair_fact 1 0.9" by (simp add: store_eval_simps)
  have f: "is_active (affair_fact 2 0.5) \<and> confidence (affair_fact 2 0.5) = 0.5 \<and> confidence (affair_fact 1 0.9) = 0.9"
    by (simp add: affair_fact_def create_memory_unit_def)
  have "0 \<in> set (find_all_candidate_memories (affair_fact 2 0.5) ?s)" using c by simp
  moreover have "\<forall>b \<in> set (find_all_candidate_memories (affair_fact 2 0.5) ?s).
      confidence (affair_fact 2 0.5) < confidence (deref ?s b) \<and> confidence (deref ?s b) \<le> 1"
    using c d f by simp
  ultimately show ?thesis
    using smart_update_or_create_duplicates_key [OF inv fresh, where a = 0 and ch = 2] f by blast
qed

end
