(* ===== verification/Consistency.thy ===== *)
theory Consistency
  imports Resolver
begin

text \<open>
  The four scans of \<open>src/eval/consistency_eval.py\<close>, each over
  \<open>memory_store.all_memories.values()\<close> (the list \<open>records s\<close>), in the loop order of
  the code, so that the reports come out in the code's order. A report keeps the
  structured fields of the code's dictionary; the \<open>"description"\<close> string, which only
  formats those fields, is not modelled. The scans read the store and return reports:
  none of them changes it. \<open>check_symmetry_violations\<close> can raise \<open>ValueError\<close> when
  it unpacks \<open>rel_key.split("::")\<close>, so its result is a sum.
\<close>

section \<open>Time-overlap conflicts\<close>

record overlap_report =
  ov_memory1_id :: string
  ov_memory2_id :: string
  ov_canonical_key :: string
  ov_memory1_chapter :: int
  ov_memory2_chapter :: int
  ov_memory1_fact :: string
  ov_memory2_fact :: string

definition overlap_of :: "memory_unit \<Rightarrow> memory_unit \<Rightarrow> overlap_report" where
  "overlap_of m1 m2 =
     \<lparr>ov_memory1_id = mem_id m1, ov_memory2_id = mem_id m2, ov_canonical_key = get_key m1,
      ov_memory1_chapter = chapter_start m1, ov_memory2_chapter = chapter_start m2,
      ov_memory1_fact = fact_text m1, ov_memory2_fact = fact_text m2\<rparr>"

text \<open>The three nested tests of the inner loop, in the code's order.\<close>

definition overlap_conflict :: "memory_unit \<Rightarrow> memory_unit \<Rightarrow> bool" where
  "overlap_conflict m1 m2 \<longleftrightarrow>
     get_key m1 = get_key m2 \<and> chapter_start m1 \<noteq> chapter_start m2 \<and>
     is_active m1 \<and> is_active m2"

text \<open>\<open>for i, memory1 in enumerate(all): for memory2 in all[i+1:]\<close>.\<close>

fun time_overlap_scan :: "memory_unit list \<Rightarrow> overlap_report list" where
  "time_overlap_scan [] = []"
| "time_overlap_scan (m1 # rest) =
     map (overlap_of m1) (filter (overlap_conflict m1) rest) @ time_overlap_scan rest"

definition check_time_overlap_conflicts :: "store \<Rightarrow> overlap_report list" where
  "check_time_overlap_conflicts s = time_overlap_scan (records s)"

section \<open>World future leaks\<close>

record leak_report =
  lk_memory_id :: string
  lk_canonical_key :: string
  lk_chapter :: int
  lk_fact_text :: string
  lk_future_indicator :: string

definition future_indicators :: "string list" where
  "future_indicators =
     [''will'', ''going to'', ''plan to'', ''intend to'', ''future'', ''upcoming'',
      ''next week'', ''next month'', ''next year'', ''tomorrow'', ''later'']"

text \<open>The first indicator of the list that occurs in the lowered text (the loop
  breaks after the first report).\<close>

definition leak_of :: "memory_unit \<Rightarrow> leak_report list" where
  "leak_of m =
     (if mem_type m = WM \<and> is_active m then
        (case find (\<lambda>ind. py_contains ind (py_lower (fact_text m))) future_indicators of
           None \<Rightarrow> []
         | Some ind \<Rightarrow>
             [\<lparr>lk_memory_id = mem_id m, lk_canonical_key = get_key m, lk_chapter = chapter_start m,
               lk_fact_text = fact_text m, lk_future_indicator = ind\<rparr>])
      else [])"

definition check_world_future_leaks :: "store \<Rightarrow> leak_report list" where
  "check_world_future_leaks s = concat (map leak_of (records s))"

section \<open>Crosstalk violations\<close>

text \<open>\<open>character_knowledge\<close>: subject to chapter to the active records naming the
  subject, both dictionaries in insertion order; the world and the user are skipped, and
  a record naming a subject twice is appended twice.\<close>

type_synonym knowledge = "(string, (int, memory_unit list) pydict) pydict"

definition knowledge_add :: "memory_unit \<Rightarrow> string \<Rightarrow> knowledge \<Rightarrow> knowledge" where
  "knowledge_add m subj ck =
     (let chapters = (case dict_get ck subj of None \<Rightarrow> [] | Some d \<Rightarrow> d);
          ms = (case dict_get chapters (chapter_start m) of None \<Rightarrow> [] | Some l \<Rightarrow> l)
      in dict_set subj (dict_set (chapter_start m) (ms @ [m]) chapters) ck)"

definition knowledge_of_memory :: "knowledge \<Rightarrow> memory_unit \<Rightarrow> knowledge" where
  "knowledge_of_memory ck m =
     (if is_active m
      then fold (\<lambda>subj ck. if subj \<noteq> world_entity \<and> subj \<noteq> user_entity
                           then knowledge_add m subj ck else ck) (subjects m) ck
      else ck)"

definition build_knowledge :: "memory_unit list \<Rightarrow> knowledge" where
  "build_knowledge ms = foldl knowledge_of_memory [] ms"

record crosstalk_report =
  ct_memory_id :: string
  ct_character :: string
  ct_chapter :: int
  ct_referenced_character :: string
  ct_referenced_chapter :: int
  ct_fact_text :: string

text \<open>The innermost loops: for one record of \<open>character\<close> at \<open>chapter\<close>, every
  private (\<open>C2U\<close>) record of another character at a later chapter whose name occurs
  in the record's lowered text gives one report.\<close>

definition crosstalk_for :: "knowledge \<Rightarrow> string \<Rightarrow> int \<Rightarrow> memory_unit \<Rightarrow> crosstalk_report list" where
  "crosstalk_for ck character chapter m =
     concat (map (\<lambda>(other_char, other_chapters).
       if other_char \<noteq> character then
         concat (map (\<lambda>(other_chapter, other_memories).
           if other_chapter > chapter then
             concat (map (\<lambda>om.
               if mem_type om = C2U \<and> py_contains (py_lower other_char) (py_lower (fact_text m))
               then [\<lparr>ct_memory_id = mem_id m, ct_character = character, ct_chapter = chapter,
                      ct_referenced_character = other_char, ct_referenced_chapter = other_chapter,
                      ct_fact_text = fact_text m\<rparr>]
               else []) other_memories)
           else []) other_chapters)
       else []) ck)"

definition crosstalk_scan :: "knowledge \<Rightarrow> crosstalk_report list" where
  "crosstalk_scan ck =
     concat (map (\<lambda>(character, chapters).
       concat (map (\<lambda>chapter.
         concat (map (crosstalk_for ck character chapter)
           (case dict_get chapters chapter of None \<Rightarrow> [] | Some l \<Rightarrow> l)))
         (sort (map fst chapters)))) ck)"

definition check_crosstalk_violations :: "store \<Rightarrow> crosstalk_report list" where
  "check_crosstalk_violations s = crosstalk_scan (build_knowledge (records s))"

text \<open>The abstract content of \<open>character_knowledge\<close>: the triples (subject,
  chapter, record) it holds, and the key discipline of its two dictionary levels.\<close>

definition kentries :: "knowledge \<Rightarrow> (string \<times> int \<times> memory_unit) set" where
  "kentries ck = {(c, ch, m). \<exists>chs l. (c, chs) \<in> set ck \<and> (ch, l) \<in> set chs \<and> m \<in> set l}"

definition kinv :: "knowledge \<Rightarrow> bool" where
  "kinv ck \<longleftrightarrow> distinct (map fst ck) \<and> (\<forall>(c, chs) \<in> set ck. distinct (map fst chs))"

section \<open>Symmetry violations\<close>

record symmetry_report =
  sy_memory_id :: string
  sy_relationship_key :: string
  sy_character1 :: string
  sy_character2 :: string
  sy_fact_text :: string
  sy_asymmetric_indicator :: string

definition asymmetric_indicators :: "string list" where
  "asymmetric_indicators =
     [''likes'', ''hates'', ''loves'', ''dislikes'', ''admires'', ''despises'',
      ''trusts'', ''distrusts'', ''respects'', ''disrespects'']"

text \<open>\<open>relationships\<close>: active \<open>IC\<close> records with two subjects, grouped by the key
  \<open>"c1::c2"\<close> of their sorted subjects.\<close>

definition rel_key_of :: "memory_unit \<Rightarrow> string" where
  "rel_key_of m = (let cs = sort (subjects m) in cs ! 0 @ ''::'' @ cs ! 1)"

definition relationship_groups :: "memory_unit list \<Rightarrow> (string, memory_unit list) pydict" where
  "relationship_groups ms =
     foldl (\<lambda>rels m.
       if mem_type m = IC \<and> is_active m \<and> length (subjects m) = 2 then
         dict_set (rel_key_of m)
           ((case dict_get rels (rel_key_of m) of None \<Rightarrow> [] | Some l \<Rightarrow> l) @ [m]) rels
       else rels) [] ms"

text \<open>One group: a lone record whose text holds an indicator is reported unless the
  reversed key is a group; \<open>char1, char2 = rel_key.split("::")\<close> raises
  \<open>ValueError\<close> unless the key splits into exactly two parts.\<close>

definition symmetry_of_group ::
  "(string, memory_unit list) pydict \<Rightarrow> string \<Rightarrow> memory_unit list \<Rightarrow> py_error + symmetry_report list" where
  "symmetry_of_group rels rel_key ms =
     (case ms of
        [m] \<Rightarrow>
          (case find (\<lambda>ind. py_contains ind (py_lower (fact_text m))) asymmetric_indicators of
             None \<Rightarrow> Inr []
           | Some ind \<Rightarrow>
               (case split_dcolon rel_key of
                  [c1, c2] \<Rightarrow>
                    if dict_get rels (c2 @ ''::'' @ c1) = None
                    then Inr [\<lparr>sy_memory_id = mem_id m, sy_relationship_key = rel_key,
                               sy_character1 = c1, sy_character2 = c2, sy_fact_text = fact_text m,
                               sy_asymmetric_indicator = ind\<rparr>]
                    else Inr []
                | _ \<Rightarrow> Inl ValueError))
      | _ \<Rightarrow> Inr [])"

fun symmetry_scan ::
  "(string, memory_unit list) pydict \<Rightarrow> (string, memory_unit list) pydict \<Rightarrow> py_error + symmetry_report list" where
  "symmetry_scan rels [] = Inr []"
| "symmetry_scan rels ((k, ms) # gs) =
     (case symmetry_of_group rels k ms of
        Inl e \<Rightarrow> Inl e
      | Inr rs \<Rightarrow> (case symmetry_scan rels gs of Inl e \<Rightarrow> Inl e | Inr rs' \<Rightarrow> Inr (rs @ rs')))"

definition check_symmetry_violations :: "store \<Rightarrow> py_error + symmetry_report list" where
  "check_symmetry_violations s =
     (let rels = relationship_groups (records s) in symmetry_scan rels rels)"

section \<open>Summary\<close>

record consistency_summary =
  total_conflicts :: nat
  n_time_overlap_conflicts :: nat
  n_world_future_leaks :: nat
  n_crosstalk_violations :: nat
  n_symmetry_violations :: nat

text \<open>\<open>run_consistency_eval\<close> without its printing and the JSON file: the four
  scans in order, the first exception of the symmetry scan propagating.\<close>

definition run_consistency_eval :: "store \<Rightarrow> py_error + consistency_summary" where
  "run_consistency_eval s =
     (case check_symmetry_violations s of
        Inl e \<Rightarrow> Inl e
      | Inr sy \<Rightarrow>
          (let t = length (check_time_overlap_conflicts s);
               w = length (check_world_future_leaks s);
               c = length (check_crosstalk_violations s);
               y = length sy
           in Inr \<lparr>total_conflicts = t + w + c + y, n_time_overlap_conflicts = t,
                   n_world_future_leaks = w, n_crosstalk_violations = c,
                   n_symmetry_violations = y\<rparr>))"


section \<open>Lemmas on the scans\<close>

lemma time_overlap_scan_pairs:
  "x \<in> set (time_overlap_scan ms) \<longleftrightarrow>
     (\<exists>i j. i < j \<and> j < length ms \<and> overlap_conflict (ms ! i) (ms ! j) \<and>
            x = overlap_of (ms ! i) (ms ! j))"
proof (induction ms)
  case Nil
  then show ?case by simp
next
  case (Cons m ms)
  have "x \<in> set (time_overlap_scan (m # ms)) \<longleftrightarrow>
      (\<exists>y. y \<in> set ms \<and> overlap_conflict m y \<and> x = overlap_of m y) \<or>
      x \<in> set (time_overlap_scan ms)"
    by auto
  also have "\<dots> \<longleftrightarrow> (\<exists>i j. i < j \<and> j < length (m # ms) \<and>
      overlap_conflict ((m # ms) ! i) ((m # ms) ! j) \<and> x = overlap_of ((m # ms) ! i) ((m # ms) ! j))"
    unfolding Cons.IH
    by (rule ordered_pairs_Cons [where P = "\<lambda>a b. overlap_conflict a b \<and> x = overlap_of a b", symmetric])
  finally show ?case .
qed

lemma leak_of_eq:
  "leak_of m =
     (if mem_type m = WM \<and> is_active m \<and>
         (\<exists>ind. ind \<in> set future_indicators \<and> sublist ind (py_lower (fact_text m)))
      then [\<lparr>lk_memory_id = mem_id m, lk_canonical_key = get_key m, lk_chapter = chapter_start m,
             lk_fact_text = fact_text m,
             lk_future_indicator = the (find (\<lambda>ind. sublist ind (py_lower (fact_text m))) future_indicators)\<rparr>]
      else [])"
  by (auto simp: leak_of_def py_contains_sublist find_None_iff split: option.split)


lemma ka_set:
  assumes "distinct (map fst ck)"
  shows "set (knowledge_add m subj ck) =
    insert (subj, dict_set (chapter_start m)
       ((case dict_get (case dict_get ck subj of None \<Rightarrow> [] | Some d \<Rightarrow> d) (chapter_start m) of None \<Rightarrow> [] | Some l \<Rightarrow> l) @ [m])
       (case dict_get ck subj of None \<Rightarrow> [] | Some d \<Rightarrow> d))
     {p \<in> set ck. fst p \<noteq> subj}"
  using assms unfolding knowledge_add_def Let_def by (rule set_dict_set_distinct)

lemma ka_inv:
  assumes "kinv ck"
  shows "kinv (knowledge_add m subj ck)"
proof -
  have "distinct (map fst (case dict_get ck subj of None \<Rightarrow> [] | Some d \<Rightarrow> d))"
    using assms by (auto simp: kinv_def split: option.split dest: dict_get_Some_in)
  then show ?thesis
    using assms unfolding kinv_def knowledge_add_def Let_def
    by (auto dest: set_dict_set)
qed

lemma kentries_subj:
  assumes "distinct (map fst ck)"
  shows "(subj, ch, x) \<in> kentries ck \<longleftrightarrow>
    (\<exists>l. (ch, l) \<in> set (case dict_get ck subj of None \<Rightarrow> [] | Some d \<Rightarrow> d) \<and> x \<in> set l)"
proof (cases "dict_get ck subj")
  case None
  then have "subj \<notin> fst ` set ck" by (simp add: dict_get_None)
  with None show ?thesis by (force simp: kentries_def)
next
  case (Some chs)
  then have "(subj, chs') \<in> set ck \<longleftrightarrow> chs' = chs" for chs'
    using assms Some dict_get_in_distinct [of ck subj chs'] dict_get_Some_in [of ck subj chs] by auto
  then show ?thesis using Some by (auto simp: kentries_def)
qed

lemma kentries_other:
  assumes "distinct (map fst ck)" "c \<noteq> subj"
  shows "(c, ch, x) \<in> kentries (knowledge_add m subj ck) \<longleftrightarrow> (c, ch, x) \<in> kentries ck"
  using assms by (simp add: kentries_def ka_set)

lemma kentries_new_subj:
  assumes "distinct (map fst ck)"
  shows "(subj, ch, x) \<in> kentries (knowledge_add m subj ck) \<longleftrightarrow>
    (\<exists>l. (ch, l) \<in> set (dict_set (chapter_start m)
       ((case dict_get (case dict_get ck subj of None \<Rightarrow> [] | Some d \<Rightarrow> d) (chapter_start m) of None \<Rightarrow> [] | Some l \<Rightarrow> l) @ [m])
       (case dict_get ck subj of None \<Rightarrow> [] | Some d \<Rightarrow> d)) \<and> x \<in> set l)"
  using assms by (simp add: kentries_def ka_set)


lemma knowledge_add_eq:
  assumes "kinv ck"
  shows "kinv (knowledge_add m subj ck) \<and>
    kentries (knowledge_add m subj ck) = insert (subj, chapter_start m, m) (kentries ck)"
proof -
  let ?chs = "case dict_get ck subj of None \<Rightarrow> [] | Some d \<Rightarrow> d"
  let ?ms = "case dict_get ?chs (chapter_start m) of None \<Rightarrow> [] | Some l \<Rightarrow> l"
  have d: "distinct (map fst ck)" using assms by (simp add: kinv_def)
  have dchs: "distinct (map fst ?chs)"
    using assms by (auto simp: kinv_def split: option.split dest: dict_get_Some_in)
  have ms: "x \<in> set ?ms \<longleftrightarrow> (\<exists>l. (chapter_start m, l) \<in> set ?chs \<and> x \<in> set l)" for x
    using dchs by (rule dict_get_case_iff)
  have new: "(\<exists>l. (ch, l) \<in> set (dict_set (chapter_start m) (?ms @ [m]) ?chs) \<and> x \<in> set l) \<longleftrightarrow>
      (ch = chapter_start m \<and> (x \<in> set ?ms \<or> x = m)) \<or>
      (ch \<noteq> chapter_start m \<and> (\<exists>l. (ch, l) \<in> set ?chs \<and> x \<in> set l))" for ch x
    using dchs by (auto simp: set_dict_set_distinct)
  have "kentries (knowledge_add m subj ck) = insert (subj, chapter_start m, m) (kentries ck)"
  proof (rule set_eqI, clarify)
    fix c ch x
    show "(c, ch, x) \<in> kentries (knowledge_add m subj ck) \<longleftrightarrow>
        (c, ch, x) \<in> insert (subj, chapter_start m, m) (kentries ck)"
    proof (cases "c = subj")
      case False
      then show ?thesis using kentries_other [OF d False] by simp
    next
      case True
      have "(c, ch, x) \<in> insert (subj, chapter_start m, m) (kentries ck) \<longleftrightarrow>
          (ch = chapter_start m \<and> x = m) \<or> (subj, ch, x) \<in> kentries ck"
        using True by auto
      also have "\<dots> \<longleftrightarrow> (ch = chapter_start m \<and> x = m) \<or> (\<exists>l. (ch, l) \<in> set ?chs \<and> x \<in> set l)"
        by (simp only: kentries_subj [OF d])
      finally show ?thesis
        unfolding True kentries_new_subj [OF d] new ms by blast
    qed
  qed
  with ka_inv [OF assms] show ?thesis by simp
qed

lemma knowledge_of_memory_eq:
  assumes "kinv ck"
  shows "kinv (knowledge_of_memory ck m) \<and>
    kentries (knowledge_of_memory ck m) = kentries ck \<union>
      {(c, chapter_start m, m) | c. is_active m \<and> c \<in> set (subjects m) \<and>
                                    c \<noteq> world_entity \<and> c \<noteq> user_entity}"
proof -
  have "kinv ck' \<Longrightarrow>
      kinv (fold (\<lambda>subj ck. if subj \<noteq> world_entity \<and> subj \<noteq> user_entity
                            then knowledge_add m subj ck else ck) xs ck') \<and>
      kentries (fold (\<lambda>subj ck. if subj \<noteq> world_entity \<and> subj \<noteq> user_entity
                            then knowledge_add m subj ck else ck) xs ck') = kentries ck' \<union>
      {(c, chapter_start m, m) | c. c \<in> set xs \<and> c \<noteq> world_entity \<and> c \<noteq> user_entity}" for xs ck'
  proof (induction xs arbitrary: ck')
    case Nil
    then show ?case by simp
  next
    case (Cons x xs)
    then show ?case using knowledge_add_eq [of ck' m x] by auto
  qed
  then show ?thesis using assms by (auto simp: knowledge_of_memory_def)
qed

lemma build_knowledge_eq:
  "kinv (build_knowledge ms) \<and>
   kentries (build_knowledge ms) =
     {(c, chapter_start m, m) | c m. m \<in> set ms \<and> is_active m \<and> c \<in> set (subjects m) \<and>
                                     c \<noteq> world_entity \<and> c \<noteq> user_entity}"
proof (induction ms rule: rev_induct)
  case Nil
  then show ?case by (simp add: build_knowledge_def kinv_def kentries_def)
next
  case (snoc m ms)
  then show ?case
    using knowledge_of_memory_eq [of "build_knowledge ms" m] by (auto simp: build_knowledge_def)
qed

lemma crosstalk_for_iff:
  "r \<in> set (crosstalk_for ck c ch m) \<longleftrightarrow>
     (\<exists>oc och om. (oc, och, om) \<in> kentries ck \<and> oc \<noteq> c \<and> ch < och \<and> mem_type om = C2U \<and>
        sublist (py_lower oc) (py_lower (fact_text m)) \<and>
        r = \<lparr>ct_memory_id = mem_id m, ct_character = c, ct_chapter = ch,
             ct_referenced_character = oc, ct_referenced_chapter = och, ct_fact_text = fact_text m\<rparr>)"
  unfolding crosstalk_for_def kentries_def py_contains_sublist
  by (auto split: if_splits; fastforce)

lemma crosstalk_scan_set:
  "r \<in> set (crosstalk_scan ck) \<longleftrightarrow>
    (\<exists>c chs. (c, chs) \<in> set ck \<and> (\<exists>ch. ch \<in> set (map fst chs) \<and>
       (\<exists>m. m \<in> set (case dict_get chs ch of None \<Rightarrow> [] | Some l \<Rightarrow> l) \<and> r \<in> set (crosstalk_for ck c ch m))))"
  by (simp only: crosstalk_scan_def in_concat_map split_paired_Ex prod.case set_sort)

lemma crosstalk_scan_iff:
  assumes "kinv ck"
  shows "r \<in> set (crosstalk_scan ck) \<longleftrightarrow>
    (\<exists>c ch m. (c, ch, m) \<in> kentries ck \<and> r \<in> set (crosstalk_for ck c ch m))"
proof -
  have "(\<exists>ch. ch \<in> set (map fst chs) \<and>
       (\<exists>m. m \<in> set (case dict_get chs ch of None \<Rightarrow> [] | Some l \<Rightarrow> l) \<and> r \<in> set (crosstalk_for ck c ch m)))
    \<longleftrightarrow> (\<exists>ch l m. (ch, l) \<in> set chs \<and> m \<in> set l \<and> r \<in> set (crosstalk_for ck c ch m))"
    if "(c, chs) \<in> set ck" for c chs
  proof -
    have "distinct (map fst chs)" using assms that by (auto simp: kinv_def)
    then show ?thesis unfolding dict_get_case_iff [OF \<open>distinct (map fst chs)\<close>] by force
  qed
  then show ?thesis
    unfolding crosstalk_scan_set kentries_def by blast
qed

lemma rel_key_of_pair:
  "subjects m = [x, y] \<Longrightarrow> rel_key_of m = min x y @ ''::'' @ max x y"
  by (simp add: rel_key_of_def min_def max_def)

lemma relationship_groups_sound:
  "distinct (map fst (relationship_groups ms)) \<and>
   (\<forall>(k, g) \<in> set (relationship_groups ms). g \<noteq> [] \<and>
      (\<forall>x \<in> set g. x \<in> set ms \<and> mem_type x = IC \<and> is_active x \<and> length (subjects x) = 2 \<and>
                   rel_key_of x = k))"
proof (induction ms rule: rev_induct)
  case Nil
  then show ?case by (simp add: relationship_groups_def)
next
  case (snoc m ms)
  let ?g = "relationship_groups ms"
  have IH: "\<And>k g. (k, g) \<in> set ?g \<Longrightarrow> g \<noteq> [] \<and> (\<forall>x \<in> set g. x \<in> set ms \<and> mem_type x = IC \<and>
      is_active x \<and> length (subjects x) = 2 \<and> rel_key_of x = k)"
    using snoc.IH by fast
  have eq: "relationship_groups (ms @ [m]) =
      (if mem_type m = IC \<and> is_active m \<and> length (subjects m) = 2 then
         dict_set (rel_key_of m)
           ((case dict_get ?g (rel_key_of m) of None \<Rightarrow> [] | Some l \<Rightarrow> l) @ [m]) ?g
       else ?g)"
    by (simp add: relationship_groups_def)
  show ?case
  proof (cases "mem_type m = IC \<and> is_active m \<and> length (subjects m) = 2")
    case False
    then show ?thesis using snoc eq by auto
  next
    case True
    have old: "x \<in> set (case dict_get ?g (rel_key_of m) of None \<Rightarrow> [] | Some l \<Rightarrow> l) \<Longrightarrow>
        x \<in> set ms \<and> mem_type x = IC \<and> is_active x \<and> length (subjects x) = 2 \<and> rel_key_of x = rel_key_of m" for x
    proof -
      assume "x \<in> set (case dict_get ?g (rel_key_of m) of None \<Rightarrow> [] | Some l \<Rightarrow> l)"
      then obtain l where l: "(rel_key_of m, l) \<in> set ?g" "x \<in> set l"
        by (blast dest: dict_get_case_in)
      show ?thesis using IH [OF l(1)] l(2) by simp
    qed
    let ?new = "(case dict_get ?g (rel_key_of m) of None \<Rightarrow> [] | Some l \<Rightarrow> l) @ [m]"
    have "distinct (map fst (relationship_groups (ms @ [m])))"
      using snoc True eq by simp
    moreover have "g \<noteq> [] \<and> (\<forall>x \<in> set g. x \<in> set (ms @ [m]) \<and> mem_type x = IC \<and> is_active x \<and>
        length (subjects x) = 2 \<and> rel_key_of x = k)"
      if "(k, g) \<in> set (relationship_groups (ms @ [m]))" for k g
    proof -
      from that True eq have "(k, g) \<in> set (dict_set (rel_key_of m) ?new ?g)" by simp
      then have "(k, g) = (rel_key_of m, ?new) \<or> (k, g) \<in> set ?g" by (rule set_dict_set)
      then show ?thesis
      proof
        assume "(k, g) = (rel_key_of m, ?new)"
        then have k: "k = rel_key_of m" and g: "g = ?new" by simp_all
        have "x \<in> set (ms @ [m]) \<and> mem_type x = IC \<and> is_active x \<and> length (subjects x) = 2 \<and>
            rel_key_of x = k" if "x \<in> set g" for x
        proof -
          from that g have "x \<in> set (case dict_get ?g (rel_key_of m) of None \<Rightarrow> [] | Some l \<Rightarrow> l) \<or> x = m"
            by (metis rotate1.simps(2) set_ConsD set_rotate1)
          then show ?thesis
          proof
            assume "x \<in> set (case dict_get ?g (rel_key_of m) of None \<Rightarrow> [] | Some l \<Rightarrow> l)"
            from old [OF this] show ?thesis by (simp add: k)
          next
            assume "x = m"
            with True show ?thesis by (simp add: k)
          qed
        qed
        then show ?thesis by (simp add: g)
      next
        assume "(k, g) \<in> set ?g"
        then show ?thesis using IH by auto
      qed
    qed
    ultimately show ?thesis by auto
  qed
qed

lemma symmetry_scan_Inr:
  "symmetry_scan rels gs = Inr rs \<longleftrightarrow>
     (\<forall>(k, g) \<in> set gs. \<exists>r. symmetry_of_group rels k g = Inr r) \<and>
     rs = concat (map (\<lambda>(k, g). case symmetry_of_group rels k g of Inl e \<Rightarrow> [] | Inr r \<Rightarrow> r) gs)"
proof (induction gs arbitrary: rs)
  case Nil
  then show ?case by auto
next
  case (Cons p gs)
  obtain k g where p: "p = (k, g)" by (cases p)
  show ?case
  proof (cases "symmetry_of_group rels k g")
    case (Inl e)
    then show ?thesis by (simp add: p)
  next
    case (Inr r)
    let ?all = "\<forall>(k, g) \<in> set gs. \<exists>r. symmetry_of_group rels k g = Inr r"
    let ?cat = "concat (map (\<lambda>(k, g). case symmetry_of_group rels k g of Inl e \<Rightarrow> [] | Inr r \<Rightarrow> r) gs)"
    show ?thesis
    proof (cases "symmetry_scan rels gs")
      case (Inl e)
      then have "\<not> ?all" using Cons.IH [of ?cat] by simp
      then show ?thesis using Inr Inl by (simp add: p)
    next
      case (Inr r')
      then have "?all" "r' = ?cat" using Cons.IH [of r'] by simp_all
      then show ?thesis using Inr \<open>symmetry_of_group rels k g = Inr r\<close> by (simp add: p) (rule eq_commute)
    qed
  qed
qed


lemma concat_map_singleton_filter:
  "concat (map (\<lambda>x. if P x then [f x] else []) xs) = map f (filter P xs)"
  by (induction xs) auto

lemma relationship_group_key:
  assumes "(k, g) \<in> set (relationship_groups ms)"
  obtains x p q where "x \<in> set g" "x \<in> set ms" "mem_type x = IC" "is_active x"
    "subjects x = [p, q]" "k = min p q @ ''::'' @ max p q"
proof -
  from assms relationship_groups_sound [of ms] obtain x where x: "x \<in> set g" and
    props: "x \<in> set ms" "mem_type x = IC" "is_active x" "length (subjects x) = 2" "rel_key_of x = k"
    by (cases g) fastforce+
  from props(4) obtain p q where "subjects x = [p, q]"
    by (auto simp: numeral_2_eq_2 length_Suc_conv)
  with x props rel_key_of_pair [of x p q] that show ?thesis by simp
qed

lemma symmetry_of_group_total:
  "split_dcolon k = [a, b] \<Longrightarrow> \<exists>r. symmetry_of_group rels k g = Inr r"
  by (auto simp: symmetry_of_group_def split: list.split option.split)

lemma symmetry_of_group_ids:
  assumes "split_dcolon k = [a, b]" "dict_get rels (b @ ''::'' @ a) = None"
  shows "map sy_memory_id (case symmetry_of_group rels k g of Inl e \<Rightarrow> [] | Inr r \<Rightarrow> r) =
    (if length g = 1 \<and> (\<exists>ind. ind \<in> set asymmetric_indicators \<and> sublist ind (py_lower (fact_text (hd g))))
     then [mem_id (hd g)] else [])"
proof (cases g rule: remdups_adj.cases)
  case (2 m)
  then show ?thesis using assms
    by (auto simp: symmetry_of_group_def py_contains_sublist find_None_iff split: option.split)
qed (auto simp: symmetry_of_group_def)

lemma group_key_split:
  assumes kg: "(k, g) \<in> set (relationship_groups ms)"
    and cf: "\<forall>m \<in> set ms. mem_type m = IC \<and> is_active m \<and> length (subjects m) = 2 \<longrightarrow>
               (\<forall>x \<in> set (subjects m). colon_free x)"
  obtains x p q where "x \<in> set ms" "mem_type x = IC" "is_active x" "subjects x = [p, q]"
    "colon_free p" "colon_free q" "k = min p q @ ''::'' @ max p q" "split_dcolon k = [min p q, max p q]"
proof -
  obtain x p q where x: "x \<in> set ms" "mem_type x = IC" "is_active x" "subjects x = [p, q]"
      and k: "k = min p q @ ''::'' @ max p q"
    using relationship_group_key [OF kg] by metis
  with cf have "colon_free p" "colon_free q" by auto
  moreover from this have "colon_free (min p q)" "colon_free (max p q)"
    by (simp_all add: min_def max_def)
  ultimately show ?thesis
    using that x k split_dcolon_pair by blast
qed

lemma symmetry_groups_total:
  assumes "\<forall>m \<in> set ms. mem_type m = IC \<and> is_active m \<and> length (subjects m) = 2 \<longrightarrow>
             (\<forall>x \<in> set (subjects m). colon_free x)"
  shows "\<forall>(k, g) \<in> set (relationship_groups ms). \<exists>r. symmetry_of_group rels k g = Inr r"
proof clarify
  fix k g
  assume "(k, g) \<in> set (relationship_groups ms)"
  then obtain p q where "split_dcolon k = [min p q, max p q]"
    using group_key_split assms by metis
  then show "\<exists>r. symmetry_of_group rels k g = Inr r" by (rule symmetry_of_group_total)
qed

section \<open>Properties of the scans\<close>

text \<open>C14. \<open>check_time_overlap_conflicts\<close> reports exactly the pairs of records at
  positions \<open>i < j\<close> of \<open>all_memories.values()\<close> that share a canonical key, start
  in different chapters and are both active (spec, section 4.4, item 1).\<close>

theorem check_time_overlap_conflicts_iff:
  "x \<in> set (check_time_overlap_conflicts s) \<longleftrightarrow>
     (\<exists>i j. i < j \<and> j < length (records s) \<and>
        get_key (records s ! i) = get_key (records s ! j) \<and>
        chapter_start (records s ! i) \<noteq> chapter_start (records s ! j) \<and>
        is_active (records s ! i) \<and> is_active (records s ! j) \<and>
        x = overlap_of (records s ! i) (records s ! j))"
  unfolding check_time_overlap_conflicts_def time_overlap_scan_pairs overlap_conflict_def
  by blast

text \<open>The example of the spec (section 8): two active records with the key
  \<open>byleth::dimitri::relationship_status::started_affair\<close> at chapters 3 and 7 give
  one conflict; with the second record inactive there is none.\<close>

theorem time_overlap_spec_example:
  "map ov_canonical_key (check_time_overlap_conflicts
      (load_memories [(affair_fact 3 0.9)\<lparr>mem_id := ''m1''\<rparr>, (affair_fact 7 0.9)\<lparr>mem_id := ''m2''\<rparr>]
         empty_store)) = [''byleth::dimitri::relationship_status::started_affair''] \<and>
   check_time_overlap_conflicts
      (load_memories [(affair_fact 3 0.9)\<lparr>mem_id := ''m1''\<rparr>,
                      (affair_fact 7 0.9)\<lparr>mem_id := ''m2'', is_active := False\<rparr>] empty_store) = []"
  by (simp add: check_time_overlap_conflicts_def records_load_memories_empty overlap_conflict_def
      overlap_of_def affair_fact_def create_memory_unit_def get_key_def canonical_key_def)

text \<open>\<open>check_world_future_leaks\<close> reports each active world record whose
  lowered text contains a futurity marker exactly once, in store order, naming the
  first marker of the lexicon that occurs; no other record is reported (spec, section
  4.4, item 2).\<close>

theorem check_world_future_leaks_reports:
  "map lk_memory_id (check_world_future_leaks s) =
     map mem_id (filter (\<lambda>m. mem_type m = WM \<and> is_active m \<and>
        (\<exists>ind. ind \<in> set future_indicators \<and> sublist ind (py_lower (fact_text m)))) (records s)) \<and>
   map lk_future_indicator (check_world_future_leaks s) =
     map (\<lambda>m. the (find (\<lambda>ind. sublist ind (py_lower (fact_text m))) future_indicators))
       (filter (\<lambda>m. mem_type m = WM \<and> is_active m \<and>
        (\<exists>ind. ind \<in> set future_indicators \<and> sublist ind (py_lower (fact_text m)))) (records s))"
proof -
  have "map lk_memory_id (concat (map leak_of ms)) =
      map mem_id (filter (\<lambda>m. mem_type m = WM \<and> is_active m \<and>
        (\<exists>ind. ind \<in> set future_indicators \<and> sublist ind (py_lower (fact_text m)))) ms) \<and>
    map lk_future_indicator (concat (map leak_of ms)) =
      map (\<lambda>m. the (find (\<lambda>ind. sublist ind (py_lower (fact_text m))) future_indicators))
       (filter (\<lambda>m. mem_type m = WM \<and> is_active m \<and>
        (\<exists>ind. ind \<in> set future_indicators \<and> sublist ind (py_lower (fact_text m)))) ms)" for ms
    by (induction ms) (simp_all add: leak_of_eq)
  then show ?thesis unfolding check_world_future_leaks_def .
qed

text \<open>The examples of the spec (section 8): the world fact
  \<open>"The company will announce layoffs next month"\<close> is reported, with the marker
  \<open>will\<close>; \<open>"The company announced layoffs."\<close> is not.\<close>

theorem world_future_leak_spec_example:
  "map lk_future_indicator (check_world_future_leaks
      (load_memories [world_fact ''The company will announce layoffs next month''] empty_store))
     = [''will''] \<and>
   check_world_future_leaks (load_memories [world_fact ''The company announced layoffs.''] empty_store)
     = []"
  by (simp add: check_world_future_leaks_def records_load_memories_empty leak_of_def world_fact_def
      create_memory_unit_def future_indicators_def py_lower_eval)

text \<open>The markers are matched as substrings, not words: the world fact
  \<open>"William inherited the company."\<close> is reported as a future leak, through the
  marker \<open>will\<close> inside the name.\<close>

theorem world_future_leak_substring:
  "map lk_future_indicator (check_world_future_leaks
      (load_memories [world_fact ''William inherited the company.''] empty_store)) = [''will'']"
  by (simp add: check_world_future_leaks_def records_load_memories_empty leak_of_def world_fact_def
      create_memory_unit_def future_indicators_def py_lower_eval)


text \<open>C15. \<open>check_crosstalk_violations\<close> reports exactly: for an active record
  \<open>m\<close> of a subject \<open>c\<close> (not the world, not the user) and an active private
  (\<open>C2U\<close>) record \<open>om\<close> of another such subject \<open>oc\<close> that starts in a later
  chapter, when the lowered name \<open>oc\<close> occurs in the lowered text of \<open>m\<close>
  (spec, section 4.4, item 3).\<close>

theorem check_crosstalk_violations_iff:
  "r \<in> set (check_crosstalk_violations s) \<longleftrightarrow>
     (\<exists>m om c oc. m \<in> set (records s) \<and> om \<in> set (records s) \<and> is_active m \<and> is_active om \<and>
        c \<in> set (subjects m) \<and> oc \<in> set (subjects om) \<and>
        c \<notin> {world_entity, user_entity} \<and> oc \<notin> {world_entity, user_entity} \<and> oc \<noteq> c \<and>
        chapter_start m < chapter_start om \<and> mem_type om = C2U \<and>
        sublist (py_lower oc) (py_lower (fact_text m)) \<and>
        r = \<lparr>ct_memory_id = mem_id m, ct_character = c, ct_chapter = chapter_start m,
             ct_referenced_character = oc, ct_referenced_chapter = chapter_start om,
             ct_fact_text = fact_text m\<rparr>)"
  unfolding check_crosstalk_violations_def
    crosstalk_scan_iff [OF build_knowledge_eq [THEN conjunct1]] crosstalk_for_iff
    build_knowledge_eq [THEN conjunct2]
  by blast


text \<open>Names are matched as substrings of the text: a chapter-2 fact of
  Dimitri, \<open>"Dimitri washed the blades."\<close>, is reported as referencing the private
  chapter-5 knowledge of Ashe, because \<open>ashe\<close> occurs in \<open>washed\<close>.\<close>

theorem crosstalk_substring:
  "check_crosstalk_violations (load_memories
     [create_memory_unit ''a'' IC [''dimitri''] ''Dimitri washed the blades.'' ''did'' ''wash''
        0.9 None 2 ''t0'',
      create_memory_unit ''b'' C2U [''ashe'', user_entity] ''Ashe confided in the player.''
        ''told'' ''secret'' 0.9 None 5 ''t0''] empty_store) =
   [\<lparr>ct_memory_id = ''a'', ct_character = ''dimitri'', ct_chapter = 2,
     ct_referenced_character = ''ashe'', ct_referenced_chapter = 5,
     ct_fact_text = ''Dimitri washed the blades.''\<rparr>]"
  by (simp add: check_crosstalk_violations_def records_load_memories_empty build_knowledge_def
      knowledge_of_memory_def knowledge_add_def crosstalk_scan_def crosstalk_for_def
      create_memory_unit_def dict_set_def dict_get_def py_lower_eval)


text \<open>C16. \<open>check_symmetry_violations\<close> raises \<open>ValueError\<close> only through a
  subject name containing a colon: when no active two-subject \<open>IC\<close> record has one,
  the scan returns its reports.\<close>

theorem check_symmetry_violations_total:
  assumes "\<forall>m \<in> set (records s). mem_type m = IC \<and> is_active m \<and> length (subjects m) = 2 \<longrightarrow>
             (\<forall>x \<in> set (subjects m). colon_free x)"
  shows "\<exists>rs. check_symmetry_violations s = Inr rs"
  using symmetry_groups_total [OF assms] symmetry_scan_Inr
  by (auto simp: check_symmetry_violations_def Let_def)

theorem check_symmetry_violations_total_witness: "\<exists>rs. check_symmetry_violations (load_memories
     [create_memory_unit ''s1'' IC [''sylvain'', ''annette''] ''Sylvain trusts Annette.'' ''feels'' ''trust''
        0.9 None 3 ''t0''] empty_store) = Inr rs"
  using check_symmetry_violations_total [of "load_memories
     [create_memory_unit ''s1'' IC [''sylvain'', ''annette''] ''Sylvain trusts Annette.'' ''feels'' ''trust''
        0.9 None 3 ''t0''] empty_store"]
  by (simp add: records_load_memories_empty create_memory_unit_def colon_free_def)

text \<open>The examples of the spec (section 8): a lone record
  \<open>"Sylvain trusts Annette."\<close> is reported under the key \<open>annette::sylvain\<close> with
  the term \<open>trusts\<close>; once a record for the reversed pair exists, nothing is
  reported.\<close>

theorem symmetry_spec_example:
  "check_symmetry_violations (load_memories
     [create_memory_unit ''s1'' IC [''sylvain'', ''annette''] ''Sylvain trusts Annette.'' ''feels'' ''trust''
        0.9 None 3 ''t0''] empty_store) =
   Inr [\<lparr>sy_memory_id = ''s1'', sy_relationship_key = ''annette::sylvain'',
         sy_character1 = ''annette'', sy_character2 = ''sylvain'',
         sy_fact_text = ''Sylvain trusts Annette.'', sy_asymmetric_indicator = ''trusts''\<rparr>] \<and>
   check_symmetry_violations (load_memories
     [create_memory_unit ''s1'' IC [''sylvain'', ''annette''] ''Sylvain trusts Annette.'' ''feels'' ''trust''
        0.9 None 3 ''t0'',
      create_memory_unit ''s2'' IC [''annette'', ''sylvain''] ''Annette is wary of Sylvain.'' ''feels'' ''wary''
        0.8 None 4 ''t0''] empty_store) = Inr []"
  by (simp add: check_symmetry_violations_def records_load_memories_empty relationship_groups_def
      rel_key_of_def symmetry_of_group_def asymmetric_indicators_def split_dcolon_def
      create_memory_unit_def dict_set_def dict_get_def py_lower_eval)

text \<open>A subject name containing \<open>::\<close> makes \<open>rel_key.split("::")\<close> give
  three parts, so the unpacking raises \<open>ValueError\<close> and the whole evaluation
  \<open>run_consistency_eval\<close> fails.\<close>

theorem symmetry_value_error:
  "run_consistency_eval (load_memories
     [create_memory_unit ''d1'' IC [''house::blaiddyd'', ''dimitri''] ''Dimitri loves his house.''
        ''feels'' ''love'' 0.9 None 2 ''t0''] empty_store) = Inl ValueError"
  by (simp add: run_consistency_eval_def check_symmetry_violations_def records_load_memories_empty relationship_groups_def
      rel_key_of_def symmetry_of_group_def asymmetric_indicators_def split_dcolon_def
      create_memory_unit_def dict_set_def dict_get_def py_lower_eval)

text \<open>C17. The reverse-key test of the symmetry scan never suppresses a report: when
  every active two-subject \<open>IC\<close> record has two different, colon-free subjects, the
  reports are exactly the groups of one record whose lowered text contains an
  asymmetric term, in group order.\<close>

theorem symmetry_lone_groups_reported:
  assumes "\<forall>m \<in> set (records s). mem_type m = IC \<and> is_active m \<and> length (subjects m) = 2 \<longrightarrow>
             distinct (subjects m) \<and> (\<forall>x \<in> set (subjects m). colon_free x)"
  shows "\<exists>rs. check_symmetry_violations s = Inr rs \<and>
    map sy_memory_id rs =
      map (\<lambda>(k, g). mem_id (hd g))
        (filter (\<lambda>(k, g). length g = 1 \<and>
           (\<exists>ind. ind \<in> set asymmetric_indicators \<and> sublist ind (py_lower (fact_text (hd g)))))
        (relationship_groups (records s)))"
proof -
  let ?G = "relationship_groups (records s)"
  let ?F = "\<lambda>(k, g). case symmetry_of_group ?G k g of Inl e \<Rightarrow> [] | Inr r \<Rightarrow> r"
  have cf: "\<forall>m \<in> set (records s). mem_type m = IC \<and> is_active m \<and> length (subjects m) = 2 \<longrightarrow>
             (\<forall>x \<in> set (subjects m). colon_free x)"
    using assms by blast
  have scan: "symmetry_scan ?G ?G = Inr (concat (map ?F ?G))"
    using symmetry_scan_Inr symmetry_groups_total [OF cf] by blast
  have ids: "map sy_memory_id (?F (k, g)) =
      (if length g = 1 \<and> (\<exists>ind. ind \<in> set asymmetric_indicators \<and> sublist ind (py_lower (fact_text (hd g))))
       then [mem_id (hd g)] else [])" if kg: "(k, g) \<in> set ?G" for k g
  proof -
    obtain x p q where x: "x \<in> set (records s)" "mem_type x = IC" "is_active x" "subjects x = [p, q]"
        "colon_free p" "colon_free q" and sp: "split_dcolon k = [min p q, max p q]"
      using group_key_split [OF kg cf] by metis
    have lt: "min p q < max p q"
      using x assms by (auto simp: min_def max_def)
    have "dict_get ?G (max p q @ ''::'' @ min p q) = None"
    proof (rule ccontr)
      assume "dict_get ?G (max p q @ ''::'' @ min p q) \<noteq> None"
      then obtain g' where "(max p q @ ''::'' @ min p q, g') \<in> set ?G"
        by (auto simp: dict_get_None)
      then obtain p' q' where "split_dcolon (max p q @ ''::'' @ min p q) = [min p' q', max p' q']"
        using group_key_split cf by metis
      moreover have "split_dcolon (max p q @ ''::'' @ min p q) = [max p q, min p q]"
        using x by (intro split_dcolon_pair) (simp_all add: min_def max_def)
      moreover have "min p' q' \<le> max p' q'" by (rule order_trans [OF min.cobounded1 max.cobounded1])
      ultimately show False using lt by auto
    qed
    then show ?thesis using symmetry_of_group_ids [OF sp] by simp
  qed
  have "map sy_memory_id (concat (map ?F ?G)) =
      concat (map (\<lambda>x. if (\<lambda>(k, g). length g = 1 \<and>
           (\<exists>ind. ind \<in> set asymmetric_indicators \<and> sublist ind (py_lower (fact_text (hd g))))) x
         then [(\<lambda>(k, g). mem_id (hd g)) x] else []) ?G)"
    unfolding map_concat map_map
  proof (rule arg_cong [where f = concat], rule map_cong)
    fix x
    assume x: "x \<in> set ?G"
    obtain k g where kg: "x = (k, g)" by (cases x)
    show "(map sy_memory_id \<circ> ?F) x = (\<lambda>x. if (\<lambda>(k, g). length g = 1 \<and>
           (\<exists>ind. ind \<in> set asymmetric_indicators \<and> sublist ind (py_lower (fact_text (hd g))))) x
         then [(\<lambda>(k, g). mem_id (hd g)) x] else []) x"
      using ids [of k g] x unfolding kg by (simp only: comp_apply case_prod_conv)
  qed simp
  then show ?thesis
    using scan by (simp add: check_symmetry_violations_def concat_map_singleton_filter Let_def)
qed

theorem symmetry_lone_groups_reported_witness:
  "\<exists>rs. check_symmetry_violations (load_memories
     [create_memory_unit ''s1'' IC [''sylvain'', ''annette''] ''Sylvain trusts Annette.'' ''feels'' ''trust''
        0.9 None 3 ''t0''] empty_store) = Inr rs \<and>
    map sy_memory_id rs =
      map (\<lambda>(k, g). mem_id (hd g))
        (filter (\<lambda>(k, g). length g = 1 \<and>
           (\<exists>ind. ind \<in> set asymmetric_indicators \<and> sublist ind (py_lower (fact_text (hd g)))))
        (relationship_groups (records (load_memories
     [create_memory_unit ''s1'' IC [''sylvain'', ''annette''] ''Sylvain trusts Annette.'' ''feels'' ''trust''
        0.9 None 3 ''t0''] empty_store))))"
  using symmetry_lone_groups_reported [of "load_memories
     [create_memory_unit ''s1'' IC [''sylvain'', ''annette''] ''Sylvain trusts Annette.'' ''feels'' ''trust''
        0.9 None 3 ''t0''] empty_store"]
  by (simp add: records_load_memories_empty create_memory_unit_def colon_free_def)

end
