(* ===== verification/Retriever.thy ===== *)
theory Retriever
  imports Store
begin

text \<open>
  \<open>SimpleMemoryRetriever\<close> (\<open>src/retrieval/simple_memory_retriever.py\<close>): ranking
  of the records visible at a chapter. The retriever holds the store, the model name and
  the Ollama client; the client is never called, only tested for presence in
  \<open>_calculate_semantic_similarity\<close>, so it is modelled by the flag \<open>has_client\<close>
  (\<open>ollama.Client()\<close> raising in \<open>__init__\<close> gives \<open>False\<close>). Scores are exact
  rationals. \<open>sorted(..., reverse=True)\<close> and \<open>list.sort(..., reverse=True)\<close> are the
  stable descending sort \<open>sort_desc\<close>, and \<open>[:k]\<close> is \<open>py_slice_to\<close>, which
  also covers a negative \<open>k\<close>.
\<close>

section \<open>State\<close>

record retriever =
  r_store :: store
  model_name :: string
  has_client :: bool

definition init_retriever :: "store \<Rightarrow> string \<Rightarrow> bool \<Rightarrow> retriever" where
  "init_retriever s name client_ok = \<lparr>r_store = s, model_name = name, has_client = client_ok\<rparr>"

section \<open>Scoring\<close>

text \<open>\<open>_calculate_chapter_relevance\<close>: banded decay by recency; a record from a later
  chapter scores 0.\<close>

definition chapter_relevance :: "memory_unit \<Rightarrow> int \<Rightarrow> rat" where
  "chapter_relevance m target =
     (if chapter_start m = target then 1
      else if chapter_start m < target then
        (let recency = target - chapter_start m
         in if recency \<le> 3 then 0.8 else if recency \<le> 10 then 0.6 else 0.4)
      else 0)"

text \<open>\<open>set(s.lower().split())\<close>, as a duplicate-free list.\<close>

definition word_set :: "string \<Rightarrow> string list" where
  "word_set s = remdups (py_split (py_lower s))"

text \<open>\<open>_calculate_semantic_similarity\<close>: the Jaccard index of the two word sets;
  words keep their punctuation. Nothing in the \<open>try\<close> block raises, so the
  \<open>except\<close> branch is not reachable.\<close>

definition semantic_similarity :: "bool \<Rightarrow> memory_unit \<Rightarrow> string \<Rightarrow> rat" where
  "semantic_similarity client m query =
     (if query = [] \<or> \<not> client then 0.5
      else
        (let qw = word_set query; mw = word_set (fact_text m)
         in if qw = [] then 0.5
            else
              (let inter = length (filter (\<lambda>w. w \<in> set mw) qw);
                   union = length (remdups (qw @ mw))
               in if union = 0 then 0.5 else of_nat inter / of_nat union)))"

definition world_keywords :: "string list" where
  "world_keywords = [''world'', ''company'', ''office'', ''policy'']"

definition ic_keywords :: "string list" where
  "ic_keywords = [''relationship'', ''interaction'', ''meeting'', ''conversation'']"

definition c2u_keywords :: "string list" where
  "c2u_keywords = [''user'', ''me'', ''my'', ''personal'']"

text \<open>\<open>_calculate_type_relevance\<close>: \<open>word in query_lower\<close> is a substring test.\<close>

definition type_relevance :: "memory_unit \<Rightarrow> string \<Rightarrow> rat" where
  "type_relevance m query =
     (let q = py_lower query
      in if mem_type m = WM \<and> (\<exists>w \<in> set world_keywords. py_contains w q) then 1
         else if mem_type m = IC \<and> (\<exists>w \<in> set ic_keywords. py_contains w q) then 1
         else if mem_type m = C2U \<and> (\<exists>w \<in> set c2u_keywords. py_contains w q) then 1
         else 0.5)"

definition relevance_score :: "bool \<Rightarrow> memory_unit \<Rightarrow> string \<Rightarrow> int \<Rightarrow> rat" where
  "relevance_score client m query target =
     confidence m * 0.3 + chapter_relevance m target * 0.25
     + semantic_similarity client m query * 0.25 + type_relevance m query * 0.2"

section \<open>Retrieval\<close>

text \<open>Score each record, sort the pairs by score (stable, descending), keep the first
  \<open>k\<close>, drop the scores: the ranked branch shared by \<open>retrieve_by_chapter\<close> and
  \<open>search_memories_at_chapter\<close>.\<close>

definition rank_by_score :: "bool \<Rightarrow> memory_unit list \<Rightarrow> string \<Rightarrow> int \<Rightarrow> int \<Rightarrow> memory_unit list" where
  "rank_by_score client ms query chapter k =
     map fst (py_slice_to (sort_desc snd (map (\<lambda>m. (m, relevance_score client m query chapter)) ms)) k)"

definition retrieve_by_chapter :: "retriever \<Rightarrow> int \<Rightarrow> string \<Rightarrow> int \<Rightarrow> memory_unit list" where
  "retrieve_by_chapter r chapter query k =
     (let ms = get_memories_at_chapter (r_store r) chapter
      in if query = [] then py_slice_to (sort_desc confidence ms) k
         else rank_by_score (has_client r) ms query chapter k)"

definition retrieve_by_character_at_chapter ::
  "retriever \<Rightarrow> string \<Rightarrow> int \<Rightarrow> int \<Rightarrow> memory_unit list" where
  "retrieve_by_character_at_chapter r character chapter k =
     py_slice_to (sort_desc confidence
       (filter (\<lambda>m. character \<in> set (subjects m)) (get_memories_at_chapter (r_store r) chapter))) k"

definition retrieve_by_type_at_chapter :: "retriever \<Rightarrow> string \<Rightarrow> int \<Rightarrow> int \<Rightarrow> memory_unit list" where
  "retrieve_by_type_at_chapter r typ chapter k =
     py_slice_to (sort_desc confidence
       (filter (\<lambda>m. mem_type m = typ) (get_memories_at_chapter (r_store r) chapter))) k"

definition search_memories_at_chapter :: "retriever \<Rightarrow> string \<Rightarrow> int \<Rightarrow> int \<Rightarrow> memory_unit list" where
  "search_memories_at_chapter r query chapter k =
     (let ms = get_memories_at_chapter (r_store r) chapter
      in if query = [] \<or> ms = [] then py_slice_to ms k
         else rank_by_score (has_client r) ms query chapter k)"

definition retriever_timeline :: "retriever \<Rightarrow> string \<Rightarrow> memory_unit list" where
  "retriever_timeline r key = get_memory_timeline (r_store r) key"

definition retriever_evolution :: "nat \<Rightarrow> retriever \<Rightarrow> string \<Rightarrow> memory_unit list option" where
  "retriever_evolution fuel r mid = get_memory_evolution fuel (r_store r) mid"

section \<open>Chapter summary\<close>

text \<open>\<open>get_chapter_summary\<close>: the \<open>characters\<close> field is \<open>list(set(...))\<close>, whose
  order Python leaves to hashing, so it is modelled as a set.\<close>

record top_memory =
  tm_id :: string
  tm_fact_text :: string
  tm_confidence :: rat
  tm_mem_type :: string

record retriever_summary =
  rs_chapter :: int
  rs_total_memories :: nat
  rs_by_type :: "(string, nat) pydict"
  rs_high :: nat
  rs_medium :: nat
  rs_low :: nat
  rs_characters :: "string set"
  rs_top_memories :: "top_memory list"

definition summary_step :: "retriever_summary \<Rightarrow> memory_unit \<Rightarrow> retriever_summary" where
  "summary_step sm m =
     sm\<lparr>rs_by_type := dict_set (mem_type m)
          ((case dict_get (rs_by_type sm) (mem_type m) of None \<Rightarrow> 0 | Some n \<Rightarrow> n) + 1) (rs_by_type sm),
        rs_high := rs_high sm + (if confidence m \<ge> 0.8 then 1 else 0),
        rs_medium := rs_medium sm + (if confidence m < 0.8 \<and> confidence m \<ge> 0.6 then 1 else 0),
        rs_low := rs_low sm + (if confidence m < 0.6 then 1 else 0),
        rs_characters := rs_characters sm \<union> set (subjects m)\<rparr>"

definition top_memory_of :: "memory_unit \<Rightarrow> top_memory" where
  "top_memory_of m =
     \<lparr>tm_id = mem_id m,
      tm_fact_text = (if length (fact_text m) > 100 then take 100 (fact_text m) @ ''...'' else fact_text m),
      tm_confidence = confidence m, tm_mem_type = mem_type m\<rparr>"

definition get_retriever_summary :: "retriever \<Rightarrow> int \<Rightarrow> retriever_summary" where
  "get_retriever_summary r chapter =
     (let ms = get_memories_at_chapter (r_store r) chapter;
          sm = foldl summary_step
                 \<lparr>rs_chapter = chapter, rs_total_memories = length ms, rs_by_type = [],
                  rs_high = 0, rs_medium = 0, rs_low = 0, rs_characters = {}, rs_top_memories = []\<rparr> ms
      in sm\<lparr>rs_top_memories := map top_memory_of (take 5 (sort_desc confidence ms))\<rparr>)"


section \<open>Fixtures\<close>

text \<open>Two records for the ranking example of the spec (section 8): a chapter-20 meeting
  with confidence 0.9, and a chapter-5 world fact with confidence 0.3.\<close>

definition recent_meeting :: memory_unit where
  "recent_meeting =
     create_memory_unit ''a'' IC [''dimitri'', ''byleth''] ''Dimitri met Byleth at the monastery''
       ''met'' ''monastery'' 0.9 None 20 ''t0''"

definition old_festival :: memory_unit where
  "old_festival =
     create_memory_unit ''b'' WM [world_entity] ''The harvest festival was cancelled''
       ''status'' ''cancelled'' 0.3 None 5 ''t0''"

definition private_note :: memory_unit where
  "private_note =
     create_memory_unit ''c'' C2U [''ashe'', user_entity] ''Ashe told the player a secret''
       ''told'' ''secret'' 0.7 None 4 ''t0''"

section \<open>Lemmas on the scores\<close>

lemma length_filter_le_remdups:
  "distinct qw \<Longrightarrow> length (filter P qw) \<le> length (remdups (qw @ mw))"
proof -
  assume "distinct qw"
  then have "length (filter P qw) = card (set (filter P qw))"
    using distinct_card [of "filter P qw"] by simp
  also have "\<dots> \<le> card (set (qw @ mw))" by (rule card_mono) auto
  also have "\<dots> = length (remdups (qw @ mw))" by (simp add: length_remdups_card_conv)
  finally show ?thesis .
qed

lemma semantic_similarity_bounds:
  "0 \<le> semantic_similarity c m q \<and> semantic_similarity c m q \<le> 1"
  using length_filter_le_remdups [of "word_set q" "\<lambda>w. w \<in> set (word_set (fact_text m))"
      "word_set (fact_text m)"]
  by (auto simp: semantic_similarity_def Let_def word_set_def divide_le_eq_1)

lemma chapter_relevance_bounds: "0 \<le> chapter_relevance m t \<and> chapter_relevance m t \<le> 1"
  by (simp add: chapter_relevance_def Let_def)

lemma type_relevance_bounds: "1 / 2 \<le> type_relevance m q \<and> type_relevance m q \<le> 1"
  by (simp add: type_relevance_def Let_def)

lemma rank_by_score_sort:
  "rank_by_score c ms q ch k = py_slice_to (sort_desc (\<lambda>m. relevance_score c m q ch) ms) k"
  by (simp add: rank_by_score_def sort_desc_pairs flip: py_slice_to_map)


lemma fixture_fields:
  "chapter_start recent_meeting = 20 \<and> chapter_start old_festival = 5 \<and>
   is_active recent_meeting \<and> is_active old_festival \<and>
   chapter_end recent_meeting = None \<and> chapter_end old_festival = None"
  by (simp add: recent_meeting_def old_festival_def create_memory_unit_def)

lemma ranking_store_query:
  "get_memories_at_chapter (load_memories [old_festival, recent_meeting] empty_store) 20 =
     [old_festival, recent_meeting]"
  using fixture_fields by (simp add: load_memories_def store_query_eval)

lemma ranking_similarities:
  "semantic_similarity True recent_meeting ''dimitri monastery'' = 1/3 \<and>
   semantic_similarity True old_festival ''dimitri monastery'' = 0"
  by (simp add: recent_meeting_def old_festival_def create_memory_unit_def semantic_similarity_def
      word_set_def py_split_def is_py_space_def py_lower_eval)

lemma summary_fold:
  assumes "distinct (map fst (rs_by_type sm))"
  shows "distinct (map fst (rs_by_type (foldl summary_step sm ms))) \<and>
    sum_list (map snd (rs_by_type (foldl summary_step sm ms))) =
      sum_list (map snd (rs_by_type sm)) + length ms \<and>
    rs_high (foldl summary_step sm ms) + rs_medium (foldl summary_step sm ms) + rs_low (foldl summary_step sm ms) =
      rs_high sm + rs_medium sm + rs_low sm + length ms \<and>
    rs_total_memories (foldl summary_step sm ms) = rs_total_memories sm"
  using assms
proof (induction ms arbitrary: sm)
  case Nil
  then show ?case by simp
next
  case (Cons m ms)
  let ?n = "case dict_get (rs_by_type sm) (mem_type m) of None \<Rightarrow> 0 | Some n \<Rightarrow> n"
  have "sum_list (map snd (rs_by_type (summary_step sm m))) = sum_list (map snd (rs_by_type sm)) + 1"
    using sum_dict_set [OF Cons.prems, of "mem_type m" "?n + 1"] by (simp add: summary_step_def)
  moreover have "distinct (map fst (rs_by_type (summary_step sm m)))"
    using Cons.prems by (simp add: summary_step_def)
  moreover have "rs_high (summary_step sm m) + rs_medium (summary_step sm m) + rs_low (summary_step sm m) =
      rs_high sm + rs_medium sm + rs_low sm + 1"
    by (simp add: summary_step_def)
  ultimately show ?case using Cons.IH [of "summary_step sm m"] by (simp add: summary_step_def)
qed

section \<open>Properties of the retriever\<close>

text \<open>For a confidence in \<open>[0, 1]\<close>, \<open>_calculate_relevance_score\<close> lies in
  \<open>[0, 1]\<close> (spec, section 4.3): each of its four parts does, and the weights add up
  to 1.\<close>

theorem relevance_score_bounds:
  assumes "0 \<le> confidence m" "confidence m \<le> 1"
  shows "0 \<le> relevance_score c m q t \<and> relevance_score c m q t \<le> 1"
  using assms semantic_similarity_bounds [of c m q] chapter_relevance_bounds [of m t]
    type_relevance_bounds [of m q]
  unfolding relevance_score_def by simp

theorem relevance_score_bounds_witness:
  "0 \<le> relevance_score True (affair_fact 3 0.9) ''dimitri'' 5 \<and>
   relevance_score True (affair_fact 3 0.9) ''dimitri'' 5 \<le> 1"
  using relevance_score_bounds [of "affair_fact 3 0.9" True "''dimitri''" 5]
  by (simp add: affair_fact_def create_memory_unit_def)

text \<open>C18. \<open>retrieve_by_chapter\<close> with a query and \<open>k \<ge> 0\<close> returns a top-\<open>k\<close>
  of the records visible at the chapter: at most \<open>k\<close> of them, each visible, in
  descending score, and no record left out scores higher than one returned.\<close>

theorem retrieve_by_chapter_top_k:
  assumes "query \<noteq> []" "0 \<le> k"
  shows "mset (retrieve_by_chapter r ch query k) \<subseteq># mset (get_memories_at_chapter (r_store r) ch) \<and>
    length (retrieve_by_chapter r ch query k) = min (nat k) (length (get_memories_at_chapter (r_store r) ch)) \<and>
    sorted_wrt (\<ge>) (map (\<lambda>m. relevance_score (has_client r) m query ch) (retrieve_by_chapter r ch query k)) \<and>
    (\<forall>x \<in> set (retrieve_by_chapter r ch query k). visible_at ch x \<and>
       (\<forall>y \<in># mset (get_memories_at_chapter (r_store r) ch) - mset (retrieve_by_chapter r ch query k).
          relevance_score (has_client r) y query ch \<le> relevance_score (has_client r) x query ch))"
proof -
  let ?ms = "get_memories_at_chapter (r_store r) ch"
  let ?f = "\<lambda>m. relevance_score (has_client r) m query ch"
  have res: "retrieve_by_chapter r ch query k = take (nat k) (sort_desc ?f ?ms)"
    using assms by (simp add: retrieve_by_chapter_def rank_by_score_sort py_slice_to_def)
  have sub: "mset (take (nat k) (sort_desc ?f ?ms)) \<subseteq># mset ?ms"
    by (metis mset_sort_desc append_take_drop_id mset_append mset_subset_eq_add_left)
  have sorted: "sorted_wrt (\<ge>) (map ?f (take (nat k) (sort_desc ?f ?ms)))"
    using sorted_sort_desc [of ?f ?ms] by (metis sorted_wrt_take take_map)
  have vis: "visible_at ch x" if "x \<in> set (take (nat k) (sort_desc ?f ?ms))" for x
  proof -
    from that have "x \<in> set ?ms" by (metis in_set_takeD set_sort_desc)
    then show ?thesis by (auto simp: in_get_memories_at_chapter)
  qed
  show ?thesis
    unfolding res using sub sorted vis sort_desc_top [of _ "nat k" ?f ?ms] by simp
qed


text \<open>The ranking example of the spec (section 8): at chapter 20, for the query
  \<open>"dimitri monastery"\<close>, the chapter-exact, high-confidence, overlapping record is
  ranked above the 15-chapter-old, low-confidence, non-overlapping one, although the
  store lists the old one first.\<close>

theorem ranking_spec_example:
  "retrieve_by_chapter (init_retriever (load_memories [old_festival, recent_meeting] empty_store)
     ''mistral:7b'' True) 20 ''dimitri monastery'' 10 = [recent_meeting, old_festival]"
proof -
  have "relevance_score True old_festival ''dimitri monastery'' 20 <
        relevance_score True recent_meeting ''dimitri monastery'' 20"
    using ranking_similarities fixture_fields
    by (simp add: relevance_score_def chapter_relevance_def type_relevance_def recent_meeting_def
        old_festival_def create_memory_unit_def world_keywords_def ic_keywords_def c2u_keywords_def
        py_lower_eval)
  then show ?thesis
    using ranking_store_query
    by (simp add: retrieve_by_chapter_def init_retriever_def rank_by_score_sort py_slice_to_def sort_desc_def)
qed

text \<open>The text overlap keeps punctuation: the query \<open>"garreg mach fell"\<close> and
  the fact \<open>"Garreg Mach fell."\<close> share two of four words (\<open>fell\<close> and
  \<open>fell.\<close> differ), so the similarity is 1/2, where the spec's punctuation-stripped
  Jaccard similarity is 1.\<close>

theorem semantic_similarity_punctuation:
  "semantic_similarity True (world_fact ''Garreg Mach fell.'') ''garreg mach fell'' = 1/2"
  by (simp add: world_fact_def create_memory_unit_def semantic_similarity_def word_set_def
      py_split_def is_py_space_def py_lower_eval)

text \<open>The type keywords are matched as substrings of the query: a private
  (\<open>C2U\<close>) record gets the full type score for the query \<open>"the meeting"\<close>, through
  \<open>me\<close> inside \<open>meeting\<close>.\<close>

theorem type_relevance_substring:
  "type_relevance private_note ''the meeting'' = 1"
  by (simp add: type_relevance_def private_note_def create_memory_unit_def world_keywords_def
      ic_keywords_def c2u_keywords_def py_lower_eval)


text \<open>C18, applied: at chapter 20 with \<open>k = 1\<close>, one of the two visible records is
  returned.\<close>

theorem retrieve_by_chapter_top_k_witness:
  "length (retrieve_by_chapter (init_retriever (load_memories [old_festival, recent_meeting] empty_store)
     ''mistral:7b'' True) 20 ''dimitri monastery'' 1) = 1 \<and>
   mset (retrieve_by_chapter (init_retriever (load_memories [old_festival, recent_meeting] empty_store)
     ''mistral:7b'' True) 20 ''dimitri monastery'' 1) \<subseteq># mset [old_festival, recent_meeting]"
  using retrieve_by_chapter_top_k [of "''dimitri monastery''" 1
      "init_retriever (load_memories [old_festival, recent_meeting] empty_store) ''mistral:7b'' True" 20]
    ranking_store_query
  by (simp add: init_retriever_def)

text \<open>\<open>[:k]\<close> with a negative \<open>k\<close> drops records from the end instead of
  returning none or all: asking for the \<open>IC\<close> records at chapter 20 with
  \<open>k = -1\<close> returns nothing, although one is visible and \<open>k = 1\<close> returns it.\<close>

theorem retrieve_negative_k:
  "retrieve_by_type_at_chapter (init_retriever (load_memories [old_festival, recent_meeting] empty_store)
     ''mistral:7b'' True) IC 20 (-1) = [] \<and>
   retrieve_by_type_at_chapter (init_retriever (load_memories [old_festival, recent_meeting] empty_store)
     ''mistral:7b'' True) IC 20 1 = [recent_meeting]"
  using ranking_store_query
  by (simp add: retrieve_by_type_at_chapter_def init_retriever_def py_slice_to_def sort_desc_def
      recent_meeting_def old_festival_def create_memory_unit_def)

text \<open>\<open>get_chapter_summary\<close> counts every visible record once in its confidence
  band and once under its type: the bands and the type counts both add up to
  \<open>total_memories\<close>.\<close>

theorem retriever_summary_counts:
  "rs_high (get_retriever_summary r ch) + rs_medium (get_retriever_summary r ch) +
     rs_low (get_retriever_summary r ch) = rs_total_memories (get_retriever_summary r ch) \<and>
   sum_list (map snd (rs_by_type (get_retriever_summary r ch))) =
     rs_total_memories (get_retriever_summary r ch)"
  using summary_fold [of "\<lparr>rs_chapter = ch, rs_total_memories = length (get_memories_at_chapter (r_store r) ch),
      rs_by_type = [], rs_high = 0, rs_medium = 0, rs_low = 0, rs_characters = {}, rs_top_memories = []\<rparr>"
      "get_memories_at_chapter (r_store r) ch"]
  by (simp add: get_retriever_summary_def Let_def)

text \<open>Chapter relevance is banded decay (spec, section 4.3): it never rises as a
  past record gets older, and a record from a later chapter scores 0.\<close>

theorem chapter_relevance_decay:
  "chapter_start m' \<le> chapter_start m \<Longrightarrow> chapter_start m \<le> t \<Longrightarrow>
     chapter_relevance m' t \<le> chapter_relevance m t"
  by (simp add: chapter_relevance_def Let_def)

theorem chapter_relevance_decay_witness:
  "chapter_relevance old_festival 20 \<le> chapter_relevance recent_meeting 20"
  using chapter_relevance_decay [of old_festival recent_meeting 20] fixture_fields by simp

end
