(* ===== verification/Extractor.thy ===== *)
theory Extractor
  imports Memory_Unit
begin

text \<open>
  The parts of \<open>src/llm/memory_extractor.py\<close> and \<open>src/config/\<close> that do not call
  the language model: the rule-based \<open>MockMemoryExtractor\<close> that the pipeline uses with
  \<open>--mock\<close>, the check \<open>validate_memory\<close>, and the fallback tables the three
  configuration loaders return when their JSON file cannot be read. The uuid and the
  timestamp of a \<open>MemoryUnit(...)\<close> call are inputs, as in \<open>create_memory_unit\<close>.
\<close>

section \<open>Configuration\<close>

text \<open>What \<open>validate_memory\<close> reads from \<open>self.defaults\<close>,
  \<open>self.entity_registry\<close> and \<open>self.predicate_vocab\<close>: the minimum confidence,
  the world and user ids, the alias table, and for each predicate its
  \<open>object_enum\<close>.\<close>

record extractor_config =
  min_confidence :: rat
  world_id :: string
  user_id :: string
  character_aliases :: "(string, string) pydict"
  predicate_vocab :: "(string, string list) pydict"

text \<open>The fallback tables of \<open>load_entity_registry\<close>, \<open>load_predicate_vocabulary\<close>
  and \<open>load_defaults\<close>.\<close>

definition fallback_character_aliases :: "(string, string) pydict" where
  "fallback_character_aliases =
     [(''Byleth'', ''byleth''), (''Dimitri'', ''dimitri''), (''Sylvain'', ''sylvain''),
      (''Annette'', ''annette''), (''Dedue'', ''dedue''), (''Felix'', ''felix''),
      (''Mercedes'', ''mercedes''), (''Ashe'', ''ashe'')]"

definition fallback_predicate_vocab :: "(string, string list) pydict" where
  "fallback_predicate_vocab =
     [(''relationship_status'',
        [''started_affair'', ''affair_acknowledged'', ''jealous'', ''suspicious'',
         ''reconciled'', ''proprietary_display'', ''mentor_mask'', ''confrontation'',
         ''deception'', ''manipulation'', ''betrayal_discovered'']),
      (''secrecy_pact'', [''true'', ''false'']),
      (''contact'', [''exchanged_numbers'', ''private_meeting'', ''hotel_rendezvous'']),
      (''evidence'', [''dedue_found_earring'', ''public_display'', ''witnessed_betrayal'']),
      (''manipulation'', [''engineered_alibi_and_tryst'', ''sabotaged_plans'', ''created_conflict'']),
      (''alert'', [''health_alert_circulated'', ''virus_warning'', ''company_memo'']),
      (''world_discussion'', [''office_dismissive_attitude'', ''virus_fearmongering'', ''distant_threat'']),
      (''office_dynamics'', [''first_day_energy'', ''professional_boundaries'', ''workplace_entanglements''])]"

definition fallback_config :: extractor_config where
  "fallback_config =
     \<lparr>min_confidence = 0.70, world_id = ''world'', user_id = ''user_123'',
      character_aliases = fallback_character_aliases, predicate_vocab = fallback_predicate_vocab\<rparr>"

section \<open>Validation\<close>

text \<open>\<open>validate_memory\<close>, its early returns in the code's order. The subject-count
  tests use the literal ids \<open>"world"\<close> and \<open>"user_123"\<close>, as the code does.\<close>

definition validate_memory :: "extractor_config \<Rightarrow> memory_unit \<Rightarrow> bool" where
  "validate_memory cfg m =
     (if confidence m < min_confidence cfg then False
      else if mem_type m \<notin> set [WM, IC, C2U] then False
      else if mem_type m = WM \<and> subjects m \<noteq> [world_entity] then False
      else if mem_type m = IC \<and> length (subjects m) \<noteq> 2 then False
      else if mem_type m = C2U \<and> length (subjects m) \<noteq> 2 \<and> user_entity \<notin> set (subjects m) then False
      else
        (let valid = set (map snd (character_aliases cfg)) \<union> {world_id cfg, user_id cfg}
         in if \<exists>x \<in> set (subjects m). x \<notin> valid then False
            else (case dict_get (predicate_vocab cfg) (predicate m) of
                    None \<Rightarrow> False
                  | Some objs \<Rightarrow> object m \<in> set objs)))"

section \<open>The mock extractor\<close>

text \<open>The \<open>MemoryUnit(...)\<close> call shared by every rule of the mock: version 1, active,
  open-ended, provenance from the synopsis, no embedding.\<close>

definition mock_unit ::
  "string \<Rightarrow> string \<Rightarrow> int \<Rightarrow> string \<Rightarrow> string list \<Rightarrow> string \<Rightarrow> string \<Rightarrow> string \<Rightarrow>
   string \<Rightarrow> rat \<Rightarrow> memory_unit" where
  "mock_unit u stamp ch typ subjs text pred obj vis conf =
     \<lparr>mem_id = u, mem_type = typ, subjects = subjs, predicate = pred, object = obj,
      fact_text = text, chapter_start = ch, chapter_end = None, visibility = vis,
      confidence = conf, is_active = True,
      provenance = \<lparr>prov_chapter = ch, prov_source = ''synopsis'', prov_timestamp = stamp\<rparr>,
      version = 1, supersedes = None, superseded_by = None, update_reason = None,
      update_confidence = None, embedding = None, attrs = [(''language'', ''en'')]\<rparr>"

text \<open>The rules after the comment \<open># Add more rules for Chapter 1\<close>.\<close>

definition mock_extract_more :: "string \<Rightarrow> string \<Rightarrow> string \<Rightarrow> int \<Rightarrow> memory_unit option" where
  "mock_extract_more u stamp sl ch =
     (if py_contains ''garreg mach'' sl \<and> py_contains ''first-day'' sl then
        Some (mock_unit u stamp ch WM [''world'']
          ''Byleth steps into Garreg Mach Corp, the air buzzing with first-day energy''
          ''setting'' ''garreg_mach_corp'' ''global'' 0.95)
      else if py_contains ''byleth'' sl \<and> py_contains ''dimitri'' sl \<and> py_contains ''asset'' sl then
        Some (mock_unit u stamp ch IC [''byleth'', ''dimitri'']
          ''Byleth notes Dimitri as a potential asset or obstacle in the games to come''
          ''first_meeting'' ''noted_potential_asset'' ''shared'' 0.9)
      else if py_contains ''byleth'' sl \<and> py_contains ''sylvain'' sl \<and> py_contains ''asset'' sl then
        Some (mock_unit u stamp ch IC [''byleth'', ''sylvain'']
          ''Byleth notes Sylvain as a potential asset or obstacle in the games to come''
          ''first_meeting'' ''noted_potential_asset'' ''shared'' 0.9)
      else if py_contains ''intimacy'' sl \<and> py_contains ''sylvain'' sl \<and> py_contains ''annette'' sl then
        Some (mock_unit u stamp ch IC [''sylvain'', ''annette'']
          ''Sylvain and Annette share an easy intimacy, their established relationship is clear''
          ''relationship_status'' ''proprietary_display'' ''shared'' 0.9)
      else if py_contains ''desk'' sl \<and> py_contains ''after hours'' sl then
        Some (mock_unit u stamp ch IC [''byleth'', ''dimitri'']
          ''Byleth approaches Dimitri's desk after hours and weaves a plausible story about needing help with a task''
          ''manipulation'' ''engineered_alibi_and_tryst'' ''shared'' 0.95)
      else None)"

text \<open>\<open>MockMemoryExtractor.extract_memories_from_sentence\<close>: the first rule whose
  substrings all occur in the lowered sentence.\<close>

definition mock_extract :: "string \<Rightarrow> string \<Rightarrow> string \<Rightarrow> int \<Rightarrow> memory_unit option" where
  "mock_extract u stamp sentence ch =
     (let sl = py_lower sentence
      in if py_contains ''earring'' sl \<and> py_contains ''byleth'' sl then
           Some (mock_unit u stamp ch IC [''dedue'', ''byleth'']
             ''Dedue found evidence of Byleth's affair at Dimitri's home (earring).''
             ''evidence'' ''dedue_found_earring'' ''shared'' 0.9)
         else if py_contains ''virus'' sl then
           Some (mock_unit u stamp ch WM [''world'']
             ''A company-wide memo warns about a novel virus.''
             ''alert'' ''health_alert_circulated'' ''global'' 0.8)
         else if py_contains ''affair'' sl \<and> py_contains ''dimitri'' sl \<and> py_contains ''byleth'' sl then
           Some (mock_unit u stamp ch IC [''dimitri'', ''byleth'']
             ''Byleth and Dimitri started an affair.''
             ''relationship_status'' ''started_affair'' ''shared'' 0.9)
         else if py_contains ''sylvain'' sl \<and> py_contains ''annette'' sl then
           Some (mock_unit u stamp ch IC [''sylvain'', ''annette'']
             ''Sylvain and Annette have an established relationship.''
             ''relationship_status'' ''reconciled'' ''shared'' 0.8)
         else mock_extract_more u stamp sl ch)"


section \<open>Lemmas\<close>

lemma mock_unit_fields [simp]:
  "mem_id (mock_unit u st ch t ss tx p ob v c) = u" "version (mock_unit u st ch t ss tx p ob v c) = 1"
  "supersedes (mock_unit u st ch t ss tx p ob v c) = None"
  "chapter_start (mock_unit u st ch t ss tx p ob v c) = ch"
  "object (mock_unit u st ch t ss tx p ob v c) = ob"
  by (simp_all add: mock_unit_def)

text \<open>Every record of the mock is a first version with no predecessor, as the
  resolver expects of a candidate.\<close>

lemma mock_extract_more_wf:
  "mock_extract_more u st sl ch = Some m \<Longrightarrow> version m = 1 \<and> supersedes m = None \<and> chapter_start m = ch"
  unfolding mock_extract_more_def by (simp split: if_split_asm; metis mock_unit_fields(2,3,4))
lemma mock_extract_wf:
  "mock_extract u st s ch = Some m \<Longrightarrow> version m = 1 \<and> supersedes m = None \<and> chapter_start m = ch"
  unfolding mock_extract_def Let_def by (simp split: if_split_asm add: mock_extract_more_wf; metis mock_unit_fields(2,3,4))

section \<open>Properties\<close>

text \<open>The mock's rule for \<open>"intimacy"\<close> with Sylvain and Annette is
  unreachable: the earlier rule for Sylvain and Annette fires on every such sentence, so
  the mock never produces the \<open>proprietary_display\<close> record.\<close>

theorem mock_intimacy_rule_dead:
  "map_option object (mock_extract u stamp sentence ch) \<noteq> Some ''proprietary_display''"
  by (simp add: mock_extract_def mock_extract_more_def Let_def)

text \<open>C38. \<open>validate_memory\<close> joins the two \<open>CHARACTER_TO_USER\<close> conditions with
  \<open>and\<close>, so a private record needs only one of them, where the spec requires exactly
  two subjects including the user (section 3): a private record with two subjects is
  judged exactly as the same fact between two characters, whether the user is among
  them or not; and once the user is among the subjects, any number of further copies of
  its subjects leaves the verdict unchanged.\<close>

theorem validate_memory_c2u:
  assumes c2u: "mem_type m = C2U"
  shows "(length (subjects m) = 2 \<longrightarrow>
            validate_memory cfg m = validate_memory cfg (m\<lparr>mem_type := IC\<rparr>)) \<and>
         (user_entity \<in> set (subjects m) \<and> set xs \<subseteq> set (subjects m) \<longrightarrow>
            validate_memory cfg (m\<lparr>subjects := subjects m @ xs\<rparr>) = validate_memory cfg m)"
proof (intro conjI impI)
  assume "length (subjects m) = 2"
  then show "validate_memory cfg m = validate_memory cfg (m\<lparr>mem_type := IC\<rparr>)"
    using c2u by (auto simp: validate_memory_def Let_def split: option.splits)
next
  assume u: "user_entity \<in> set (subjects m) \<and> set xs \<subseteq> set (subjects m)"
  then have "set (subjects m @ xs) = set (subjects m)" by auto
  then show "validate_memory cfg (m\<lparr>subjects := subjects m @ xs\<rparr>) = validate_memory cfg m"
    using c2u u by (auto simp: validate_memory_def Let_def split: option.splits)
qed

text \<open>C38, applied: with the fallback configuration, a private record of Ashe about
  Dimitri without the user passes as a character relationship would, and a private
  record with the user and four subjects passes as its three-subject form does; both
  pass.\<close>

theorem validate_memory_c2u_witness:
  "validate_memory fallback_config
     (mock_unit ''x'' ''t0'' 3 C2U [''ashe'', ''dimitri''] ''Ashe is jealous of Dimitri.''
        ''relationship_status'' ''jealous'' ''private'' 0.9) \<and>
   validate_memory fallback_config
     (mock_unit ''y'' ''t0'' 3 C2U [''ashe'', ''dimitri'', user_entity, ''ashe''] ''Ashe is jealous of Dimitri.''
        ''relationship_status'' ''jealous'' ''private'' 0.9)"
proof -
  let ?m1 = "mock_unit ''x'' ''t0'' 3 C2U [''ashe'', ''dimitri''] ''Ashe is jealous of Dimitri.''
        ''relationship_status'' ''jealous'' ''private'' 0.9"
  let ?m2 = "mock_unit ''y'' ''t0'' 3 C2U [''ashe'', ''dimitri'', user_entity] ''Ashe is jealous of Dimitri.''
        ''relationship_status'' ''jealous'' ''private'' 0.9"
  have ic: "validate_memory fallback_config (?m1\<lparr>mem_type := IC\<rparr>)"
    by (simp add: validate_memory_def fallback_config_def fallback_character_aliases_def
      fallback_predicate_vocab_def mock_unit_def dict_get_def)
  have three: "validate_memory fallback_config ?m2"
    by (simp add: validate_memory_def fallback_config_def fallback_character_aliases_def
      fallback_predicate_vocab_def mock_unit_def dict_get_def)
  have e1: "validate_memory fallback_config ?m1 = validate_memory fallback_config (?m1\<lparr>mem_type := IC\<rparr>)"
    using validate_memory_c2u [of ?m1 fallback_config "[]"] by (simp add: mock_unit_def)
  have e2: "validate_memory fallback_config (?m2\<lparr>subjects := subjects ?m2 @ [''ashe'']\<rparr>) =
      validate_memory fallback_config ?m2"
    using validate_memory_c2u [of ?m2 fallback_config "[''ashe'']"] by (simp add: mock_unit_def)
  have "?m2\<lparr>subjects := subjects ?m2 @ [''ashe'']\<rparr> =
      mock_unit ''y'' ''t0'' 3 C2U [''ashe'', ''dimitri'', user_entity, ''ashe''] ''Ashe is jealous of Dimitri.''
        ''relationship_status'' ''jealous'' ''private'' 0.9"
    by (simp add: mock_unit_def)
  then show ?thesis using ic three e1 e2 by simp
qed

end
