(* ===== verification/Pipeline.thy ===== *)
theory Pipeline
  imports Extractor Resolver
begin

text \<open>
  The chapter pipeline of \<open>src/generate_memory_sets.py\<close>:
  \<open>extract_memories_from_chapter\<close> splits a synopsis into sentences and asks the
  extractor for one record per sentence; \<open>process_chapters_sequentially\<close> feeds every
  record, chapter by chapter, to \<open>smart_update_or_create\<close> and counts the actions. The
  extractor is a parameter: \<open>Inl ()\<close> is an exception, which the code catches and
  skips, \<open>Inr None\<close> a sentence without a fact. The \<open>uuid.uuid4()\<close> values the
  resolver draws come from a supply \<open>uuids\<close>, two per record, indexed by a counter.
  A chapter's JSON object is modelled by its two fields the code reads, each absent or
  present; \<open>load_chapters\<close>, the argument parsing and the printing are I/O.
\<close>

section \<open>Sentences\<close>

text \<open>\<open>s.split(sep)\<close> for a one-character separator: empty pieces are kept.\<close>

fun split_sep_acc :: "char \<Rightarrow> string \<Rightarrow> string \<Rightarrow> string list" where
  "split_sep_acc c cur [] = [rev cur]"
| "split_sep_acc c cur (x # xs) =
     (if x = c then rev cur # split_sep_acc c [] xs else split_sep_acc c (x # cur) xs)"

definition py_split_sep :: "char \<Rightarrow> string \<Rightarrow> string list" where
  "py_split_sep c s = split_sep_acc c [] s"

text \<open>\<open>[s.strip() for s in synopsis.split('.') if s.strip()]\<close>.\<close>

definition sentences_of :: "string \<Rightarrow> string list" where
  "sentences_of syn = map py_strip (filter (\<lambda>s. py_strip s \<noteq> []) (py_split_sep (CHR ''.'') syn))"

section \<open>Extraction of a chapter\<close>

record chapter_data =
  cd_synopsis :: "string option"
  cd_chapter_number :: "int option"

type_synonym extractor = "string \<Rightarrow> int \<Rightarrow> unit + memory_unit option"

definition extract_memories_from_chapter :: "extractor \<Rightarrow> chapter_data \<Rightarrow> int \<Rightarrow> memory_unit list" where
  "extract_memories_from_chapter ex cd chn =
     (let syn = (case cd_synopsis cd of None \<Rightarrow> [] | Some s \<Rightarrow> s)
      in if syn = [] then []
         else concat (map (\<lambda>s. if length s < 10 then []
                               else (case ex s chn of Inl e \<Rightarrow> [] | Inr None \<Rightarrow> [] | Inr (Some m) \<Rightarrow> [m]))
                        (sentences_of syn)))"

text \<open>The mock extractor of \<open>--mock\<close>: its own \<open>uuid.uuid4()\<close> id is replaced by
  the store, so a constant stands for it.\<close>

definition mock_extractor :: "string \<Rightarrow> extractor" where
  "mock_extractor stamp = (\<lambda>s ch. Inr (mock_extract ''mock'' stamp s ch))"

section \<open>Processing the chapters\<close>

record pipeline_state =
  pl_store :: store
  pl_new :: nat
  pl_updated :: nat
  pl_next :: nat

text \<open>One record: \<open>smart_update_or_create(memory, chapter_number)\<close> with the default
  threshold, and the counter the action selects (\<open>"updated" in action\<close>).\<close>

definition process_memory :: "(nat \<Rightarrow> string) \<Rightarrow> int \<Rightarrow> pipeline_state \<Rightarrow> memory_unit \<Rightarrow> pipeline_state" where
  "process_memory uuids chn st m =
     (let (s', r, act) = smart_update_or_create m chn default_update_threshold
                           (uuids (pl_next st)) (uuids (Suc (pl_next st))) (pl_store st)
      in st\<lparr>pl_store := s',
            pl_new := pl_new st + (case act of Created_new \<Rightarrow> 1 | Updated_existing sc \<Rightarrow> 0),
            pl_updated := pl_updated st + (case act of Created_new \<Rightarrow> 0 | Updated_existing sc \<Rightarrow> 1),
            pl_next := pl_next st + 2\<rparr>)"

text \<open>One chapter: \<open>chapter_data.get("chapter_number", i)\<close>, then its records in order.\<close>

definition process_chapter ::
  "extractor \<Rightarrow> (nat \<Rightarrow> string) \<Rightarrow> pipeline_state \<Rightarrow> nat \<times> chapter_data \<Rightarrow> pipeline_state" where
  "process_chapter ex uuids st ic =
     (let (i, cd) = ic;
          chn = (case cd_chapter_number cd of None \<Rightarrow> int i | Some n \<Rightarrow> n)
      in foldl (process_memory uuids chn) st (extract_memories_from_chapter ex cd chn))"

record pipeline_result =
  chapters_processed :: nat
  new_memories :: nat
  updated_memories :: nat
  total_memories :: nat

definition process_chapters_sequentially ::
  "extractor \<Rightarrow> (nat \<Rightarrow> string) \<Rightarrow> chapter_data list \<Rightarrow> store \<Rightarrow> store \<times> pipeline_result" where
  "process_chapters_sequentially ex uuids chs s =
     (let st = foldl (process_chapter ex uuids)
                 \<lparr>pl_store = s, pl_new = 0, pl_updated = 0, pl_next = 0\<rparr>
                 (zip [1..<Suc (length chs)] chs)
      in (pl_store st,
          \<lparr>chapters_processed = length chs, new_memories = pl_new st,
           updated_memories = pl_updated st, total_memories = get_total_memories (pl_store st)\<rparr>))"


section \<open>Invariant of a run\<close>

text \<open>Between two records: the store invariant and well-formed chains hold, no uuid
  the supply has not yet handed out is an id of the store, and every record processed
  so far added exactly one id.\<close>

definition pl_inv :: "nat \<Rightarrow> (nat \<Rightarrow> string) \<Rightarrow> pipeline_state \<Rightarrow> bool" where
  "pl_inv n0 uuids st \<longleftrightarrow>
     store_inv (pl_store st) \<and> chain_ok (pl_store st) \<and>
     (\<forall>n \<ge> pl_next st. uuids n \<notin> fst ` set (all_memories (pl_store st))) \<and>
     length (all_memories (pl_store st)) = n0 + pl_new st + pl_updated st"

lemma process_memory_inv:
  assumes inj: "inj uuids" and inv: "pl_inv n0 uuids st"
    and v: "1 \<le> version m" and p: "supersedes m = None"
  shows "pl_inv n0 uuids (process_memory uuids chn st m)"
proof -
  let ?k = "pl_next st" and ?s = "pl_store st"
  obtain s' r act where run: "smart_update_or_create m chn default_update_threshold
      (uuids ?k) (uuids (Suc ?k)) ?s = (s', r, act)"
    by (metis prod_cases3)
  from inv have si: "store_inv ?s" and ok: "chain_ok ?s"
    and fr: "\<And>n. ?k \<le> n \<Longrightarrow> uuids n \<notin> fst ` set (all_memories ?s)"
    and len: "length (all_memories ?s) = n0 + pl_new st + pl_updated st"
    by (auto simp: pl_inv_def)
  have f1: "uuids ?k \<notin> fst ` set (all_memories ?s)" and f2: "uuids (Suc ?k) \<notin> fst ` set (all_memories ?s)"
    by (simp_all add: fr)
  have invs: "store_inv s' \<and> chain_ok s'"
    using smart_update_or_create_invs [OF si ok f1 f2 v p, of chn default_update_threshold] run by simp
  obtain u where u: "u \<in> {uuids ?k, uuids (Suc ?k)}"
      and keys: "all_memories s' = all_memories ?s @ [(u, length (heap ?s))]"
    using smart_update_or_create_keys [OF f1 f2, of m chn default_update_threshold] run by auto
  have fresh': "uuids n \<notin> fst ` set (all_memories s')" if "Suc (Suc ?k) \<le> n" for n
  proof -
    have "uuids n \<noteq> u" using u that inj by (auto dest: injD)
    with fr [of n] that show ?thesis by (simp add: keys)
  qed
  have cnt: "(case act of Created_new \<Rightarrow> 1 | Updated_existing sc \<Rightarrow> 0) +
             (case act of Created_new \<Rightarrow> 0 | Updated_existing sc \<Rightarrow> 1) = (1::nat)"
    by (cases act) simp_all
  show ?thesis
    using invs fresh' len cnt keys
    by (simp add: pl_inv_def process_memory_def run)
qed

lemma extract_memories_from:
  "m \<in> set (extract_memories_from_chapter ex cd chn) \<Longrightarrow> \<exists>x. ex x chn = Inr (Some m)"
  by (auto simp: extract_memories_from_chapter_def Let_def split: if_splits sum.splits option.splits)

lemma process_chapter_inv:
  assumes inj: "inj uuids" and inv: "pl_inv n0 uuids st"
    and exok: "\<forall>x c m. ex x c = Inr (Some m) \<longrightarrow> 1 \<le> version m \<and> supersedes m = None"
  shows "pl_inv n0 uuids (process_chapter ex uuids st ic)"
proof -
  obtain i cd where ic: "ic = (i, cd)" by (cases ic)
  let ?chn = "case cd_chapter_number cd of None \<Rightarrow> int i | Some n \<Rightarrow> n"
  have "pl_inv n0 uuids (foldl (process_memory uuids ?chn) st' ms)"
    if "pl_inv n0 uuids st'" "\<forall>m \<in> set ms. 1 \<le> version m \<and> supersedes m = None" for st' ms
    using that
  proof (induction ms arbitrary: st')
    case Nil
    then show ?case by simp
  next
    case (Cons m ms)
    then show ?case using process_memory_inv [OF inj] by simp
  qed
  moreover have "\<forall>m \<in> set (extract_memories_from_chapter ex cd ?chn). 1 \<le> version m \<and> supersedes m = None"
    using exok by (blast dest: extract_memories_from)
  ultimately show ?thesis using inv by (simp add: process_chapter_def ic Let_def)
qed


section \<open>Properties of the pipeline\<close>

text \<open>C19. A run of \<open>process_chapters_sequentially\<close> from a store that satisfies the
  invariant, with an injective uuid supply disjoint from the stored ids and an extractor
  that produces first versions, ends in a store that satisfies the invariant with
  well-formed chains, and its \<open>total_memories\<close> is the initial count plus the new and
  the updated records: every candidate adds exactly one record.\<close>

theorem pipeline_preserves_invariant:
  assumes inv: "store_inv s" and ok: "chain_ok s" and inj: "inj uuids"
    and fresh: "\<forall>n. uuids n \<notin> fst ` set (all_memories s)"
    and exok: "\<forall>x c m. ex x c = Inr (Some m) \<longrightarrow> 1 \<le> version m \<and> supersedes m = None"
  shows "store_inv (fst (process_chapters_sequentially ex uuids chs s)) \<and>
    chain_ok (fst (process_chapters_sequentially ex uuids chs s)) \<and>
    total_memories (snd (process_chapters_sequentially ex uuids chs s)) =
      get_total_memories s + new_memories (snd (process_chapters_sequentially ex uuids chs s)) +
      updated_memories (snd (process_chapters_sequentially ex uuids chs s))"
proof -
  let ?n0 = "length (all_memories s)"
  have "pl_inv ?n0 uuids (foldl (process_chapter ex uuids) st ics)" if "pl_inv ?n0 uuids st" for st ics
    using that
  proof (induction ics arbitrary: st)
    case Nil
    then show ?case by simp
  next
    case (Cons ic ics)
    then show ?case using process_chapter_inv [OF inj _ exok] by simp
  qed
  moreover have "pl_inv ?n0 uuids \<lparr>pl_store = s, pl_new = 0, pl_updated = 0, pl_next = 0\<rparr>"
    using inv ok fresh by (simp add: pl_inv_def)
  ultimately show ?thesis
    by (simp add: process_chapters_sequentially_def Let_def pl_inv_def get_total_memories_def)
qed

theorem pipeline_preserves_invariant_witness:
  "store_inv (fst (process_chapters_sequentially (mock_extractor ''t0'') (\<lambda>n. replicate (Suc n) CHR ''u'')
     [\<lparr>cd_synopsis = Some ''Byleth and Dimitri began an affair. A virus spread.'', cd_chapter_number = None\<rparr>]
     empty_store)) \<and>
   chain_ok (fst (process_chapters_sequentially (mock_extractor ''t0'') (\<lambda>n. replicate (Suc n) CHR ''u'')
     [\<lparr>cd_synopsis = Some ''Byleth and Dimitri began an affair. A virus spread.'', cd_chapter_number = None\<rparr>]
     empty_store))"
proof -
  have "inj (\<lambda>n. replicate (Suc n) CHR ''u'')" by (auto simp: inj_def)
  moreover have "\<forall>x c m. mock_extractor ''t0'' x c = Inr (Some m) \<longrightarrow> 1 \<le> version m \<and> supersedes m = None"
    by (auto simp: mock_extractor_def dest: mock_extract_wf)
  ultimately show ?thesis
    using pipeline_preserves_invariant [OF store_inv_empty _ _ _ _,
        of "\<lambda>n. replicate (Suc n) CHR ''u''" "mock_extractor ''t0''"
           "[\<lparr>cd_synopsis = Some ''Byleth and Dimitri began an affair. A virus spread.'', cd_chapter_number = None\<rparr>]"]
    by (simp add: chain_ok_def empty_store_def records_def)
qed

end
