(* ===== verification/Json.thy ===== *)
theory Json
  imports Prelude
begin

text \<open>
  The Python values that \<open>json.load\<close> and \<open>yaml.safe_load\<close> produce, and the few
  operations the evaluation scripts apply to them (\<open>d.get(k, default)\<close>,
  \<open>d[k]\<close>, \<open>k in x\<close>, \<open>d.items()\<close>, \<open>isinstance\<close>, \<open><\<close>,
  \<open>+\<close>, \<open>/\<close>, \<open>format(x, ".3f")\<close>), each with the exception Python raises when
  the value has the wrong type. Numbers are exact: a JSON integer is \<open>JInt\<close>, a
  float \<open>JFloat\<close> with a rational value. \<open>bool\<close> is a subclass of \<open>int\<close> in
  Python, so \<open>True\<close> counts as the number 1 wherever a number is read.
\<close>

section \<open>Values\<close>

datatype json =
    JNull
  | JBool bool
  | JInt int
  | JFloat rat
  | JStr string
  | JArr "json list"
  | JObj "(string \<times> json) list"

text \<open>The numeric value of \<open>bool\<close>, \<open>int\<close> and \<open>float\<close>; \<open>None\<close> for the
  other types.\<close>

fun py_num :: "json \<Rightarrow> rat option" where
  "py_num (JBool b) = Some (if b then 1 else 0)"
| "py_num (JInt i) = Some (of_int i)"
| "py_num (JFloat r) = Some r"
| "py_num _ = None"

text \<open>\<open>isinstance(x, (int, float))\<close> and \<open>isinstance(x, (list, dict))\<close>.\<close>

definition is_number :: "json \<Rightarrow> bool" where
  "is_number x \<longleftrightarrow> py_num x \<noteq> None"

fun is_list_or_dict :: "json \<Rightarrow> bool" where
  "is_list_or_dict (JArr _) = True"
| "is_list_or_dict (JObj _) = True"
| "is_list_or_dict _ = False"

section \<open>Dictionary access\<close>

text \<open>\<open>x.get(k, default)\<close>: only a \<open>dict\<close> has \<open>get\<close>.\<close>

fun json_get :: "json \<Rightarrow> string \<Rightarrow> json \<Rightarrow> py_error + json" where
  "json_get (JObj kvs) k d = Inr (case dict_get kvs k of None \<Rightarrow> d | Some v \<Rightarrow> v)"
| "json_get _ k d = Inl AttributeError"

text \<open>\<open>x[k]\<close> with a string key: a missing key raises \<open>KeyError\<close>; a list or a
  string needs an integer index, and the other types are not subscriptable.\<close>

fun json_index :: "json \<Rightarrow> string \<Rightarrow> py_error + json" where
  "json_index (JObj kvs) k = (case dict_get kvs k of None \<Rightarrow> Inl KeyError | Some v \<Rightarrow> Inr v)"
| "json_index _ k = Inl TypeError"

text \<open>\<open>k in x\<close> for a string \<open>k\<close>: key membership in a \<open>dict\<close>, element
  equality in a \<open>list\<close>, substring in a \<open>str\<close>; numbers, \<open>bool\<close> and
  \<open>None\<close> are not iterable.\<close>

fun json_contains :: "string \<Rightarrow> json \<Rightarrow> py_error + bool" where
  "json_contains k (JObj kvs) = Inr (k \<in> set (map fst kvs))"
| "json_contains k (JArr xs) = Inr (JStr k \<in> set xs)"
| "json_contains k (JStr s) = Inr (py_contains k s)"
| "json_contains k _ = Inl TypeError"

text \<open>\<open>x.items()\<close>.\<close>

fun json_items :: "json \<Rightarrow> py_error + (string \<times> json) list" where
  "json_items (JObj kvs) = Inr kvs"
| "json_items _ = Inl AttributeError"

section \<open>Arithmetic and comparison\<close>

text \<open>\<open>a < b\<close>: numbers compare by value, strings by code points (the
  lexicographic order of \<open>List_Lexorder\<close>); any other mix raises \<open>TypeError\<close>.
  Two lists would compare lexicographically in Python, but the gates never compare two
  lists: every list is replaced by \<open>0.0\<close> before the comparison.\<close>

fun py_less :: "json \<Rightarrow> json \<Rightarrow> py_error + bool" where
  "py_less (JStr a) (JStr b) = Inr (a < b)"
| "py_less a b =
     (case (py_num a, py_num b) of
        (Some x, Some y) \<Rightarrow> Inr (x < y)
      | _ \<Rightarrow> Inl TypeError)"

text \<open>\<open>a + b\<close> on numbers, as in \<open>sum(...)\<close> (whose start value is the integer
  0, so the accumulator is always a number): the result is an \<open>int\<close> unless a
  \<open>float\<close> takes part.\<close>

fun is_float :: "json \<Rightarrow> bool" where
  "is_float (JFloat _) = True"
| "is_float _ = False"

definition py_add :: "json \<Rightarrow> json \<Rightarrow> py_error + json" where
  "py_add a b =
     (case (py_num a, py_num b) of
        (Some x, Some y) \<Rightarrow>
          Inr (if is_float a \<or> is_float b then JFloat (x + y) else JInt (\<lfloor>x + y\<rfloor>))
      | _ \<Rightarrow> Inl TypeError)"

text \<open>\<open>a / n\<close> for a positive length \<open>n\<close>: true division gives a \<open>float\<close>.\<close>

definition py_div_len :: "json \<Rightarrow> nat \<Rightarrow> py_error + json" where
  "py_div_len a n =
     (if n = 0 then Inl ZeroDivisionError
      else case py_num a of Some x \<Rightarrow> Inr (JFloat (x / of_nat n)) | None \<Rightarrow> Inl TypeError)"

text \<open>\<open>f"{x:.3f}"\<close> accepts a number; a string raises \<open>ValueError\<close> (unknown format
  code), every other type \<open>TypeError\<close>. Only whether it raises is modelled: the
  printed text is output.\<close>

fun format_3f :: "json \<Rightarrow> py_error + unit" where
  "format_3f (JStr _) = Inl ValueError"
| "format_3f x = (if is_number x then Inr () else Inl TypeError)"

section \<open>Lemmas\<close>

lemma is_number_simps [simp]:
  "is_number (JBool b)" "is_number (JInt i)" "is_number (JFloat r)"
  "\<not> is_number JNull" "\<not> is_number (JStr s)" "\<not> is_number (JArr xs)" "\<not> is_number (JObj kvs)"
  by (simp_all add: is_number_def)

lemma py_num_is_number: "is_number x \<longleftrightarrow> (\<exists>r. py_num x = Some r)"
  by (cases x) (simp_all add: is_number_def)

lemma py_less_num:
  "py_num a = Some x \<Longrightarrow> py_num b = Some y \<Longrightarrow> py_less a b = Inr (x < y)"
  by (cases a; cases b) simp_all

lemma py_num_Ints: "\<not> is_float a \<Longrightarrow> py_num a = Some x \<Longrightarrow> x \<in> \<int>"
  by (cases a) auto

lemma py_add_num:
  "py_num a = Some x \<Longrightarrow> py_num b = Some y \<Longrightarrow> \<exists>c. py_add a b = Inr c \<and> py_num c = Some (x + y)"
proof -
  assume a: "py_num a = Some x" and b: "py_num b = Some y"
  have "of_int \<lfloor>x + y\<rfloor> = x + y" if "\<not> is_float a" "\<not> is_float b"
  proof -
    have "x + y \<in> \<int>" using py_num_Ints [OF that(1) a] py_num_Ints [OF that(2) b] by simp
    then show ?thesis by (metis Ints_cases floor_of_int)
  qed
  then show ?thesis using a b by (auto simp: py_add_def)
qed

end
