(* ===== verification/Scoring.thy ===== *)
theory Scoring
  imports Json
begin

text \<open>
  The gating layer of \<open>src/eval/scoring.py\<close>: \<open>apply_gates(metrics, config)\<close>
  compares the consolidated metrics with the thresholds of the scoring configuration,
  section by section (retrieval, consistency, coverage), and \<open>run_scoring\<close>
  consolidates the three result files, applies the gates, writes the final results and
  prints one line per gate. The metrics and the configuration are JSON values
  (\<open>json.load\<close>, \<open>yaml.safe_load\<close>), so every \<open>.get\<close>, \<open>[...]\<close>,
  \<open>in\<close>, \<open>.items()\<close> and comparison can raise; the gate functions return
  \<open>py_error + _\<close>. The \<open>"expected"\<close> string \<open>f">= {min_value}"\<close> is kept as its
  two parts, the comparison and the bound; \<open>timestamp_dir()\<close> is an input.
\<close>

section \<open>Gate results\<close>

record gate_result =
  gr_status :: string
  gr_expected :: "string \<times> json"
  gr_actual :: json

text \<open>The two variables the loops of \<open>apply_gates\<close> update: \<open>status\<close> and
  \<open>gate_results\<close>.\<close>

record gates_acc =
  ga_status :: string
  ga_results :: "(string, gate_result) pydict"

definition gates_init :: gates_acc where
  "gates_init = \<lparr>ga_status = ''PASS'', ga_results = []\<rparr>"

text \<open>The two branches that end every gate: on failure \<open>status = "FAIL"\<close>; in both
  cases \<open>gate_results[gate_name] = {...}\<close>.\<close>

definition record_gate :: "string \<Rightarrow> bool \<Rightarrow> string \<Rightarrow> json \<Rightarrow> json \<Rightarrow> gates_acc \<Rightarrow> gates_acc" where
  "record_gate name failed op bound actual acc =
     \<lparr>ga_status = (if failed then ''FAIL'' else ga_status acc),
      ga_results = dict_set name
        \<lparr>gr_status = (if failed then ''FAIL'' else ''PASS''), gr_expected = (op, bound),
         gr_actual = actual\<rparr> (ga_results acc)\<rparr>"

section \<open>The three kinds of gate\<close>

definition retrieval_metric_mapping :: "(string, string) pydict" where
  "retrieval_metric_mapping =
     [(''precision_at_5'', ''precision''), (''recall_at_10'', ''recall''), (''mrr'', ''mrr'')]"

text \<open>One iteration of the retrieval loop: the bound \<open>min\<close> (default \<open>0.0\<close>), the
  metric under its mapped name in \<open>overall_metrics\<close>, a list or dict replaced by
  \<open>0.0\<close>, then \<open>actual_value < min_value\<close>.\<close>

definition retrieval_gate :: "json \<Rightarrow> gates_acc \<Rightarrow> string \<times> json \<Rightarrow> py_error + gates_acc" where
  "retrieval_gate rm acc g =
     (case g of (name, cfg) \<Rightarrow>
       sbind (json_get cfg ''min'' (JFloat 0)) (\<lambda>min_value.
         let actual_name = (case dict_get retrieval_metric_mapping name of None \<Rightarrow> name | Some n \<Rightarrow> n)
         in sbind (json_get rm ''overall_metrics'' (JObj [])) (\<lambda>om.
            sbind (json_get om actual_name (JFloat 0)) (\<lambda>v.
              let v' = (if is_list_or_dict v then JFloat 0 else v)
              in sbind (py_less v' min_value) (\<lambda>lt.
                 Inr (record_gate name lt ''>='' min_value v' acc))))))"

text \<open>One iteration of the consistency loop: the bound \<open>max\<close> (default \<open>0\<close>), the
  metric under the gate's own name (default \<open>0\<close>), and the failure test
  \<open>isinstance(actual_value, (int, float)) and actual_value > max_value\<close>.\<close>

definition consistency_gate :: "json \<Rightarrow> gates_acc \<Rightarrow> string \<times> json \<Rightarrow> py_error + gates_acc" where
  "consistency_gate cm acc g =
     (case g of (name, cfg) \<Rightarrow>
       sbind (json_get cfg ''max'' (JInt 0)) (\<lambda>max_value.
         sbind (json_get cm name (JInt 0)) (\<lambda>v.
           if is_number v
           then sbind (py_less max_value v) (\<lambda>gt. Inr (record_gate name gt ''<='' max_value v acc))
           else Inr (record_gate name False ''<='' max_value v acc))))"

definition coverage_mapping :: "(string, string) pydict" where
  "coverage_mapping = [(''overall'', ''overall_coverage''), (''per_chapter'', ''chapter_coverage'')]"

text \<open>\<open>sum(chapter.get("coverage_rate", 0.0) for chapter in actual_value) /
  len(actual_value)\<close>, for a non-empty list, and \<open>0.0\<close> for the empty one.\<close>

definition chapter_rate_step :: "json \<Rightarrow> json \<Rightarrow> py_error + json" where
  "chapter_rate_step acc ch = sbind (json_get ch ''coverage_rate'' (JFloat 0)) (py_add acc)"

definition average_coverage :: "json list \<Rightarrow> py_error + json" where
  "average_coverage chs =
     (if chs = [] then Inr (JFloat 0)
      else sbind (sfold chapter_rate_step chs (JInt 0)) (\<lambda>t. py_div_len t (length chs)))"

text \<open>One iteration of the coverage loop: the metric name is the gate name with every
  \<open>"min_"\<close> removed, mapped through \<open>coverage_mapping\<close>; a per-chapter list is
  averaged.\<close>

definition coverage_gate :: "json \<Rightarrow> gates_acc \<Rightarrow> string \<times> json \<Rightarrow> py_error + gates_acc" where
  "coverage_gate cvm acc g =
     (case g of (name, cfg) \<Rightarrow>
       sbind (json_get cfg ''min'' (JFloat 0)) (\<lambda>min_value.
         let metric_name = py_replace ''min_'' [] name;
             actual_name = (case dict_get coverage_mapping metric_name of None \<Rightarrow> metric_name | Some n \<Rightarrow> n)
         in sbind (json_get cvm actual_name (JFloat 0)) (\<lambda>v.
            sbind (case v of
                     JArr chs \<Rightarrow> if metric_name = ''per_chapter'' then average_coverage chs else Inr v
                   | _ \<Rightarrow> Inr v) (\<lambda>v1.
              let v2 = (if is_list_or_dict v1 then JFloat 0 else v1)
              in sbind (py_less v2 min_value) (\<lambda>lt.
                 Inr (record_gate name lt ''>='' min_value v2 acc))))))"

section \<open>apply_gates\<close>

text \<open>One section: \<open>if "retrieval" in gates:\<close>, then \<open>gates["retrieval"]\<close>,
  \<open>metrics.get("retrieval", {})\<close> and the loop over the section's items.\<close>

definition gate_section ::
  "string \<Rightarrow> (json \<Rightarrow> gates_acc \<Rightarrow> string \<times> json \<Rightarrow> py_error + gates_acc) \<Rightarrow> json \<Rightarrow> json \<Rightarrow>
   gates_acc \<Rightarrow> py_error + gates_acc" where
  "gate_section sec gate gates metrics acc =
     sbind (json_contains sec gates) (\<lambda>present.
       if \<not> present then Inr acc
       else sbind (json_index gates sec) (\<lambda>sg.
            sbind (json_get metrics sec (JObj [])) (\<lambda>sm.
            sbind (json_items sg) (\<lambda>its. sfold (gate sm) its acc))))"

record gates_outcome =
  go_status :: string
  go_gate_results :: "(string, gate_result) pydict"
  go_timestamp :: string

definition apply_gates :: "json \<Rightarrow> json \<Rightarrow> string \<Rightarrow> py_error + gates_outcome" where
  "apply_gates metrics config ts =
     sbind (json_get config ''gates'' (JObj [])) (\<lambda>gates.
     sbind (gate_section ''retrieval'' retrieval_gate gates metrics gates_init) (\<lambda>a1.
     sbind (gate_section ''consistency'' consistency_gate gates metrics a1) (\<lambda>a2.
     sbind (gate_section ''coverage'' coverage_gate gates metrics a2) (\<lambda>a3.
       Inr \<lparr>go_status = ga_status a3, go_gate_results = ga_results a3, go_timestamp = ts\<rparr>))))"

section \<open>Consolidation and the scoring run\<close>

text \<open>\<open>consolidate_metrics\<close>: each result file, when it exists, is loaded under its
  key; \<open>None\<close> stands for a missing file.\<close>

definition consolidate_metrics :: "json option \<Rightarrow> json option \<Rightarrow> json option \<Rightarrow> json" where
  "consolidate_metrics r c v =
     JObj ((case r of None \<Rightarrow> [] | Some j \<Rightarrow> [(''retrieval'', j)]) @
           (case c of None \<Rightarrow> [] | Some j \<Rightarrow> [(''consistency'', j)]) @
           (case v of None \<Rightarrow> [] | Some j \<Rightarrow> [(''coverage'', j)]))"

text \<open>The final loop of \<open>run_scoring\<close>: each line formats \<open>result['actual']\<close>
  with \<open>:.3f\<close>.\<close>

definition print_gate_results :: "(string, gate_result) pydict \<Rightarrow> py_error + unit" where
  "print_gate_results grs = sfold (\<lambda>u g. format_3f (gr_actual (snd g))) grs ()"

text \<open>\<open>run_scoring\<close>: the first component is what the output file receives
  (\<open>{**metrics, **gate_results}\<close>, kept as the metrics and the outcome; nothing
  when \<open>apply_gates\<close> raises), the second what the call returns or raises. The file
  is written before the gate lines are printed, so a printing error leaves it
  written.\<close>

definition run_scoring ::
  "json option \<Rightarrow> json option \<Rightarrow> json option \<Rightarrow> json \<Rightarrow> string \<Rightarrow>
   (json \<times> gates_outcome) option \<times> (py_error + json \<times> gates_outcome)" where
  "run_scoring r c v config ts =
     (let metrics = consolidate_metrics r c v
      in case apply_gates metrics config ts of
           Inl e \<Rightarrow> (None, Inl e)
         | Inr go \<Rightarrow> (Some (metrics, go),
                     sbind (print_gate_results (go_gate_results go)) (\<lambda>u. Inr (metrics, go))))"

text \<open>\<open>create_default_scoring_config\<close>: the dictionary it dumps. \<open>yaml.dump\<close>
  sorts the keys, which reorders the entries of each section but changes no value.\<close>

definition default_gates :: "(string, json) pydict" where
  "default_gates =
     [(''retrieval'', JObj [(''precision_at_5'', JObj [(''min'', JFloat 0.65)]),
                           (''recall_at_10'', JObj [(''min'', JFloat 0.75)]),
                           (''mrr'', JObj [(''min'', JFloat 0.70)])]),
      (''consistency'', JObj [(''max_time_overlap_conflicts'', JInt 0),
                             (''max_world_future_leaks'', JInt 0),
                             (''max_crosstalk_leaks'', JInt 0)]),
      (''coverage'', JObj [(''min_overall'', JFloat 0.75), (''min_per_chapter'', JFloat 0.60)])]"

definition default_scoring_config :: json where
  "default_scoring_config = JObj [(''gates'', JObj default_gates)]"

section \<open>Invariant of the gate loops\<close>

text \<open>What the loops keep: both statuses are \<open>PASS\<close> or \<open>FAIL\<close>, and a
  recorded failure has set the overall status.\<close>

definition gacc_ok :: "gates_acc \<Rightarrow> bool" where
  "gacc_ok acc \<longleftrightarrow> ga_status acc \<in> {''PASS'', ''FAIL''} \<and>
     (\<forall>p \<in> set (ga_results acc). gr_status (snd p) \<in> {''PASS'', ''FAIL''} \<and>
        (gr_status (snd p) = ''FAIL'' \<longrightarrow> ga_status acc = ''FAIL''))"

definition records_gate :: "(json \<Rightarrow> gates_acc \<Rightarrow> string \<times> json \<Rightarrow> py_error + gates_acc) \<Rightarrow> bool" where
  "records_gate gate \<longleftrightarrow>
     (\<forall>sm acc g acc'. gate sm acc g = Inr acc' \<longrightarrow> (\<exists>n f op b a. acc' = record_gate n f op b a acc))"

text \<open>Every gate function ends in \<open>record_gate\<close>: the interface
  \<open>gate_section\<close> relies on to keep \<open>gacc_ok\<close>.\<close>

lemma gacc_ok_init: "gacc_ok gates_init"
  by (simp add: gacc_ok_def gates_init_def)

lemma gacc_ok_record_gate: "gacc_ok acc \<Longrightarrow> gacc_ok (record_gate n f op b a acc)"
  unfolding gacc_ok_def record_gate_def by (auto dest: set_dict_set)

lemma retrieval_gate_records: "records_gate retrieval_gate"
  unfolding records_gate_def retrieval_gate_def
  by (auto simp: sbind_Inr_iff Let_def split: prod.splits; blast)

lemma consistency_gate_records: "records_gate consistency_gate"
  unfolding records_gate_def consistency_gate_def
  by (auto simp: sbind_Inr_iff split: prod.splits if_splits; blast)

lemma coverage_gate_records: "records_gate coverage_gate"
  unfolding records_gate_def coverage_gate_def
  by (auto simp: sbind_Inr_iff Let_def split: prod.splits; blast)

lemma gate_section_ok:
  assumes "records_gate gate" and "gacc_ok acc" and "gate_section sec gate gates metrics acc = Inr acc'"
  shows "gacc_ok acc'"
proof -
  have step: "\<And>a x a'. gacc_ok a \<Longrightarrow> x \<in> set its \<Longrightarrow> gate sm a x = Inr a' \<Longrightarrow> gacc_ok a'" for sm its
    using assms(1) gacc_ok_record_gate unfolding records_gate_def by blast
  show ?thesis
    using assms(3) assms(2) sfold_invariant [where P = gacc_ok, OF step]
    by (auto simp: gate_section_def sbind_Inr_iff split: if_splits)
qed

lemma consistency_section_raises:
  assumes "dict_get kvs ''consistency'' = Some (JObj ((n, JInt i) # rest))"
  shows "\<exists>e. gate_section ''consistency'' consistency_gate (JObj kvs) metrics a = Inl e"
proof -
  have mem: "''consistency'' \<in> fst ` set kvs"
    using map_of_SomeD [OF assms [unfolded dict_get_def]] by force
  have step: "consistency_gate sm a (n, JInt i) = Inl AttributeError" for sm
    by (simp add: consistency_gate_def)
  show ?thesis
    by (cases "json_get metrics ''consistency'' (JObj [])") (simp_all add: gate_section_def mem assms step)
qed

section \<open>Properties\<close>

text \<open>C26. Whenever \<open>apply_gates\<close> returns, the overall status and every gate's
  status is \<open>PASS\<close> or \<open>FAIL\<close>, and a listed \<open>FAIL\<close> makes the overall status
  \<open>FAIL\<close>.\<close>

theorem apply_gates_fail_listed:
  assumes "apply_gates metrics config ts = Inr go"
  shows "go_status go \<in> {''PASS'', ''FAIL''} \<and>
         (\<forall>p \<in> set (go_gate_results go). gr_status (snd p) \<in> {''PASS'', ''FAIL''} \<and>
            (gr_status (snd p) = ''FAIL'' \<longrightarrow> go_status go = ''FAIL''))"
proof -
  from assms obtain gates a1 a2 a3 where
    s1: "gate_section ''retrieval'' retrieval_gate gates metrics gates_init = Inr a1" and
    s2: "gate_section ''consistency'' consistency_gate gates metrics a1 = Inr a2" and
    s3: "gate_section ''coverage'' coverage_gate gates metrics a2 = Inr a3" and
    go: "go = \<lparr>go_status = ga_status a3, go_gate_results = ga_results a3, go_timestamp = ts\<rparr>"
    by (auto simp: apply_gates_def sbind_Inr_iff)
  have "gacc_ok a3"
    using gate_section_ok [OF coverage_gate_records _ s3] gate_section_ok [OF consistency_gate_records _ s2]
      gate_section_ok [OF retrieval_gate_records gacc_ok_init s1] by blast
  then show ?thesis by (simp add: go gacc_ok_def)
qed

theorem apply_gates_fail_listed_witness:
  "apply_gates (JObj [(''retrieval'', JObj [(''overall_metrics'', JObj [(''mrr'', JFloat 0.5)])])])
     (JObj [(''gates'', JObj [(''retrieval'', JObj [(''mrr'', JObj [(''min'', JFloat 0.7)])])])]) ''t'' =
   Inr \<lparr>go_status = ''FAIL'',
        go_gate_results = [(''mrr'', \<lparr>gr_status = ''FAIL'', gr_expected = (''>='', JFloat 0.7), gr_actual = JFloat 0.5\<rparr>)],
        go_timestamp = ''t''\<rparr> \<and>
   ''FAIL'' \<in> {''PASS'', ''FAIL''}"
proof -
  have run: "apply_gates (JObj [(''retrieval'', JObj [(''overall_metrics'', JObj [(''mrr'', JFloat 0.5)])])])
     (JObj [(''gates'', JObj [(''retrieval'', JObj [(''mrr'', JObj [(''min'', JFloat 0.7)])])])]) ''t'' =
   Inr \<lparr>go_status = ''FAIL'',
        go_gate_results = [(''mrr'', \<lparr>gr_status = ''FAIL'', gr_expected = (''>='', JFloat 0.7), gr_actual = JFloat 0.5\<rparr>)],
        go_timestamp = ''t''\<rparr>"
    by (simp add: apply_gates_def gate_section_def retrieval_gate_def record_gate_def
        gates_init_def retrieval_metric_mapping_def dict_get_def dict_set_def)
  show ?thesis using apply_gates_fail_listed [OF run] run by simp
qed

text \<open>C24. The configuration that \<open>create_default_scoring_config\<close> writes cannot be
  applied: its consistency and coverage gates are bare numbers, not dictionaries, so
  \<open>gate_config.get("max", 0)\<close> raises \<open>AttributeError\<close> at the latest in the
  first consistency gate, whatever the metrics. Sorting the keys, as \<open>yaml.dump\<close>
  does, changes nothing, since every consistency gate is a number.\<close>

theorem default_config_always_raises:
  "\<exists>e. apply_gates metrics default_scoring_config ts = Inl e"
proof -
  have cons: "dict_get default_gates ''consistency'' =
      Some (JObj ((''max_time_overlap_conflicts'', JInt 0) # [(''max_world_future_leaks'', JInt 0),
                             (''max_crosstalk_leaks'', JInt 0)]))"
    by (simp add: default_gates_def dict_get_def)
  show ?thesis
  proof (cases "gate_section ''retrieval'' retrieval_gate (JObj default_gates) metrics gates_init")
    case (Inl e)
    then show ?thesis by (simp add: apply_gates_def default_scoring_config_def dict_get_def)
  next
    case (Inr a1)
    obtain e where "gate_section ''consistency'' consistency_gate (JObj default_gates) metrics a1 = Inl e"
      using consistency_section_raises [OF cons] by blast
    then show ?thesis using Inr by (simp add: apply_gates_def default_scoring_config_def dict_get_def)
  qed
qed

text \<open>Gate results are keyed by gate name across the three sections: a coverage gate
  named like a failed retrieval gate overwrites its entry with \<open>PASS\<close>, and the
  report says \<open>FAIL\<close> without listing any failed gate.\<close>

theorem gate_result_overwritten:
  "apply_gates (JObj [(''retrieval'', JObj [(''overall_metrics'', JObj [(''mrr'', JFloat 0.5)])])])
     (JObj [(''gates'', JObj [(''retrieval'', JObj [(''mrr'', JObj [(''min'', JFloat 0.7)])]),
                              (''coverage'', JObj [(''mrr'', JObj [])])])]) ''t'' =
   Inr \<lparr>go_status = ''FAIL'',
        go_gate_results = [(''mrr'', \<lparr>gr_status = ''PASS'', gr_expected = (''>='', JFloat 0), gr_actual = JFloat 0\<rparr>)],
        go_timestamp = ''t''\<rparr>"
  by (simp add: apply_gates_def gate_section_def retrieval_gate_def coverage_gate_def record_gate_def
      gates_init_def retrieval_metric_mapping_def coverage_mapping_def dict_get_def dict_set_def)
end
