(* ===== verification/Eval_Utils.thy ===== *)
theory Eval_Utils
  imports Memory_Unit
begin

text \<open>
  The helpers of \<open>src/eval/utils.py\<close> that the evaluations call:
  \<open>canonical_key\<close>, the word-overlap \<open>text_similarity\<close> of the coverage
  evaluation, and \<open>calculate_precision_recall_mrr\<close> of the retrieval evaluation.
  \<open>load_jsonl\<close>, \<open>save_jsonl\<close> and \<open>timestamp_dir\<close> are file and clock I/O.
  Python sets of words are duplicate-free lists; their sizes are related to the
  cardinalities of the corresponding HOL sets.
\<close>

section \<open>Canonical key\<close>

definition eval_canonical_key :: "string list \<Rightarrow> string \<Rightarrow> string \<Rightarrow> string" where
  "eval_canonical_key subjs pred obj = py_join ''::'' (sort subjs) @ ''::'' @ pred @ ''::'' @ obj"

section \<open>Text similarity\<close>

text \<open>\<open>re.sub(r'[^\w\s]', '', s)\<close>: keep the word characters and the whitespace,
  drop everything else.\<close>

definition strip_punct :: "string \<Rightarrow> string" where
  "strip_punct s = filter (\<lambda>c. is_word_char c \<or> is_py_space c) s"

text \<open>\<open>set(re.sub(...).split())\<close> of the lowered text, as a duplicate-free list.\<close>

definition norm_words :: "string \<Rightarrow> string list" where
  "norm_words s = remdups (py_split (strip_punct (py_lower s)))"

definition text_similarity :: "string \<Rightarrow> string \<Rightarrow> rat" where
  "text_similarity t1 t2 =
     (if t1 = [] \<or> t2 = [] then 0
      else
        (let w1 = norm_words t1; w2 = norm_words t2
         in if w1 = [] \<or> w2 = [] then 0
            else
              (let inter = length (filter (\<lambda>w. w \<in> set w2) w1);
                   union = length (remdups (w1 @ w2))
               in if 0 < union then of_nat inter / of_nat union else 0)))"

text \<open>The measure the coverage evaluation means by word overlap: the Jaccard index of
  two finite sets, 0 when both are empty.\<close>

definition jaccard :: "'a set \<Rightarrow> 'a set \<Rightarrow> rat" where
  "jaccard A B = (if A \<union> B = {} then 0 else of_nat (card (A \<inter> B)) / of_nat (card (A \<union> B)))"

section \<open>Precision, recall and MRR\<close>

text \<open>The counting loop: a retrieved key is correct when it is the key of any gold
  memory (\<open>key in all_gold_keys\<close>); the query's own gold ids are not consulted.\<close>

definition count_correct :: "string list \<Rightarrow> string list \<Rightarrow> nat" where
  "count_correct retrieved all_gold = length (filter (\<lambda>k. k \<in> set all_gold) retrieved)"

text \<open>The MRR loop \<open>for i, key in enumerate(retrieved_keys)\<close> with its
  \<open>break\<close> at the first correct key; \<open>i\<close> is the index reached.\<close>

fun mrr_loop :: "string list \<Rightarrow> string list \<Rightarrow> nat \<Rightarrow> rat" where
  "mrr_loop all_gold [] i = 0"
| "mrr_loop all_gold (k # ks) i = (if k \<in> set all_gold then 1 / of_nat (i + 1) else mrr_loop all_gold ks (Suc i))"

text \<open>\<open>calculate_precision_recall_mrr(retrieved_keys, all_gold_keys, gold_ids)\<close>;
  the caller passes \<open>gold_ids\<close> as a Python set, a duplicate-free list here.\<close>

definition calculate_precision_recall_mrr :: "string list \<Rightarrow> string list \<Rightarrow> string list \<Rightarrow> rat \<times> rat \<times> rat" where
  "calculate_precision_recall_mrr retrieved all_gold gold_ids =
     (let correct = count_correct retrieved all_gold;
          precision = (if retrieved \<noteq> [] then of_nat correct / of_nat (length retrieved) else 0);
          recall = (if gold_ids \<noteq> [] then of_nat correct / of_nat (length gold_ids) else 0)
      in (precision, recall, mrr_loop all_gold retrieved 0))"

section \<open>Lemmas\<close>

lemma distinct_norm_words [simp]: "distinct (norm_words s)"
  by (simp add: norm_words_def)

text \<open>The similarity as a ratio of cardinalities of the two word sets.\<close>

lemma text_similarity_card:
  "text_similarity t1 t2 =
     (if t1 = [] \<or> t2 = [] \<or> norm_words t1 = [] \<or> norm_words t2 = [] then 0
      else of_nat (card (set (norm_words t1) \<inter> set (norm_words t2))) /
           of_nat (card (set (norm_words t1) \<union> set (norm_words t2))))"
proof -
  have pos: "0 < card (set (norm_words t1) \<union> set (norm_words t2))" if "norm_words t1 \<noteq> []"
    using that by (simp add: card_gt_0_iff)
  show ?thesis
    using pos by (simp add: text_similarity_def Let_def length_filter_in_distinct length_remdups_union)
qed

lemma norm_words_Nil [simp]: "norm_words [] = []"
  by (simp add: norm_words_def strip_punct_def py_lower_def py_split_def)

section \<open>Properties\<close>

text \<open>C33. \<open>text_similarity\<close> is the Jaccard index of the two sets of normalised
  words: the size of their intersection over the size of their union, 0 when either
  text has no word.\<close>

theorem text_similarity_jaccard:
  "text_similarity t1 t2 = jaccard (set (norm_words t1)) (set (norm_words t2))"
  by (cases "t1 = []"; cases "t2 = []") (auto simp: text_similarity_card jaccard_def)

section \<open>Further lemmas\<close>

lemma mrr_loop_takeWhile:
  "mrr_loop g ks i =
     (if \<exists>k \<in> set ks. k \<in> set g then 1 / of_nat (i + length (takeWhile (\<lambda>k. k \<notin> set g) ks) + 1) else 0)"
  by (induction g ks i rule: mrr_loop.induct) simp_all

lemma count_correct_le: "count_correct r g \<le> length r"
  by (simp add: count_correct_def)

end
