(* ===== verification/Retrieval_Eval.thy ===== *)
theory Retrieval_Eval
  imports Retriever Eval_Utils Json
begin

text \<open>
  Evaluation A of \<open>src/eval/retrieval_eval.py\<close>: for every query of the gold file,
  \<open>SimpleMemoryRetriever.search_memories_at_chapter\<close> at the query's chapter, the
  retrieved keys compared with the keys of the gold memories, precision, recall and MRR
  per query and on average, and the detailed report. The gold memories and the queries
  are the parsed JSON lines, one record each, whose fields are absent (\<open>None\<close>) or
  present: \<open>d["qid"]\<close> on an absent field raises \<open>KeyError\<close>, \<open>d.get(f, x)\<close>
  gives the default. The gold ids of a query are a Python set; the model keeps them as a
  HOL set where the report lists them in hash order. Printing and the result file are I/O.
\<close>

section \<open>Inputs\<close>

record gold_memory =
  gm_id :: "string option"
  gm_subjects :: "string list option"
  gm_predicate :: "string option"
  gm_object :: "string option"

record eval_query =
  q_qid :: "string option"
  q_chapter :: "int option"
  q_query :: "string option"
  q_k :: "int option"
  q_gold_ids :: "string list option"

text \<open>One iteration of the loop that builds \<open>gold_key_map\<close>: the key from
  \<open>gold_memory["subjects"]\<close>, \<open>["predicate"]\<close>, \<open>["object"]\<close>, then
  \<open>gold_key_map[key] = gold_memory["id"]\<close>.\<close>

definition gold_key_step ::
  "(string, string) pydict \<Rightarrow> gold_memory \<Rightarrow> py_error + (string, string) pydict" where
  "gold_key_step gkm g =
     (case (gm_subjects g, gm_predicate g, gm_object g, gm_id g) of
        (Some s, Some p, Some ob, Some i) \<Rightarrow> Inr (dict_set (eval_canonical_key s p ob) i gkm)
      | _ \<Rightarrow> Inl KeyError)"

section \<open>One query\<close>

record retrieval_analysis =
  ra_rank :: nat
  ra_memory :: memory_unit
  ra_canonical_key :: string
  ra_matched_gold_id :: "string option"
  ra_is_correct :: bool

record query_result =
  qr_query_id :: string
  qr_target_chapter :: int
  qr_k :: int
  qr_gold_ids :: "string set"
  qr_retrieved_keys :: "string list"
  qr_precision :: rat
  qr_recall :: rat
  qr_mrr :: rat
  qr_analysis :: "retrieval_analysis list"

definition memory_key :: "memory_unit \<Rightarrow> string" where
  "memory_key m = eval_canonical_key (subjects m) (predicate m) (object m)"

text \<open>\<open>is_correct = gold_id in gold_ids if gold_id else False\<close>: an empty gold id
  is falsy.\<close>

definition analyse_memory ::
  "(string, string) pydict \<Rightarrow> string list \<Rightarrow> nat \<times> memory_unit \<Rightarrow> retrieval_analysis" where
  "analyse_memory gkm gold_ids im =
     (case im of (i, m) \<Rightarrow>
       (let key = memory_key m; gid = dict_get gkm key
        in \<lparr>ra_rank = i + 1, ra_memory = m, ra_canonical_key = key, ra_matched_gold_id = gid,
            ra_is_correct = (case gid of None \<Rightarrow> False | Some g \<Rightarrow> g \<noteq> [] \<and> g \<in> set gold_ids)\<rparr>))"

text \<open>\<open>_evaluate_query\<close>: \<open>retrieved_memories[:k]\<close> again, with the query's own
  \<open>k\<close> (default 5).\<close>

definition evaluate_query ::
  "eval_query \<Rightarrow> memory_unit list \<Rightarrow> (string, string) pydict \<Rightarrow> int \<Rightarrow> py_error + query_result" where
  "evaluate_query q retrieved gkm target =
     (case q_qid q of
        None \<Rightarrow> Inl KeyError
      | Some qid \<Rightarrow>
          (let gold_ids = remdups (case q_gold_ids q of None \<Rightarrow> [] | Some l \<Rightarrow> l);
               k = (case q_k q of None \<Rightarrow> 5 | Some k \<Rightarrow> k);
               ms = py_slice_to retrieved k;
               keys = map memory_key ms;
               (p, r, mrr) = calculate_precision_recall_mrr keys (map fst gkm) gold_ids
           in Inr \<lparr>qr_query_id = qid, qr_target_chapter = target, qr_k = k, qr_gold_ids = set gold_ids,
                   qr_retrieved_keys = keys, qr_precision = p, qr_recall = r, qr_mrr = mrr,
                   qr_analysis = map (analyse_memory gkm gold_ids) (enumerate 0 ms)\<rparr>))"

section \<open>The loop over the queries\<close>

record retrieval_totals =
  rt_results :: "query_result list"
  rt_precision :: rat
  rt_recall :: rat
  rt_mrr :: rat

definition totals_init :: retrieval_totals where
  "totals_init = \<lparr>rt_results = [], rt_precision = 0, rt_recall = 0, rt_mrr = 0\<rparr>"

text \<open>One iteration: the progress line reads \<open>query['qid']\<close>, then the search with
  \<open>query.get("query", "")\<close>, \<open>query.get("chapter", 1)\<close> and
  \<open>query.get("k", 5)\<close>, the evaluation, and the running totals.\<close>

definition retrieval_query_step ::
  "retriever \<Rightarrow> (string, string) pydict \<Rightarrow> retrieval_totals \<Rightarrow> eval_query \<Rightarrow> py_error + retrieval_totals" where
  "retrieval_query_step r gkm t q =
     (case q_qid q of
        None \<Rightarrow> Inl KeyError
      | Some _ \<Rightarrow>
          (let target = (case q_chapter q of None \<Rightarrow> 1 | Some c \<Rightarrow> c);
               retrieved = search_memories_at_chapter r (case q_query q of None \<Rightarrow> [] | Some s \<Rightarrow> s)
                             target (case q_k q of None \<Rightarrow> 5 | Some k \<Rightarrow> k)
           in sbind (evaluate_query q retrieved gkm target) (\<lambda>qr.
                Inr \<lparr>rt_results = rt_results t @ [qr], rt_precision = rt_precision t + qr_precision qr,
                     rt_recall = rt_recall t + qr_recall qr, rt_mrr = rt_mrr t + qr_mrr qr\<rparr>)))"

section \<open>The detailed report\<close>

record perf_summary =
  ps_query_id :: string
  ps_precision :: rat
  ps_recall :: rat
  ps_mrr :: rat

record chapter_perf =
  cp_count :: nat
  cp_precision :: rat
  cp_recall :: rat
  cp_mrr :: rat

record retrieval_report =
  rr_precision :: rat
  rr_recall :: rat
  rr_mrr :: rat
  rr_query_results :: "query_result list"
  rr_total_queries :: nat
  rr_perfect :: nat
  rr_partial :: nat
  rr_failed :: nat
  rr_success_rate :: rat
  rr_top :: "perf_summary list"
  rr_bottom :: "perf_summary list"
  rr_chapter_performance :: "(int, chapter_perf) pydict"
  rr_failed_ids :: "string list"
  rr_partial_ids :: "string list"

definition perf_of :: "query_result \<Rightarrow> perf_summary" where
  "perf_of qr = \<lparr>ps_query_id = qr_query_id qr, ps_precision = qr_precision qr,
                 ps_recall = qr_recall qr, ps_mrr = qr_mrr qr\<rparr>"

text \<open>The chapter-wise loop: a chapter's entry is created with zero sums on its first
  query, then the metrics are added.\<close>

definition chapter_perf_step :: "(int, chapter_perf) pydict \<Rightarrow> query_result \<Rightarrow> (int, chapter_perf) pydict" where
  "chapter_perf_step cps qr =
     (let c = qr_target_chapter qr;
          cp = (case dict_get cps c of
                  None \<Rightarrow> \<lparr>cp_count = 0, cp_precision = 0, cp_recall = 0, cp_mrr = 0\<rparr>
                | Some cp \<Rightarrow> cp)
      in dict_set c \<lparr>cp_count = cp_count cp + 1, cp_precision = cp_precision cp + qr_precision qr,
                     cp_recall = cp_recall cp + qr_recall qr, cp_mrr = cp_mrr cp + qr_mrr qr\<rparr> cps)"

definition chapter_average :: "chapter_perf \<Rightarrow> chapter_perf" where
  "chapter_average cp =
     (let n = of_nat (cp_count cp)
      in cp\<lparr>cp_precision := cp_precision cp / n, cp_recall := cp_recall cp / n, cp_mrr := cp_mrr cp / n\<rparr>)"

text \<open>\<open>_generate_detailed_report\<close>: the stable descending sort by precision, its first
  and last five, the three precision classes, the chapter averages, and
  \<open>success_rate\<close>, which divides by the number of queries.\<close>

definition generate_detailed_report ::
  "query_result list \<Rightarrow> rat \<Rightarrow> rat \<Rightarrow> rat \<Rightarrow> py_error + retrieval_report" where
  "generate_detailed_report results p r m =
     (let by_perf = sort_desc qr_precision results;
          failed = filter (\<lambda>q. qr_precision q = 0) results;
          partial = filter (\<lambda>q. 0 < qr_precision q \<and> qr_precision q < 1) results;
          perfect = filter (\<lambda>q. qr_precision q = 1) results;
          cps = map (\<lambda>(c, cp). (c, chapter_average cp)) (foldl chapter_perf_step [] results)
      in if results = [] then Inl ZeroDivisionError
         else Inr \<lparr>rr_precision = p, rr_recall = r, rr_mrr = m, rr_query_results = results,
                  rr_total_queries = length results, rr_perfect = length perfect,
                  rr_partial = length partial, rr_failed = length failed,
                  rr_success_rate = of_nat (length perfect) / of_nat (length results),
                  rr_top = map perf_of (take 5 by_perf),
                  rr_bottom = map perf_of (drop (length by_perf - 5) by_perf),
                  rr_chapter_performance = cps,
                  rr_failed_ids = map qr_query_id failed, rr_partial_ids = map qr_query_id partial\<rparr>)"

section \<open>The evaluation\<close>

text \<open>\<open>run_retrieval_eval\<close>: the retriever over the store (\<open>client\<close> tells whether
  \<open>ollama.Client()\<close> succeeded), the gold key map, the query loop, the averages
  (a division by the number of queries) and the report.\<close>

definition run_retrieval_eval ::
  "bool \<Rightarrow> store \<Rightarrow> gold_memory list \<Rightarrow> eval_query list \<Rightarrow> py_error + retrieval_report" where
  "run_retrieval_eval client s golds qs =
     (let r = init_retriever s ''mistral:7b'' client
      in sbind (sfold gold_key_step golds []) (\<lambda>gkm.
         sbind (sfold (retrieval_query_step r gkm) qs totals_init) (\<lambda>t.
           (let n = length qs
            in if n = 0 then Inl ZeroDivisionError
               else generate_detailed_report (rt_results t) (rt_precision t / of_nat n)
                      (rt_recall t / of_nat n) (rt_mrr t / of_nat n)))))"

text \<open>The part of the result file the gates read: \<open>overall_metrics\<close>, with the
  three averages as floats, and the query counts of \<open>performance_analysis\<close>.\<close>

definition retrieval_report_json :: "retrieval_report \<Rightarrow> json" where
  "retrieval_report_json rep =
     JObj [(''overall_metrics'', JObj [(''precision'', JFloat (rr_precision rep)),
                                      (''recall'', JFloat (rr_recall rep)), (''mrr'', JFloat (rr_mrr rep))]),
           (''performance_analysis'', JObj [(''total_queries'', JInt (int (rr_total_queries rep))),
                                           (''perfect_queries'', JInt (int (rr_perfect rep))),
                                           (''partial_queries'', JInt (int (rr_partial rep))),
                                           (''failed_queries'', JInt (int (rr_failed rep))),
                                           (''success_rate'', JFloat (rr_success_rate rep))])]"


section \<open>Fixture\<close>

text \<open>A store with an open affair record from chapter 3 and a world record from
  chapter 1, both keys of gold memories.\<close>

definition two_gold_store :: store where
  "two_gold_store = load_memories [affair_fact 3 0.9, world_fact ''The company will grow.''] empty_store"

section \<open>Lemmas\<close>

lemma calculate_prm_bounds:
  assumes "calculate_precision_recall_mrr ks g ids = (p, r, m)"
  shows "0 \<le> p \<and> p \<le> 1 \<and> 0 \<le> m \<and> m \<le> 1"
proof -
  have "of_nat (count_correct ks g) \<le> (of_nat (length ks) :: rat)"
    using count_correct_le by simp
  then have p: "0 \<le> p \<and> p \<le> 1"
    using assms by (auto simp: calculate_precision_recall_mrr_def Let_def divide_le_eq_1)
  have "0 \<le> m \<and> m \<le> 1"
    using assms by (auto simp: calculate_precision_recall_mrr_def Let_def mrr_loop_takeWhile)
  with p show ?thesis by simp
qed

lemma evaluate_query_bounds:
  "evaluate_query q ms gkm t = Inr qr \<Longrightarrow>
     0 \<le> qr_precision qr \<and> qr_precision qr \<le> 1 \<and> 0 \<le> qr_mrr qr \<and> qr_mrr qr \<le> 1"
  by (auto simp: evaluate_query_def Let_def split: option.splits prod.splits dest!: calculate_prm_bounds)

lemma query_loop:
  assumes "sfold (retrieval_query_step r gkm) qs t0 = Inr t"
  shows "\<exists>rs. rt_results t = rt_results t0 @ rs \<and> length rs = length qs \<and>
           rt_precision t = rt_precision t0 + sum_list (map qr_precision rs) \<and>
           rt_mrr t = rt_mrr t0 + sum_list (map qr_mrr rs) \<and>
           (\<forall>qr \<in> set rs. 0 \<le> qr_precision qr \<and> qr_precision qr \<le> 1 \<and> 0 \<le> qr_mrr qr \<and> qr_mrr qr \<le> 1)"
  using assms
proof (induction qs arbitrary: t0)
  case Nil
  then show ?case by simp
next
  case (Cons q qs)
  from Cons.prems obtain t1 where t1: "retrieval_query_step r gkm t0 q = Inr t1"
      and rest: "sfold (retrieval_query_step r gkm) qs t1 = Inr t"
    by (auto simp: sbind_Inr_iff)
  from t1 obtain qr where qr: "rt_results t1 = rt_results t0 @ [qr]"
      "rt_precision t1 = rt_precision t0 + qr_precision qr" "rt_mrr t1 = rt_mrr t0 + qr_mrr qr"
      "0 \<le> qr_precision qr \<and> qr_precision qr \<le> 1 \<and> 0 \<le> qr_mrr qr \<and> qr_mrr qr \<le> 1"
    by (auto simp: retrieval_query_step_def Let_def sbind_Inr_iff split: option.splits
        dest!: evaluate_query_bounds)
  from Cons.IH [OF rest] obtain rs where rs: "rt_results t = rt_results t1 @ rs" "length rs = length qs"
      "rt_precision t = rt_precision t1 + sum_list (map qr_precision rs)"
      "rt_mrr t = rt_mrr t1 + sum_list (map qr_mrr rs)"
      "\<forall>qr \<in> set rs. 0 \<le> qr_precision qr \<and> qr_precision qr \<le> 1 \<and> 0 \<le> qr_mrr qr \<and> qr_mrr qr \<le> 1"
    by blast
  show ?case
    by (rule exI [of _ "qr # rs"]) (simp add: rs qr)
qed

lemma precision_classes:
  "\<forall>x \<in> set xs. 0 \<le> f x \<and> f x \<le> (1::rat) \<Longrightarrow>
   length (filter (\<lambda>x. f x = 0) xs) + length (filter (\<lambda>x. 0 < f x \<and> f x < 1) xs) +
   length (filter (\<lambda>x. f x = 1) xs) = length xs"
  by (induction xs) auto

lemma average_unit:
  assumes "\<forall>x \<in> set xs. 0 \<le> f x \<and> f x \<le> (1::rat)" and "xs \<noteq> []"
  shows "0 \<le> sum_list (map f xs) / of_nat (length xs) \<and> sum_list (map f xs) / of_nat (length xs) \<le> 1"
proof -
  have "sum_list (map f xs) \<le> of_nat (length xs)"
    using assms(1) by (induction xs) (auto simp: add_mono)
  moreover have "0 \<le> sum_list (map f xs)"
    using assms(1) by (induction xs) auto
  ultimately show ?thesis using assms(2) by (simp add: divide_le_eq_1)
qed

lemma two_gold_fields:
  "chapter_start (affair_fact 3 0.9) = 3 \<and> is_active (affair_fact 3 0.9) \<and> chapter_end (affair_fact 3 0.9) = None \<and>
   chapter_start (world_fact w) = 1 \<and> is_active (world_fact w) \<and> chapter_end (world_fact w) = None \<and>
   memory_key (affair_fact 3 0.9) = ''byleth::dimitri::relationship_status::started_affair'' \<and>
   memory_key (world_fact w) = ''world::alert::company_memo''"
  by (simp add: affair_fact_def world_fact_def create_memory_unit_def memory_key_def eval_canonical_key_def)

lemma two_gold_query:
  "get_memories_at_chapter two_gold_store 5 = [world_fact ''The company will grow.'', affair_fact 3 0.9]"
  using two_gold_fields by (simp add: two_gold_store_def load_memories_def store_query_eval)


section \<open>Properties\<close>

text \<open>C27. A report, when the evaluation returns one, counts every query once in exactly
  one precision class, and the average precision and MRR lie in [0, 1].\<close>

theorem run_retrieval_eval_report_ok:
  assumes "run_retrieval_eval client s golds qs = Inr rep"
  shows "rr_total_queries rep = length qs \<and>
         rr_perfect rep + rr_partial rep + rr_failed rep = rr_total_queries rep \<and>
         0 \<le> rr_precision rep \<and> rr_precision rep \<le> 1 \<and> 0 \<le> rr_mrr rep \<and> rr_mrr rep \<le> 1"
proof -
  from assms obtain gkm t where
    loop: "sfold (retrieval_query_step (init_retriever s ''mistral:7b'' client) gkm) qs totals_init = Inr t"
    and ne: "qs \<noteq> []"
    and rep: "generate_detailed_report (rt_results t) (rt_precision t / of_nat (length qs))
                (rt_recall t / of_nat (length qs)) (rt_mrr t / of_nat (length qs)) = Inr rep"
    by (auto simp: run_retrieval_eval_def sbind_Inr_iff Let_def split: if_splits)
  from query_loop [OF loop] obtain rs where rs: "rt_results t = rs" "length rs = length qs"
      "rt_precision t = sum_list (map qr_precision rs)" "rt_mrr t = sum_list (map qr_mrr rs)"
      "\<forall>qr \<in> set rs. 0 \<le> qr_precision qr \<and> qr_precision qr \<le> 1 \<and> 0 \<le> qr_mrr qr \<and> qr_mrr qr \<le> 1"
    by (auto simp: totals_init_def)
  have rsne: "rs \<noteq> []" using rs(2) ne by auto
  have p: "0 \<le> sum_list (map qr_precision rs) / of_nat (length rs) \<and> sum_list (map qr_precision rs) / of_nat (length rs) \<le> 1"
    using average_unit [of rs qr_precision] rs(5) rsne by blast
  have m: "0 \<le> sum_list (map qr_mrr rs) / of_nat (length rs) \<and> sum_list (map qr_mrr rs) / of_nat (length rs) \<le> 1"
    using average_unit [of rs qr_mrr] rs(5) rsne by blast
  have cls: "length (filter (\<lambda>x. qr_precision x = 0) rs) + length (filter (\<lambda>x. 0 < qr_precision x \<and> qr_precision x < 1) rs) +
   length (filter (\<lambda>x. qr_precision x = 1) rs) = length rs"
    using precision_classes [of rs qr_precision] rs(5) by blast
  show ?thesis
    using rep rsne p m cls by (auto simp: generate_detailed_report_def Let_def rs split: if_splits)
qed

theorem run_retrieval_eval_report_ok_witness:
  "\<exists>rep. run_retrieval_eval False two_gold_store
     [\<lparr>gm_id = Some ''g1'', gm_subjects = Some [''byleth'', ''dimitri''],
       gm_predicate = Some ''relationship_status'', gm_object = Some ''started_affair''\<rparr>]
     [\<lparr>q_qid = Some ''q1'', q_chapter = Some 5, q_query = None, q_k = None,
       q_gold_ids = Some [''g1'']\<rparr>] = Inr rep \<and>
     rr_total_queries rep = 1 \<and> rr_perfect rep + rr_partial rep + rr_failed rep = 1 \<and>
     0 \<le> rr_precision rep \<and> rr_precision rep \<le> 1 \<and> 0 \<le> rr_mrr rep \<and> rr_mrr rep \<le> 1"
proof -
  obtain rep where run: "run_retrieval_eval False two_gold_store
     [\<lparr>gm_id = Some ''g1'', gm_subjects = Some [''byleth'', ''dimitri''],
       gm_predicate = Some ''relationship_status'', gm_object = Some ''started_affair''\<rparr>]
     [\<lparr>q_qid = Some ''q1'', q_chapter = Some 5, q_query = None, q_k = None,
       q_gold_ids = Some [''g1'']\<rparr>] = Inr rep"
    using two_gold_fields two_gold_query
    by (simp add: run_retrieval_eval_def gold_key_step_def eval_canonical_key_def
        retrieval_query_step_def search_memories_at_chapter_def init_retriever_def
        evaluate_query_def calculate_precision_recall_mrr_def count_correct_def py_slice_to_def
        generate_detailed_report_def totals_init_def Let_def dict_set_def)
  show ?thesis using run_retrieval_eval_report_ok [OF run] run by auto
qed

text \<open>C28. The precision, the MRR and the retrieved keys of a query do not depend on
  the query's gold ids: a retrieved key counts as correct when it is the key of any
  gold memory, relevant to the query or not.\<close>

theorem evaluate_query_ignores_gold_ids:
  "map_sum id (\<lambda>qr. (qr_retrieved_keys qr, qr_precision qr, qr_mrr qr)) (evaluate_query (q\<lparr>q_gold_ids := g\<rparr>) ms gkm t) =
   map_sum id (\<lambda>qr. (qr_retrieved_keys qr, qr_precision qr, qr_mrr qr)) (evaluate_query q ms gkm t)"
  by (simp add: evaluate_query_def Let_def calculate_precision_recall_mrr_def split: option.split)

text \<open>Recall is not bounded by 1: with one gold id, a query that retrieves the keys of
  two gold memories gets recall 2.\<close>

theorem recall_exceeds_one:
  "map_sum id rr_recall (run_retrieval_eval False two_gold_store
     [\<lparr>gm_id = Some ''g1'', gm_subjects = Some [''byleth'', ''dimitri''],
       gm_predicate = Some ''relationship_status'', gm_object = Some ''started_affair''\<rparr>,
      \<lparr>gm_id = Some ''g2'', gm_subjects = Some [''world''],
       gm_predicate = Some ''alert'', gm_object = Some ''company_memo''\<rparr>]
     [\<lparr>q_qid = Some ''q1'', q_chapter = Some 5, q_query = None, q_k = None,
       q_gold_ids = Some [''g1'']\<rparr>]) = Inr 2"
  using two_gold_fields two_gold_query
  by (simp add: run_retrieval_eval_def gold_key_step_def eval_canonical_key_def
      retrieval_query_step_def search_memories_at_chapter_def init_retriever_def
      evaluate_query_def calculate_precision_recall_mrr_def count_correct_def py_slice_to_def
      generate_detailed_report_def totals_init_def Let_def dict_set_def)
text \<open>With no queries the evaluation always raises (\<open>ZeroDivisionError\<close> when
  averaging, unless a gold memory lacks a field first).\<close>

theorem run_retrieval_eval_no_queries:
  "\<exists>e. run_retrieval_eval client s golds [] = Inl e"
  by (cases "sfold gold_key_step golds []") (simp_all add: run_retrieval_eval_def totals_init_def)

end
