(* ===== verification/Coverage_Eval.thy ===== *)
theory Coverage_Eval
  imports Store Eval_Utils Json
begin

text \<open>
  Evaluation C of \<open>src/eval/coverage_eval.py\<close>: for every key fact of every chapter
  entry, \<open>check_fact_coverage\<close> looks among the records visible at the entry's chapter
  for an exact match on subjects, predicate and object, and otherwise for the record
  whose text is most similar; \<open>run_coverage_eval\<close> counts the covered facts per
  chapter and overall. Key facts and chapter entries are parsed JSON lines whose fields
  the code reads with \<open>.get\<close>, so each field is optional and has the code's default;
  nothing in this evaluation raises. Printing and the result file are I/O.
\<close>

section \<open>Inputs\<close>

record keyfact =
  kf_fact :: "string option"
  kf_id :: "string option"
  kf_subjects :: "string list option"
  kf_predicate :: "string option"
  kf_object :: "string option"

record fact_entry =
  fe_chapter :: "int option"
  fe_facts :: "keyfact list option"

definition opt_default :: "'a \<Rightarrow> 'a option \<Rightarrow> 'a" where
  "opt_default d x = (case x of None \<Rightarrow> d | Some v \<Rightarrow> v)"

section \<open>One fact\<close>

record fact_coverage =
  fc_fact_id :: string
  fc_fact_text :: string
  fc_is_covered :: bool
  fc_coverage_type :: string
  fc_matched :: "memory_unit option"
  fc_similarity :: rat

text \<open>The similarity loop: a record replaces the best match only when it is strictly
  more similar, so the first of equally similar records is kept.\<close>

definition best_match_step ::
  "string \<Rightarrow> memory_unit option \<times> rat \<Rightarrow> memory_unit \<Rightarrow> memory_unit option \<times> rat" where
  "best_match_step text bs m =
     (let sim = text_similarity text (fact_text m)
      in if snd bs < sim then (Some m, sim) else bs)"

text \<open>\<open>check_fact_coverage\<close>: the exact test compares the subject lists as lists,
  in order.\<close>

definition check_fact_coverage :: "keyfact \<Rightarrow> store \<Rightarrow> int \<Rightarrow> fact_coverage" where
  "check_fact_coverage f s target =
     (let text = opt_default [] (kf_fact f);
          fid = opt_default ''unknown'' (kf_id f);
          subjs = opt_default [] (kf_subjects f);
          pred = opt_default [] (kf_predicate f);
          obj = opt_default [] (kf_object f);
          ms = get_memories_at_chapter s target
      in case find (\<lambda>m. subjects m = subjs \<and> predicate m = pred \<and> object m = obj) ms of
           Some m \<Rightarrow>
             \<lparr>fc_fact_id = fid, fc_fact_text = text, fc_is_covered = True,
              fc_coverage_type = ''exact_key_match'', fc_matched = Some m, fc_similarity = 1\<rparr>
         | None \<Rightarrow>
             (let (best, sim) = foldl (best_match_step text) (None, 0) ms;
                  covered = 7 / 10 < sim
              in \<lparr>fc_fact_id = fid, fc_fact_text = text, fc_is_covered = covered,
                  fc_coverage_type = (if covered then ''text_similarity'' else ''not_covered''),
                  fc_matched = best, fc_similarity = sim\<rparr>))"

section \<open>The evaluation\<close>

record chapter_cov =
  cc_chapter :: int
  cc_facts :: "fact_coverage list"
  cc_total :: nat
  cc_covered :: nat
  cc_rate :: rat

text \<open>One iteration of the outer loop: \<open>fact_entry.get("chapter", 1)\<close>,
  \<open>fact_entry.get("facts", [])\<close>, the facts in order, and the chapter's rate
  (0.0 for a chapter without facts).\<close>

definition chapter_coverage_of :: "store \<Rightarrow> fact_entry \<Rightarrow> chapter_cov" where
  "chapter_coverage_of s e =
     (let ch = opt_default 1 (fe_chapter e);
          facts = opt_default [] (fe_facts e);
          results = map (\<lambda>f. check_fact_coverage f s ch) facts;
          covered = length (filter fc_is_covered results)
      in \<lparr>cc_chapter = ch, cc_facts = results, cc_total = length facts, cc_covered = covered,
          cc_rate = (if facts = [] then 0 else of_nat covered / of_nat (length facts))\<rparr>)"

record coverage_report =
  cr_overall :: rat
  cr_total :: nat
  cr_covered :: nat
  cr_chapters :: "chapter_cov list"
  cr_by_chapter :: "(int, rat) pydict"

text \<open>\<open>run_coverage_eval\<close>: the running totals are the sums over the chapters, and
  \<open>summary["by_chapter"]\<close> is a dictionary comprehension, so a later entry for the
  same chapter overwrites an earlier one.\<close>

definition run_coverage_eval :: "store \<Rightarrow> fact_entry list \<Rightarrow> coverage_report" where
  "run_coverage_eval s entries =
     (let chs = map (chapter_coverage_of s) entries;
          total = sum_list (map cc_total chs);
          covered = sum_list (map cc_covered chs)
      in \<lparr>cr_overall = (if 0 < total then of_nat covered / of_nat total else 0),
          cr_total = total, cr_covered = covered, cr_chapters = chs,
          cr_by_chapter = foldl (\<lambda>d c. dict_set (cc_chapter c) (cc_rate c) d) [] chs\<rparr>)"

section \<open>The result file\<close>

text \<open>\<open>json.dump\<close> of the report: Python floats are \<open>JFloat\<close>, \<open>None\<close> is
  \<open>JNull\<close>, and the integer chapter keys of \<open>by_chapter\<close> become strings.\<close>

definition fact_coverage_json :: "fact_coverage \<Rightarrow> json" where
  "fact_coverage_json fc =
     JObj [(''fact_id'', JStr (fc_fact_id fc)), (''fact_text'', JStr (fc_fact_text fc)),
           (''is_covered'', JBool (fc_is_covered fc)), (''coverage_type'', JStr (fc_coverage_type fc)),
           (''matched_memory_id'', (case fc_matched fc of None \<Rightarrow> JNull | Some m \<Rightarrow> JStr (mem_id m))),
           (''matched_memory_text'', (case fc_matched fc of None \<Rightarrow> JNull | Some m \<Rightarrow> JStr (fact_text m))),
           (''confidence'', (case fc_matched fc of None \<Rightarrow> JNull | Some m \<Rightarrow> JFloat (confidence m))),
           (''similarity_score'', JFloat (fc_similarity fc))]"

definition chapter_cov_json :: "chapter_cov \<Rightarrow> json" where
  "chapter_cov_json c =
     JObj [(''chapter'', JInt (cc_chapter c)), (''facts'', JArr (map fact_coverage_json (cc_facts c))),
           (''total_facts'', JInt (int (cc_total c))), (''covered_facts'', JInt (int (cc_covered c))),
           (''coverage_rate'', JFloat (cc_rate c))]"

definition coverage_report_json :: "coverage_report \<Rightarrow> json" where
  "coverage_report_json r =
     JObj [(''overall_coverage'', JFloat (cr_overall r)), (''total_facts'', JInt (int (cr_total r))),
           (''covered_facts'', JInt (int (cr_covered r))),
           (''chapter_coverage'', JArr (map chapter_cov_json (cr_chapters r))),
           (''summary'', JObj [(''overall'', JFloat (cr_overall r)),
                              (''by_chapter'', JObj (map (\<lambda>(c, x). (py_str_int c, JFloat x)) (cr_by_chapter r)))])]"

section \<open>Fixture\<close>

text \<open>A store with the open affair record of chapter 3, subjects
  \<open>[dimitri, byleth]\<close>.\<close>

definition affair_store :: store where
  "affair_store = load_memories [affair_fact 3 0.9] empty_store"

section \<open>Lemmas\<close>

lemma chapter_coverage_bounds:
  "cc_covered (chapter_coverage_of s e) \<le> cc_total (chapter_coverage_of s e) \<and>
   0 \<le> cc_rate (chapter_coverage_of s e) \<and> cc_rate (chapter_coverage_of s e) \<le> 1"
proof -
  have "length (filter fc_is_covered (map (\<lambda>f. check_fact_coverage f s ch) fs)) \<le> length fs" for ch fs
    by (metis length_filter_le length_map)
  then show ?thesis
    by (simp add: chapter_coverage_of_def Let_def divide_le_eq_1)
qed

section \<open>Properties\<close>

text \<open>At most every fact is covered, and the overall coverage lies in [0, 1].\<close>

theorem run_coverage_eval_bounds:
  "cr_covered (run_coverage_eval s es) \<le> cr_total (run_coverage_eval s es) \<and>
   0 \<le> cr_overall (run_coverage_eval s es) \<and> cr_overall (run_coverage_eval s es) \<le> 1"
proof -
  have le: "sum_list (map cc_covered (map (chapter_coverage_of s) es)) \<le> sum_list (map cc_total (map (chapter_coverage_of s) es))"
    by (induction es) (auto intro: add_mono simp: chapter_coverage_bounds)
  then have "(of_nat (sum_list (map cc_covered (map (chapter_coverage_of s) es))) :: rat) \<le>
             of_nat (sum_list (map cc_total (map (chapter_coverage_of s) es)))"
    by (simp only: of_nat_le_iff)
  then show ?thesis using le by (simp add: run_coverage_eval_def Let_def divide_le_eq_1)
qed

text \<open>The exact test compares subject lists in order: a key fact about
  \<open>[byleth, dimitri]\<close> has the canonical key of the affair record about
  \<open>[dimitri, byleth]\<close>, but is not matched exactly, and with a differently worded
  text (similarity 3/10) it counts as not covered.\<close>

theorem exact_match_order_sensitive:
  "eval_canonical_key [''byleth'', ''dimitri''] ''relationship_status'' ''started_affair'' =
     get_key (affair_fact 3 0.9) \<and>
   \<not> fc_is_covered (check_fact_coverage
       \<lparr>kf_fact = Some ''Byleth begins a secret affair with Dimitri'', kf_id = Some ''kf1'',
        kf_subjects = Some [''byleth'', ''dimitri''], kf_predicate = Some ''relationship_status'',
        kf_object = Some ''started_affair''\<rparr> affair_store 3)"
proof -
  have fields: "chapter_start (affair_fact 3 0.9) = 3 \<and> is_active (affair_fact 3 0.9) \<and>
      chapter_end (affair_fact 3 0.9) = None \<and> subjects (affair_fact 3 0.9) = [''dimitri'', ''byleth''] \<and>
      fact_text (affair_fact 3 0.9) = ''Byleth and Dimitri started an affair.'' \<and>
      predicate (affair_fact 3 0.9) = ''relationship_status'' \<and> object (affair_fact 3 0.9) = ''started_affair''"
    by (simp add: affair_fact_def create_memory_unit_def)
  have q: "get_memories_at_chapter affair_store 3 = [affair_fact 3 0.9]"
    using fields by (simp add: affair_store_def load_memories_def store_query_eval)
  have sim: "text_similarity ''Byleth begins a secret affair with Dimitri'' ''Byleth and Dimitri started an affair.'' = 3 / 10"
    by (simp add: text_similarity_def norm_words_def strip_punct_def is_word_char_def py_split_def
        is_py_space_def py_lower_eval)
  show ?thesis
    using q sim fields
    by (simp add: check_fact_coverage_def best_match_step_def opt_default_def get_key_def canonical_key_def Let_def
        eval_canonical_key_def)
qed

end
