(* ===== verification/Eval_Suite.thy ===== *)
theory Eval_Suite
  imports Scoring Consistency Retrieval_Eval Coverage_Eval
begin

text \<open>
  How the evaluation scripts fit together (\<open>src/eval/sekai_eval.py\<close>, command
  \<open>all\<close>): the retrieval, consistency and coverage evaluations each write a JSON result
  file, and \<open>run_scoring\<close> reads the three files back and applies the gates of the
  scoring configuration. This theory renders the consistency results as the JSON that
  \<open>json.dump\<close> writes, composes the four steps, and proves what the gates can and
  cannot observe of the evaluations' results.
\<close>

section \<open>The consistency results as JSON\<close>

text \<open>Each report dictionary, with its \<open>"type"\<close> tag and its \<open>"description"\<close>
  f-string.\<close>

definition overlap_report_json :: "overlap_report \<Rightarrow> json" where
  "overlap_report_json r =
     JObj [(''type'', JStr ''time_overlap_conflict''), (''memory1_id'', JStr (ov_memory1_id r)),
           (''memory2_id'', JStr (ov_memory2_id r)), (''canonical_key'', JStr (ov_canonical_key r)),
           (''memory1_chapter'', JInt (ov_memory1_chapter r)), (''memory2_chapter'', JInt (ov_memory2_chapter r)),
           (''memory1_fact'', JStr (ov_memory1_fact r)), (''memory2_fact'', JStr (ov_memory2_fact r)),
           (''description'', JStr (''Same fact appears in chapters '' @ py_str_int (ov_memory1_chapter r) @
                                   '' and '' @ py_str_int (ov_memory2_chapter r)))]"

definition leak_report_json :: "leak_report \<Rightarrow> json" where
  "leak_report_json r =
     JObj [(''type'', JStr ''world_future_leak''), (''memory_id'', JStr (lk_memory_id r)),
           (''canonical_key'', JStr (lk_canonical_key r)), (''chapter'', JInt (lk_chapter r)),
           (''fact_text'', JStr (lk_fact_text r)), (''future_indicator'', JStr (lk_future_indicator r)),
           (''description'', JStr (''World memory contains future reference: '' @ [CHR 0x27] @
                                   lk_future_indicator r @ [CHR 0x27]))]"

definition crosstalk_report_json :: "crosstalk_report \<Rightarrow> json" where
  "crosstalk_report_json r =
     JObj [(''type'', JStr ''crosstalk_violation''), (''memory_id'', JStr (ct_memory_id r)),
           (''character'', JStr (ct_character r)), (''chapter'', JInt (ct_chapter r)),
           (''referenced_character'', JStr (ct_referenced_character r)),
           (''referenced_chapter'', JInt (ct_referenced_chapter r)), (''fact_text'', JStr (ct_fact_text r)),
           (''description'', JStr (''Character '' @ ct_character r @ '' at chapter '' @ py_str_int (ct_chapter r) @
                                   '' references future private information about '' @ ct_referenced_character r))]"

definition symmetry_report_json :: "symmetry_report \<Rightarrow> json" where
  "symmetry_report_json r =
     JObj [(''type'', JStr ''symmetry_violation''), (''memory_id'', JStr (sy_memory_id r)),
           (''relationship_key'', JStr (sy_relationship_key r)), (''character1'', JStr (sy_character1 r)),
           (''character2'', JStr (sy_character2 r)), (''fact_text'', JStr (sy_fact_text r)),
           (''asymmetric_indicator'', JStr (sy_asymmetric_indicator r)),
           (''description'', JStr (''Asymmetric relationship: '' @ sy_character1 r @ '' '' @ sy_asymmetric_indicator r @
                                   '' '' @ sy_character2 r @ '' but no reciprocal memory found''))]"

text \<open>The \<open>results\<close> dictionary of \<open>run_consistency_eval\<close>, which it dumps to
  \<open>consistency_eval_results.json\<close>; the symmetry scan's \<open>ValueError\<close> propagates.\<close>

definition consistency_results_json :: "store \<Rightarrow> py_error + json" where
  "consistency_results_json s =
     (let t = check_time_overlap_conflicts s; w = check_world_future_leaks s;
          c = check_crosstalk_violations s
      in sbind (check_symmetry_violations s) (\<lambda>y.
           Inr (JObj [(''time_overlap_conflicts'', JArr (map overlap_report_json t)),
                      (''world_future_leaks'', JArr (map leak_report_json w)),
                      (''crosstalk_violations'', JArr (map crosstalk_report_json c)),
                      (''symmetry_violations'', JArr (map symmetry_report_json y)),
                      (''summary'', JObj [(''total_conflicts'', JInt (int (length t + length w + length c + length y))),
                                         (''time_overlap_conflicts'', JInt (int (length t))),
                                         (''world_future_leaks'', JInt (int (length w))),
                                         (''crosstalk_violations'', JInt (int (length c))),
                                         (''symmetry_violations'', JInt (int (length y)))])])))"

section \<open>The command \<open>all\<close>\<close>

text \<open>The four steps in order; an exception of any step ends the command. The result
  files are read back unchanged, so each JSON value goes straight to \<open>run_scoring\<close>
  (the retrieval file as far as the gates read it). The value is what
  \<open>run_scoring\<close> returns or raises.\<close>

definition run_all_evals ::
  "bool \<Rightarrow> store \<Rightarrow> gold_memory list \<Rightarrow> eval_query list \<Rightarrow> fact_entry list \<Rightarrow> json \<Rightarrow> string \<Rightarrow>
   py_error + json \<times> gates_outcome" where
  "run_all_evals client s golds qs kfs config ts =
     sbind (run_retrieval_eval client s golds qs) (\<lambda>rr.
     sbind (consistency_results_json s) (\<lambda>cj.
       (let cv = run_coverage_eval s kfs
        in snd (run_scoring (Some (retrieval_report_json rr)) (Some cj) (Some (coverage_report_json cv))
                 config ts))))"

section \<open>Specification of the per-chapter gate\<close>

text \<open>The mean of the chapter coverage rates, each chapter counted once (0 for no
  chapters): what the \<open>min_per_chapter\<close> gate is meant to bound.\<close>

definition mean_rate :: "rat list \<Rightarrow> rat" where
  "mean_rate xs = (if xs = [] then 0 else sum_list xs / of_nat (length xs))"

section \<open>Lemmas\<close>

lemma consistency_results_shape:
  assumes "consistency_results_json s = Inr cj"
  shows "\<exists>kvs. cj = JObj kvs \<and> (\<forall>p \<in> set kvs. is_list_or_dict (snd p))"
  using assms by (auto simp: consistency_results_json_def Let_def sbind_Inr_iff)

lemma json_get_list_or_dict:
  assumes "\<forall>p \<in> set kvs. is_list_or_dict (snd p)"
  shows "json_get (JObj kvs) k d = Inr d \<or> (\<exists>v. json_get (JObj kvs) k d = Inr v \<and> is_list_or_dict v)"
proof (cases "dict_get kvs k")
  case None
  then show ?thesis by simp
next
  case (Some v)
  then have "(k, v) \<in> set kvs" by (simp add: dict_get_def map_of_SomeD)
  with assms have "is_list_or_dict v" by auto
  with Some show ?thesis by simp
qed

lemma list_or_dict_not_number: "is_list_or_dict v \<Longrightarrow> \<not> is_number v"
  by (cases v) simp_all

lemma chapter_rate_fold:
  assumes "py_num a = Some r"
  shows "sfold chapter_rate_step (map chapter_cov_json chs) a =
           Inr (if chs = [] then a else JFloat (r + sum_list (map cc_rate chs)))"
  using assms
proof (induction chs arbitrary: a r)
  case Nil
  then show ?case by simp
next
  case (Cons c chs)
  have step: "chapter_rate_step a (chapter_cov_json c) = Inr (JFloat (r + cc_rate c))"
    using Cons.prems by (cases a) (simp_all add: chapter_rate_step_def chapter_cov_json_def dict_get_def py_add_def)
  show ?case
    using Cons.IH [of "JFloat (r + cc_rate c)" "r + cc_rate c"] step by (simp add: add.assoc)
qed

lemma average_coverage_mean:
  "average_coverage (map chapter_cov_json chs) = Inr (JFloat (mean_rate (map cc_rate chs)))"
  using chapter_rate_fold [of "JInt 0" 0 chs]
  by (simp add: average_coverage_def mean_rate_def py_div_len_def)

lemma coverage_json_chapters:
  "json_get (coverage_report_json r) ''chapter_coverage'' d = Inr (JArr (map chapter_cov_json (cr_chapters r)))"
  by (simp add: coverage_report_json_def dict_get_def)

lemma consistency_results_empty:
  "consistency_results_json empty_store = Inr (JObj [(''time_overlap_conflicts'', JArr []),
      (''world_future_leaks'', JArr []), (''crosstalk_violations'', JArr []), (''symmetry_violations'', JArr []),
      (''summary'', JObj [(''total_conflicts'', JInt 0), (''time_overlap_conflicts'', JInt 0),
         (''world_future_leaks'', JInt 0), (''crosstalk_violations'', JInt 0), (''symmetry_violations'', JInt 0)])])"
  by (simp add: consistency_results_json_def check_time_overlap_conflicts_def check_world_future_leaks_def
      check_crosstalk_violations_def check_symmetry_violations_def records_def empty_store_def
      build_knowledge_def crosstalk_scan_def relationship_groups_def)

lemma consistency_results_head:
  "consistency_results_json s = Inr cj \<Longrightarrow> \<exists>xs rest. cj = JObj ((''time_overlap_conflicts'', JArr xs) # rest)"
  by (auto simp: consistency_results_json_def Let_def sbind_Inr_iff)

section \<open>Properties\<close>

text \<open>C23. The consistency gates never fail on the consistency results: the results map
  every key to a list or a dictionary, which the gate skips as non-numeric, and a gate
  name that is not a key (such as the configured \<open>max_time_overlap_conflicts\<close>)
  reads the default 0, which a non-negative bound admits. The gates compare no count,
  contrary to the gating layer's purpose.\<close>

theorem consistency_gates_never_fail:
  assumes "consistency_results_json s = Inr cj"
    and "py_num (case dict_get kvs ''max'' of None \<Rightarrow> JInt 0 | Some v \<Rightarrow> v) = Some x" and "0 \<le> x"
  shows "\<exists>acc'. consistency_gate cj acc (name, JObj kvs) = Inr acc' \<and> ga_status acc' = ga_status acc"
proof -
  obtain rkvs where cj: "cj = JObj rkvs" and ld: "\<forall>p \<in> set rkvs. is_list_or_dict (snd p)"
    using consistency_results_shape [OF assms(1)] by blast
  define mx where "mx = (case dict_get kvs ''max'' of None \<Rightarrow> JInt 0 | Some v \<Rightarrow> v)"
  have mx: "json_get (JObj kvs) ''max'' (JInt 0) = Inr mx" "py_num mx = Some x"
    using assms(2) by (simp_all add: mx_def split: option.split)
  show ?thesis
  proof (cases "json_get (JObj rkvs) name (JInt 0) = Inr (JInt 0)")
    case True
    have "py_less mx (JInt 0) = Inr False"
      using py_less_num [OF mx(2), of "JInt 0" 0] assms(3) by simp
    then show ?thesis using True mx(1) cj by (simp add: consistency_gate_def record_gate_def)
  next
    case False
    then obtain v where "json_get (JObj rkvs) name (JInt 0) = Inr v" "is_list_or_dict v"
      using json_get_list_or_dict [OF ld, of name "JInt 0"] by blast
    then show ?thesis using mx(1) cj list_or_dict_not_number
      by (simp add: consistency_gate_def record_gate_def)
  qed
qed

theorem consistency_gates_never_fail_witness:
  "consistency_results_json empty_store = Inr (JObj [(''time_overlap_conflicts'', JArr []),
      (''world_future_leaks'', JArr []), (''crosstalk_violations'', JArr []), (''symmetry_violations'', JArr []),
      (''summary'', JObj [(''total_conflicts'', JInt 0), (''time_overlap_conflicts'', JInt 0),
         (''world_future_leaks'', JInt 0), (''crosstalk_violations'', JInt 0), (''symmetry_violations'', JInt 0)])]) \<and>
   (\<exists>acc'. consistency_gate (JObj [(''time_overlap_conflicts'', JArr []),
      (''world_future_leaks'', JArr []), (''crosstalk_violations'', JArr []), (''symmetry_violations'', JArr []),
      (''summary'', JObj [(''total_conflicts'', JInt 0), (''time_overlap_conflicts'', JInt 0),
         (''world_future_leaks'', JInt 0), (''crosstalk_violations'', JInt 0), (''symmetry_violations'', JInt 0)])])
      gates_init (''max_time_overlap_conflicts'', JObj [(''max'', JInt 0)]) = Inr acc' \<and> ga_status acc' = ''PASS'')"
  using consistency_gates_never_fail [OF consistency_results_empty, of "[(''max'', JInt 0)]" 0 gates_init
      "''max_time_overlap_conflicts''"] consistency_results_empty
  by (simp add: dict_get_def gates_init_def)

text \<open>C25. The \<open>min_per_chapter\<close> coverage gate on the coverage results never raises
  for a numeric bound, and compares the bound with the mean of the chapter rates.\<close>

theorem per_chapter_gate_mean:
  assumes "py_num mn = Some x"
  shows "\<exists>acc'. coverage_gate (coverage_report_json (run_coverage_eval s es)) acc
             (''min_per_chapter'', JObj [(''min'', mn)]) = Inr acc' \<and>
           dict_get (ga_results acc') ''min_per_chapter'' =
             Some \<lparr>gr_status = (if mean_rate (map cc_rate (cr_chapters (run_coverage_eval s es))) < x
                                then ''FAIL'' else ''PASS''),
                   gr_expected = (''>='', mn),
                   gr_actual = JFloat (mean_rate (map cc_rate (cr_chapters (run_coverage_eval s es))))\<rparr>"
proof -
  let ?m = "mean_rate (map cc_rate (cr_chapters (run_coverage_eval s es)))"
  have name: "py_replace ''min_'' [] ''min_per_chapter'' = ''per_chapter''" by simp
  have mp: "dict_get coverage_mapping ''per_chapter'' = Some ''chapter_coverage''"
    by (simp add: coverage_mapping_def dict_get_def)
  have mn: "dict_get [(''min'', mn)] ''min'' = Some mn"
    by (simp add: dict_get_def)
  have lt: "py_less (JFloat ?m) mn = Inr (?m < x)"
    using py_less_num [of "JFloat ?m" ?m mn x] assms by simp
  show ?thesis
    using lt average_coverage_mean [of "cr_chapters (run_coverage_eval s es)"]
    by (simp add: coverage_gate_def name mp mn assms coverage_json_chapters record_gate_def)
qed

theorem per_chapter_gate_mean_witness:
  "py_num (JFloat 0.6) = Some 0.6 \<and>
   (\<exists>acc'. coverage_gate (coverage_report_json (run_coverage_eval empty_store [])) gates_init
      (''min_per_chapter'', JObj [(''min'', JFloat 0.6)]) = Inr acc' \<and>
    dict_get (ga_results acc') ''min_per_chapter'' =
      Some \<lparr>gr_status = ''FAIL'', gr_expected = (''>='', JFloat 0.6), gr_actual = JFloat 0\<rparr>)"
  using per_chapter_gate_mean [of "JFloat 0.6" "0.6" empty_store "[]" gates_init]
  by (simp add: run_coverage_eval_def mean_rate_def)

text \<open>C34. A consistency gate named after an actual result key records the report list as
  its \<open>actual\<close> value and passes; \<open>run_scoring\<close> then writes the final results and
  raises \<open>TypeError\<close> when it formats that list with \<open>:.3f\<close>.\<close>

theorem run_scoring_print_raises:
  assumes "consistency_results_json s = Inr cj"
  shows "\<exists>w. run_scoring None (Some cj) None
      (JObj [(''gates'', JObj [(''consistency'', JObj [(''time_overlap_conflicts'', JObj [(''max'', JInt 0)])])])]) ts =
    (Some w, Inl TypeError)"
proof -
  obtain xs rest where cj: "cj = JObj ((''time_overlap_conflicts'', JArr xs) # rest)"
    using consistency_results_head [OF assms] by blast
  show ?thesis
    by (simp add: cj run_scoring_def apply_gates_def consolidate_metrics_def gate_section_def
        consistency_gate_def record_gate_def gates_init_def dict_get_def dict_set_def print_gate_results_def)
qed
theorem run_scoring_print_raises_witness:
  "consistency_results_json empty_store = Inr (JObj [(''time_overlap_conflicts'', JArr []),
      (''world_future_leaks'', JArr []), (''crosstalk_violations'', JArr []), (''symmetry_violations'', JArr []),
      (''summary'', JObj [(''total_conflicts'', JInt 0), (''time_overlap_conflicts'', JInt 0),
         (''world_future_leaks'', JInt 0), (''crosstalk_violations'', JInt 0), (''symmetry_violations'', JInt 0)])]) \<and>
   (\<exists>w. run_scoring None (Some (JObj [(''time_overlap_conflicts'', JArr []),
      (''world_future_leaks'', JArr []), (''crosstalk_violations'', JArr []), (''symmetry_violations'', JArr []),
      (''summary'', JObj [(''total_conflicts'', JInt 0), (''time_overlap_conflicts'', JInt 0),
         (''world_future_leaks'', JInt 0), (''crosstalk_violations'', JInt 0), (''symmetry_violations'', JInt 0)])])) None
      (JObj [(''gates'', JObj [(''consistency'', JObj [(''time_overlap_conflicts'', JObj [(''max'', JInt 0)])])])]) ''t'' =
    (Some w, Inl TypeError))"
  using run_scoring_print_raises [OF consistency_results_empty, of "''t''"] consistency_results_empty
  by simp

end
