(* ===== verification/Query.thy ===== *)
theory Query
  imports Retriever "HOL-Library.Product_Lexorder"
begin

text \<open>
  The natural-language query interface of \<open>src/query_memories.py\<close>
  (\<open>MemoryQueryInterface\<close>). \<open>query\<close> strips and lowers the question,
  \<open>_parse_query\<close> tries sixteen regular expressions with \<open>re.search\<close> in a fixed
  order, and one of six handlers answers from the store or from the retriever's chapter
  summary. The regular expressions are data of a small regex type with a backtracking
  matcher in continuation-passing style that follows the priorities of Python's \<open>re\<close>:
  alternatives left to right, \<open>?\<close> and \<open>+\<close> greedy, the last capture of a group
  kept, the leftmost starting position first. Answers are the strings the code builds;
  the bullet \<open>\<bullet>\<close> (U+2022) is written as its UTF-8 bytes and \<open>"\n"\<close> as
  \<open>CHR 0x0A\<close>. \<open>list(set(...))\<close> in the chapter summary has CPython's hash order,
  which the model takes as a parameter \<open>order\<close>. The interactive loop of
  \<open>main\<close> reads its input lines from a source that may be at end of file.
\<close>

section \<open>Regular expressions\<close>

datatype rclass = Word | Space | Digit

datatype regex =
    REps
  | RLit string
  | RCls rclass
  | RSeq regex regex
  | RAlt regex regex
  | ROpt regex
  | RPlus regex
  | RGroup nat regex

text \<open>Captured groups: group number to the text it captured last.\<close>

type_synonym caps = "(nat, string) pydict"

fun cls_match :: "rclass \<Rightarrow> char \<Rightarrow> bool" where
  "cls_match Word c = is_word_char c"
| "cls_match Space c = is_py_space c"
| "cls_match Digit c = (CHR ''0'' \<le> c \<and> c \<le> CHR ''9'')"

text \<open>\<open>mt r c s\<close> lists the ways \<open>r\<close> matches at the front of \<open>s\<close>, each with its
  captures and the rest of the string, in the order Python's backtracking tries them.
  \<open>mt_seq\<close> continues every way with the second part of a sequence, and
  \<open>mt_plus\<close> every iteration of a repetition with further iterations before stopping
  (greedy); a repetition only goes on when the last iteration consumed input. Both
  helpers only see rests of the string, never longer than \<open>n\<close>.\<close>

function mt :: "regex \<Rightarrow> caps \<Rightarrow> string \<Rightarrow> (caps \<times> string) list"
  and mt_seq :: "regex \<Rightarrow> nat \<Rightarrow> (caps \<times> string) list \<Rightarrow> (caps \<times> string) list"
  and mt_plus :: "regex \<Rightarrow> nat \<Rightarrow> (caps \<times> string) list \<Rightarrow> (caps \<times> string) list" where
  "mt REps c s = [(c, s)]"
| "mt (RLit w) c s = (if prefix w s then [(c, drop (length w) s)] else [])"
| "mt (RCls cl) c s = (case s of [] \<Rightarrow> [] | x # xs \<Rightarrow> if cls_match cl x then [(c, xs)] else [])"
| "mt (RSeq r1 r2) c s = mt_seq r2 (length s) (mt r1 c s)"
| "mt (RAlt r1 r2) c s = mt r1 c s @ mt r2 c s"
| "mt (ROpt r) c s = mt r c s @ [(c, s)]"
| "mt (RPlus r) c s = mt_plus r (length s) (mt r c s)"
| "mt (RGroup i r) c s = map (\<lambda>(c', s'). (dict_set i (take (length s - length s') s) c', s')) (mt r c s)"
| "mt_seq r2 n [] = []"
| "mt_seq r2 n ((c', s') # rest) = (if length s' \<le> n then mt r2 c' s' else []) @ mt_seq r2 n rest"
| "mt_plus r n [] = []"
| "mt_plus r n ((c', s') # rest) =
     (if length s' < n then mt (RPlus r) c' s' else []) @ [(c', s')] @ mt_plus r n rest"
  by pat_completeness auto
termination
  by (relation "measures
      [\<lambda>x. case x of Inl (r, c, s) \<Rightarrow> length s | Inr (Inl (r, n, l)) \<Rightarrow> n | Inr (Inr (r, n, l)) \<Rightarrow> n,
       \<lambda>x. case x of Inl (r, c, s) \<Rightarrow> 2 * size r + 1 | Inr (Inl (r, n, l)) \<Rightarrow> 2 * size r + 2
                   | Inr (Inr (r, n, l)) \<Rightarrow> 2 * size r + 2,
       \<lambda>x. case x of Inl (r, c, s) \<Rightarrow> 0 | Inr (Inl (r, n, l)) \<Rightarrow> length l | Inr (Inr (r, n, l)) \<Rightarrow> length l]")
     auto

text \<open>\<open>re.search(pattern, s)\<close>: the first starting position, left to right, where
  the pattern matches; the captures of its first way.\<close>

fun re_search :: "regex \<Rightarrow> string \<Rightarrow> caps option" where
  "re_search r [] = (case mt r [] [] of [] \<Rightarrow> None | (c, _) # _ \<Rightarrow> Some c)"
| "re_search r (x # xs) = (case mt r [] (x # xs) of [] \<Rightarrow> re_search r xs | (c, _) # _ \<Rightarrow> Some c)"

fun rseq :: "regex list \<Rightarrow> regex" where
  "rseq [] = REps"
| "rseq [r] = r"
| "rseq (r # rs) = RSeq r (rseq rs)"

fun ralt :: "regex list \<Rightarrow> regex" where
  "ralt [] = REps"
| "ralt [r] = r"
| "ralt (r # rs) = RAlt r (ralt rs)"

abbreviation ws :: regex where "ws \<equiv> RPlus (RCls Space)"
abbreviation wrd :: regex where "wrd \<equiv> RPlus (RCls Word)"
abbreviation digits :: regex where "digits \<equiv> RPlus (RCls Digit)"

text \<open>\<open>(?:\s+kw\s+chapter\s+(\d+))?\<close>, the optional chapter suffix.\<close>

definition chapter_suffix :: "string \<Rightarrow> nat \<Rightarrow> regex" where
  "chapter_suffix kw n = ROpt (rseq [ws, RLit kw, ws, RLit ''chapter'', ws, RGroup n digits])"

text \<open>\<open>what'?s?\s+\<close>.\<close>

definition whats :: regex where
  "whats = rseq [RLit ''what'', ROpt (RLit [CHR 0x27]), ROpt (RLit ''s''), ws]"

section \<open>The patterns of _parse_query\<close>

definition relationship_patterns :: "regex list" where
  "relationship_patterns =
     [rseq [whats, ROpt (rseq [RLit ''the'', ws]), ralt [RLit ''relationship'', RLit ''relation''], ws,
            ralt [RLit ''of'', RLit ''between''], ws, RGroup 1 wrd, ws, RLit ''and'', ws, RGroup 2 wrd,
            chapter_suffix ''before'' 3],
      rseq [RLit ''how'', ws, RLit ''do'', ws, RGroup 1 wrd, ws, RLit ''and'', ws, RGroup 2 wrd, ws,
            ralt [RLit ''get along'', RLit ''interact''], chapter_suffix ''before'' 3],
      rseq [RLit ''what'', ws, RLit ''does'', ws, RGroup 1 wrd, ws, RLit ''think'', ws, RLit ''of'', ws,
            RGroup 2 wrd, chapter_suffix ''in'' 3],
      rseq [RGroup 1 wrd, ws, RLit ''and'', ws, RGroup 2 wrd, ws, RLit ''relationship'',
            chapter_suffix ''before'' 3]]"

definition character_patterns :: "regex list" where
  "character_patterns =
     [rseq [RLit ''what'', ws, ralt [RLit ''does'', RLit ''do''], ws, RGroup 1 wrd, ws,
            ralt [RLit ''know'', RLit ''think'', RLit ''feel''], chapter_suffix ''in'' 2],
      rseq [RGroup 1 wrd, ws, ralt [RLit ''personality'', RLit ''background'', RLit ''role''],
            chapter_suffix ''in'' 2],
      rseq [RLit ''what'', ws, RLit ''happened'', ws, RLit ''to'', ws, RGroup 1 wrd, chapter_suffix ''in'' 2]]"

definition world_patterns :: "regex list" where
  "world_patterns =
     [rseq [whats, ralt [RLit ''happening'', RLit ''going on''], ws, RLit ''in'', ws,
            ROpt (rseq [RLit ''the'', ws]), ralt [RLit ''world'', RLit ''company'', RLit ''office''],
            chapter_suffix ''in'' 1],
      rseq [ralt [RLit ''company'', RLit ''office'', RLit ''world''], ws,
            ralt [RLit ''policies'', RLit ''rules'', RLit ''culture''], chapter_suffix ''in'' 1],
      rseq [whats, RLit ''new'', ws, RLit ''in'', ws, ROpt (rseq [RLit ''the'', ws]),
            ralt [RLit ''company'', RLit ''office''], chapter_suffix ''in'' 1]]"

text \<open>The first and the third personal pattern spell the pronoun as a capital
  \<open>I\<close>.\<close>

definition personal_patterns :: "regex list" where
  "personal_patterns =
     [rseq [RLit ''what'', ws, ralt [rseq [RLit ''do'', ws, RLit ''I'', ws, RLit ''know''],
                                     rseq [RLit ''am'', ws, RLit ''I'', ws, RLit ''aware'', ws, RLit ''of'']],
            chapter_suffix ''in'' 1],
      rseq [RLit ''my'', ws, ralt [RLit ''thoughts'', RLit ''feelings'', RLit ''experiences''],
            chapter_suffix ''in'' 1],
      rseq [RLit ''what'', ws, ralt [rseq [RLit ''have'', ws, RLit ''I'', ws, RLit ''learned''],
                                     rseq [RLit ''did'', ws, RLit ''I'', ws, RLit ''experience'']],
            chapter_suffix ''in'' 1]]"

definition timeline_patterns :: "regex list" where
  "timeline_patterns =
     [rseq [RLit ''what'', ws, RLit ''happened'', ws,
            ralt [rseq [RLit ''in'', ws, RLit ''chapter'', ws, RGroup 1 digits],
                  rseq [RLit ''before'', ws, RLit ''chapter'', ws, RGroup 2 digits]]],
      rseq [RLit ''timeline'', ws, ralt [RLit ''of'', RLit ''for''], ws, RLit ''chapter'', ws, RGroup 1 digits],
      rseq [RLit ''summary'', ws, ralt [RLit ''of'', RLit ''for''], ws, RLit ''chapter'', ws, RGroup 1 digits]]"

section \<open>Parsing\<close>

datatype parsed_query =
    PRelationship string string "int option"
  | PCharacter string "int option"
  | PWorld "int option"
  | PPersonal "int option"
  | PTimeline "int option"
  | PGeneral string

text \<open>\<open>for pattern in patterns: match = re.search(pattern, query_text); if match:
  ...\<close>\<close>

fun first_search :: "regex list \<Rightarrow> string \<Rightarrow> caps option" where
  "first_search [] q = None"
| "first_search (p # ps) q = (case re_search p q of None \<Rightarrow> first_search ps q | Some c \<Rightarrow> Some c)"

text \<open>\<open>int(s)\<close> of the digits a \<open>(\d+)\<close> group captured.\<close>

definition py_int_digits :: "string \<Rightarrow> int" where
  "py_int_digits ds = foldl (\<lambda>n d. 10 * n + (int (of_char d) - 48)) 0 ds"

text \<open>\<open>match.group(n)\<close> of a group that always takes part, and
  \<open>int(match.group(n)) if match.group(n) else None\<close>.\<close>

definition cap_text :: "caps \<Rightarrow> nat \<Rightarrow> string" where
  "cap_text c n = (case dict_get c n of None \<Rightarrow> [] | Some t \<Rightarrow> t)"

definition cap_int :: "caps \<Rightarrow> nat \<Rightarrow> int option" where
  "cap_int c n = (if cap_text c n = [] then None else Some (py_int_digits (cap_text c n)))"

text \<open>\<open>int(match.group(1) or match.group(2)) if (match.group(1) or
  match.group(2)) else None\<close>.\<close>

definition cap_int_either :: "caps \<Rightarrow> int option" where
  "cap_int_either c = (if cap_text c 1 \<noteq> [] then cap_int c 1 else cap_int c 2)"

definition parse_query :: "string \<Rightarrow> parsed_query" where
  "parse_query q =
     (case first_search relationship_patterns q of
        Some c \<Rightarrow> PRelationship (cap_text c 1) (cap_text c 2) (cap_int c 3)
      | None \<Rightarrow>
     (case first_search character_patterns q of
        Some c \<Rightarrow> PCharacter (cap_text c 1) (cap_int c 2)
      | None \<Rightarrow>
     (case first_search world_patterns q of
        Some c \<Rightarrow> PWorld (cap_int c 1)
      | None \<Rightarrow>
     (case first_search personal_patterns q of
        Some c \<Rightarrow> PPersonal (cap_int c 1)
      | None \<Rightarrow>
     (case first_search timeline_patterns q of
        Some c \<Rightarrow> PTimeline (cap_int_either c)
      | None \<Rightarrow> PGeneral q)))))"

section \<open>Answers\<close>

record query_iface =
  qi_store :: store
  qi_client :: bool

definition nl :: string where
  "nl = [CHR 0x0A]"

definition bullet :: string where
  "bullet = [CHR 0xE2, CHR 0x80, CHR 0xA2]"

text \<open>\<open>if chapter:\<close> for an optional chapter: \<open>None\<close> and 0 are false.\<close>

definition chapter_given :: "int option \<Rightarrow> bool" where
  "chapter_given ch = (case ch of None \<Rightarrow> False | Some n \<Rightarrow> n \<noteq> 0)"

definition chapter_text :: "int option \<Rightarrow> string" where
  "chapter_text ch = (case ch of None \<Rightarrow> ''None'' | Some n \<Rightarrow> py_str_int n)"

text \<open>\<open>sort(key=lambda x: (x.chapter_start, -x.confidence))\<close>.\<close>

definition sort_by_chapter :: "memory_unit list \<Rightarrow> memory_unit list" where
  "sort_by_chapter ms = sort_key (\<lambda>m. (chapter_start m, - confidence m)) ms"

text \<open>\<open>f"\<bullet> {chapter_info} {memory.fact_text}\n"\<close>.\<close>

definition fact_line :: "bool \<Rightarrow> memory_unit \<Rightarrow> string" where
  "fact_line show_chapter m =
     bullet @ '' '' @ (if show_chapter then ''[Chapter '' @ py_str_int (chapter_start m) @ '']'' else []) @
     '' '' @ fact_text m @ nl"

text \<open>\<open>_query_relationship\<close>: with a chapter limit, the records visible at each
  chapter from 1 to the limit, chapter by chapter; without one, all records.\<close>

definition rel_match :: "string \<Rightarrow> string \<Rightarrow> memory_unit \<Rightarrow> bool" where
  "rel_match c1 c2 m \<longleftrightarrow> mem_type m = IC \<and> is_active m \<and> c1 \<in> set (subjects m) \<and> c2 \<in> set (subjects m)"

definition relationship_memories :: "store \<Rightarrow> string \<Rightarrow> string \<Rightarrow> int option \<Rightarrow> memory_unit list" where
  "relationship_memories s c1 c2 limit =
     (if chapter_given limit
      then concat (map (\<lambda>ch. filter (rel_match c1 c2) (get_memories_at_chapter s ch))
                       [1..(case limit of None \<Rightarrow> 0 | Some n \<Rightarrow> n)])
      else filter (rel_match c1 c2) (records s))"

definition query_relationship :: "store \<Rightarrow> string \<Rightarrow> string \<Rightarrow> int option \<Rightarrow> string" where
  "query_relationship s c1 c2 limit =
     (let ms = relationship_memories s c1 c2 limit
      in if ms = [] then ''I don't have any information about the relationship between '' @ c1 @ '' and '' @ c2
         else ''Here's what I know about the relationship between '' @ c1 @ '' and '' @ c2 @
              (if chapter_given limit then '' before chapter '' @ chapter_text limit @ '':'' @ nl @ nl
               else '':'' @ nl @ nl) @
              concat (map (fact_line (chapter_given limit)) (sort_by_chapter ms)))"

text \<open>The shared shape of \<open>_query_character_facts\<close>, \<open>_query_world_facts\<close> and
  \<open>_query_personal_facts\<close>: the records at the chapter (or all records), the empty
  answer, the header, and chapter tags only when no chapter was given.\<close>

definition query_filtered ::
  "(memory_unit \<Rightarrow> bool) \<Rightarrow> string \<Rightarrow> string \<Rightarrow> store \<Rightarrow> int option \<Rightarrow> string" where
  "query_filtered P none_msg header s ch =
     (let ms = (if chapter_given ch then filter P (get_memories_at_chapter s (case ch of None \<Rightarrow> 0 | Some n \<Rightarrow> n))
                else filter P (records s))
      in if ms = [] then none_msg
         else header @ (if chapter_given ch then '' in chapter '' @ chapter_text ch @ '':'' @ nl @ nl
                        else '':'' @ nl @ nl) @
              concat (map (fact_line (\<not> chapter_given ch)) (sort_by_chapter ms)))"

definition query_character_facts :: "store \<Rightarrow> string \<Rightarrow> int option \<Rightarrow> string" where
  "query_character_facts s character ch =
     query_filtered (\<lambda>m. is_active m \<and> character \<in> set (subjects m))
       (''I don't have any information about '' @ character) (''Here's what I know about '' @ character) s ch"

definition query_world_facts :: "store \<Rightarrow> int option \<Rightarrow> string" where
  "query_world_facts s ch =
     query_filtered (\<lambda>m. mem_type m = WM \<and> is_active m)
       ''I don't have any information about the world or company'' ''Here's what I know about the world/company'' s ch"

definition query_personal_facts :: "store \<Rightarrow> int option \<Rightarrow> string" where
  "query_personal_facts s ch =
     query_filtered (\<lambda>m. mem_type m = C2U \<and> is_active m)
       ''I don't have any personal information about you'' ''Here's what I know about you'' s ch"

text \<open>\<open>_query_timeline\<close>: the retriever's chapter summary, its characters in the
  iteration order \<open>order\<close> of the set.\<close>

definition query_timeline :: "retriever \<Rightarrow> (string set \<Rightarrow> string list) \<Rightarrow> int option \<Rightarrow> string" where
  "query_timeline r order ch =
     (if \<not> chapter_given ch then ''Please specify which chapter you'd like a summary for.''
      else
        (let sm = get_retriever_summary r (case ch of None \<Rightarrow> 0 | Some n \<Rightarrow> n)
         in ''Chapter '' @ chapter_text ch @ '' Summary:'' @ nl @ nl @
            ''Total Memories: '' @ py_str_int (int (rs_total_memories sm)) @ nl @
            ''Characters: '' @ py_join '', '' (order (rs_characters sm)) @ nl @ nl @
            ''Memories by Type:'' @ nl @
            concat (map (\<lambda>(t, n). bullet @ '' '' @ t @ '': '' @ py_str_int (int n) @ nl) (rs_by_type sm)) @
            nl @ ''Top Memories:'' @ nl @
            concat (map (\<lambda>tm. bullet @ '' ['' @ tm_mem_type tm @ ''] '' @ tm_fact_text tm @ nl)
                        (rs_top_memories sm))))"

text \<open>\<open>_query_general\<close>: the active records sharing a word with the query, by
  overlap then confidence (both descending), the first five.\<close>

definition word_overlap :: "string \<Rightarrow> memory_unit \<Rightarrow> nat" where
  "word_overlap q m =
     length (filter (\<lambda>w. w \<in> set (remdups (py_split (py_lower (fact_text m))))) (remdups (py_split (py_lower q))))"

definition query_general :: "store \<Rightarrow> string \<Rightarrow> string" where
  "query_general s q =
     (let rel = concat (map (\<lambda>m. if is_active m \<and> 0 < word_overlap q m then [(m, word_overlap q m)] else [])
                            (records s))
      in if rel = [] then ''I couldn't find any relevant information for: '' @ [CHR 0x27] @ q @ [CHR 0x27]
         else ''Here's what I found for: '' @ [CHR 0x27] @ q @ [CHR 0x27] @ nl @ nl @
              concat (map (\<lambda>(m, ov). bullet @ '' [Chapter '' @ py_str_int (chapter_start m) @ '', '' @
                                     mem_type m @ ''] '' @ fact_text m @ nl)
                          (take 5 (sort_key (\<lambda>(m, ov). (- int ov, - confidence m)) rel))))"

text \<open>\<open>MemoryQueryInterface.query\<close>: strip, lower, parse, dispatch. The test
  \<open>if not parsed\<close> of the code never holds, since \<open>_parse_query\<close> always returns a
  dictionary.\<close>

definition query :: "query_iface \<Rightarrow> (string set \<Rightarrow> string list) \<Rightarrow> string \<Rightarrow> string" where
  "query qi order text =
     (let q = py_lower (py_strip text); s = qi_store qi
      in case parse_query q of
           PRelationship c1 c2 limit \<Rightarrow> query_relationship s c1 c2 limit
         | PCharacter c ch \<Rightarrow> query_character_facts s c ch
         | PWorld ch \<Rightarrow> query_world_facts s ch
         | PPersonal ch \<Rightarrow> query_personal_facts s ch
         | PTimeline ch \<Rightarrow> query_timeline (init_retriever s ''mistral:7b'' (qi_client qi)) order ch
         | PGeneral t \<Rightarrow> query_general s t)"

section \<open>The interactive loop\<close>

text \<open>\<open>main --interactive\<close>: \<open>input()\<close> is the \<open>i\<close>-th value of the input source,
  \<open>None\<close> when it raises \<open>EOFError\<close> at end of file. The loop strips the line,
  stops on \<open>quit\<close>, \<open>exit\<close> or \<open>q\<close>, skips an empty line, and prints the answer;
  the \<open>except Exception\<close> clause catches \<open>EOFError\<close>, prints it and reads again.
  Each iteration spends one unit of fuel; \<open>None\<close> means that the loop has not ended
  within the fuel.\<close>

datatype session_line = Answer string | Input_error

definition is_quit :: "string \<Rightarrow> bool" where
  "is_quit line \<longleftrightarrow> py_lower (py_strip line) \<in> set [''quit'', ''exit'', ''q'']"

fun interactive_fuel ::
  "nat \<Rightarrow> (string \<Rightarrow> string) \<Rightarrow> (nat \<Rightarrow> string option) \<Rightarrow> nat \<Rightarrow> session_line list \<Rightarrow> session_line list option" where
  "interactive_fuel 0 ans inp i out = None"
| "interactive_fuel (Suc f) ans inp i out =
     (case inp i of
        None \<Rightarrow> interactive_fuel f ans inp (Suc i) (out @ [Input_error])
      | Some line \<Rightarrow>
          if is_quit line then Some out
          else if py_strip line = [] then interactive_fuel f ans inp (Suc i) out
          else interactive_fuel f ans inp (Suc i) (out @ [Answer (ans (py_strip line))]))"

definition interactive_session ::
  "nat \<Rightarrow> query_iface \<Rightarrow> (string set \<Rightarrow> string list) \<Rightarrow> (nat \<Rightarrow> string option) \<Rightarrow> session_line list option" where
  "interactive_session fuel qi order inp = interactive_fuel fuel (query qi order) inp 0 []"

section \<open>Analysis of patterns\<close>

text \<open>A character that every match of a pattern consumes: a sound, syntactic
  under-approximation (a repetition needs what one iteration needs, an option nothing,
  an alternative what both branches need).\<close>

fun needs :: "regex \<Rightarrow> char \<Rightarrow> bool" where
  "needs REps ch = False"
| "needs (RLit w) ch = (ch \<in> set w)"
| "needs (RCls cl) ch = False"
| "needs (RSeq r1 r2) ch = (needs r1 ch \<or> needs r2 ch)"
| "needs (RAlt r1 r2) ch = (needs r1 ch \<and> needs r2 ch)"
| "needs (ROpt r) ch = False"
| "needs (RPlus r) ch = needs r ch"
| "needs (RGroup i r) ch = needs r ch"

section \<open>Fixture\<close>

text \<open>A store with the open affair record of Byleth and Dimitri from chapter 1.\<close>

definition open_affair_store :: store where
  "open_affair_store = load_memories [affair_fact 1 0.9] empty_store"

section \<open>Lemmas\<close>

lemma mt_suffix:
  shows "x \<in> set (mt r c s) \<Longrightarrow> suffix (snd x) s"
    and "x \<in> set (mt_seq r2 n l) \<Longrightarrow> \<exists>y \<in> set l. suffix (snd x) (snd y)"
    and "x \<in> set (mt_plus r3 m l') \<Longrightarrow> \<exists>y \<in> set l'. suffix (snd x) (snd y)"
proof (induction r c s and r2 n l and r3 m l' arbitrary: x and x and x rule: mt_mt_seq_mt_plus.induct)
  case (2 w c s)
  then show ?case by (auto simp: suffix_drop split: if_splits)
next
  case (3 cl c s)
  then show ?case by (auto split: list.splits if_splits intro: suffix_ConsI)
next
  case (4 r1 r2 c s)
  then have "x \<in> set (mt_seq r2 (length s) (mt r1 c s))" by simp
  then obtain y where "y \<in> set (mt r1 c s)" "suffix (snd x) (snd y)" using "4.IH"(2) by blast
  then show ?case using "4.IH"(1) suffix_order.trans by blast
next
  case (5 r1 r2 c s)
  then show ?case by (cases x) auto
next
  case (6 r c s)
  then show ?case by (cases x) auto
next
  case (7 r c s)
  then have "x \<in> set (mt_plus r (length s) (mt r c s))" by simp
  then obtain y where "y \<in> set (mt r c s)" "suffix (snd x) (snd y)" using "7.IH"(2) by blast
  then show ?case using "7.IH"(1) suffix_order.trans by blast
next
  case (8 i r c s)
  then show ?case by auto
next
  case (10 r2 n c' s' rest)
  then show ?case by (cases x) (auto split: if_splits)
next
  case (12 r n c' s' rest)
  then show ?case by (cases x) (auto split: if_splits)
qed auto

lemma mt_seq_nonempty: "x \<in> set (mt_seq r n l) \<Longrightarrow> l \<noteq> []"
  by auto

lemma mt_plus_nonempty: "x \<in> set (mt_plus r n l) \<Longrightarrow> l \<noteq> []"
  by auto

lemma mt_needs:
  shows "x \<in> set (mt r c s) \<Longrightarrow> needs r ch \<Longrightarrow> ch \<in> set s"
    and "x \<in> set (mt_seq r2 n l) \<Longrightarrow> needs r2 ch \<Longrightarrow> \<exists>y \<in> set l. ch \<in> set (snd y)"
    and "x \<in> set (mt_plus r3 m l') \<Longrightarrow> True"
proof (induction r c s and r2 n l and r3 m l' arbitrary: x and x and x rule: mt_mt_seq_mt_plus.induct)
  case (2 w c s)
  then show ?case by (auto split: if_splits dest: set_mono_prefix)
next
  case (4 r1 r2 c s)
  from "4.prems"(1) have x: "x \<in> set (mt_seq r2 (length s) (mt r1 c s))" by simp
  show ?case
  proof (cases "needs r1 ch")
    case True
    obtain y where "y \<in> set (mt r1 c s)" using mt_seq_nonempty [OF x] by (meson list.set_sel(1))
    then show ?thesis using "4.IH"(1) True by blast
  next
    case False
    then have "needs r2 ch" using "4.prems"(2) by simp
    then obtain y where y: "y \<in> set (mt r1 c s)" "ch \<in> set (snd y)" using "4.IH"(2) [OF x] by blast
    have "suffix (snd y) s" using mt_suffix(1) [OF y(1)] .
    then show ?thesis using y(2) set_mono_suffix by blast
  qed
next
  case (5 r1 r2 c s)
  then show ?case by (cases x) auto
next
  case (7 r c s)
  from "7.prems"(1) have "x \<in> set (mt_plus r (length s) (mt r c s))" by simp
  then obtain y where "y \<in> set (mt r c s)" using mt_plus_nonempty by (meson list.set_sel(1))
  then show ?case using "7.IH"(1) "7.prems"(2) by simp
next
  case (8 i r c s)
  then show ?case by auto
next
  case (10 r2 n c' s' rest)
  then show ?case by (cases x) (auto split: if_splits)
qed auto

lemma re_search_needs: "re_search r s = Some c \<Longrightarrow> needs r ch \<Longrightarrow> ch \<in> set s"
proof (induction r s rule: re_search.induct)
  case (1 r)
  then obtain y ys where "mt r [] [] = y # ys" by (auto split: list.splits)
  then show ?case using mt_needs(1) [of y r "[]" "[]" ch] "1.prems"(2) by simp
next
  case (2 r x xs)
  show ?case
  proof (cases "mt r [] (x # xs)")
    case Nil
    then show ?thesis using "2.IH" "2.prems" by simp
  next
    case (Cons y ys)
    then show ?thesis using mt_needs(1) [of y r "[]" "x # xs" ch] "2.prems"(2) by simp
  qed
qed

lemma py_lower_no_capital_I: "CHR ''I'' \<notin> set (py_lower s)"
proof
  assume "CHR ''I'' \<in> set (py_lower s)"
  then obtain c where c: "py_lower_char c = CHR ''I''" by (auto simp: py_lower_def)
  show False
  proof (cases "CHR ''A'' \<le> c \<and> c \<le> CHR ''Z''")
    case True
    then have r: "(65::nat) \<le> of_char c" "of_char c \<le> (90::nat)" by (simp_all add: less_eq_char_def)
    have "of_char (char_of (of_char c + (32::nat)) :: char) = (of_char c + 32 :: nat)"
      using r by (simp add: of_char_of)
    moreover have "char_of (of_char c + (32::nat)) = CHR ''I''" using c True by (simp add: py_lower_char_def)
    ultimately show False using r by simp
  next
    case False
    then have "c = CHR ''I''" using c by (simp add: py_lower_char_def split: if_split_asm)
    then show False using False by (simp add: less_eq_char_def)
  qed
qed

lemma interactive_reaches_quit:
  assumes "inp (i + k) = Some l" and "is_quit l"
  shows "\<exists>out'. interactive_fuel (Suc k) ans inp i out = Some out'"
  using assms
proof (induction k arbitrary: i out)
  case 0
  then show ?case by simp
next
  case (Suc k)
  have "inp (Suc i + k) = Some l" using Suc.prems(1) by simp
  note IH = Suc.IH [OF this Suc.prems(2)]
  show ?case
    using IH by (cases "inp i") (auto simp: Let_def)
qed

lemma interactive_no_quit:
  assumes "\<forall>j \<ge> i. \<forall>l. inp j = Some l \<longrightarrow> \<not> is_quit l"
  shows "interactive_fuel f ans inp i out = None"
  using assms
proof (induction f arbitrary: i out)
  case 0
  then show ?case by simp
next
  case (Suc f)
  have "\<forall>j \<ge> Suc i. \<forall>l. inp j = Some l \<longrightarrow> \<not> is_quit l" using Suc.prems Suc_leD by blast
  note IH = Suc.IH [OF this]
  show ?case using IH Suc.prems by (cases "inp i") auto
qed

section \<open>Properties\<close>

text \<open>C29. The first and the third personal pattern can never match: \<open>query\<close> lowers the
  question before parsing, and both patterns require a capital \<open>I\<close>, which a lowered
  string does not contain.\<close>

theorem capital_I_patterns_dead:
  "re_search (personal_patterns ! 0) (py_lower s) = None \<and> re_search (personal_patterns ! 2) (py_lower s) = None"
proof -
  have n: "needs (personal_patterns ! 0) CHR ''I''" "needs (personal_patterns ! 2) CHR ''I''"
    by (simp_all add: personal_patterns_def chapter_suffix_def)
  show ?thesis using re_search_needs [OF _ n(1)] re_search_needs [OF _ n(2)] py_lower_no_capital_I
    by (meson not_None_eq)
qed

text \<open>The command line's own example \<open>"what do I know about the office"\<close>, given as
  a personal query in the help text, is parsed as a question about a character named
  \<open>i\<close>, and answered as such.\<close>

theorem what_do_i_know_example:
  "query \<lparr>qi_store = empty_store, qi_client = False\<rparr> order ''What do I know about the office'' =
     ''I don't have any information about i''"
proof -
  have q: "py_lower (py_strip ''What do I know about the office'') = ''what do i know about the office''"
    by (simp add: py_strip_def is_py_space_def py_lower_eval)
  have p: "parse_query ''what do i know about the office'' = PCharacter ''i'' None"
    by (simp add: parse_query_def relationship_patterns_def character_patterns_def chapter_suffix_def whats_def
        cap_text_def cap_int_def is_word_char_def is_py_space_def dict_set_def dict_get_def)
  show ?thesis
    by (simp add: query_def q p query_character_facts_def query_filtered_def chapter_given_def
        records_def empty_store_def)
qed

text \<open>C30. A relationship question with a chapter limit \<open>n\<close> lists a matching record
  once for every chapter from its start to \<open>n\<close> at which it is visible: an open record
  that starts in chapter \<open>k\<close> appears at least \<open>n - k + 1\<close> times in the answer's list,
  instead of once.\<close>

theorem relationship_duplicates:
  assumes inv: "store_inv s" and r: "m \<in> set (records s)" and rel: "rel_match c1 c2 m"
    and open_end: "chapter_end m = None"
    and cs: "1 \<le> chapter_start m" "chapter_start m \<le> n"
  shows "nat (n - chapter_start m + 1) \<le> count (mset (relationship_memories s c1 c2 (Some n))) m"
proof -
  let ?f = "\<lambda>ch. filter (rel_match c1 c2) (get_memories_at_chapter s ch)"
  have split: "[1..n] = [1..chapter_start m - 1] @ [chapter_start m..n]"
    using cs by (simp add: upto_split1)
  have "\<forall>ch \<in> set [chapter_start m..n]. m \<in> set (?f ch)"
  proof
    fix ch assume "ch \<in> set [chapter_start m..n]"
    then have "chapter_start m \<le> ch" by simp
    moreover have "visible_at ch m"
      using rel open_end by (simp add: visible_at_def rel_match_def)
    ultimately show "m \<in> set (?f ch)"
      using in_get_memories_at_chapterI [OF inv r] cs rel by simp
  qed
  then have "length [chapter_start m..n] \<le> count (mset (concat (map ?f [chapter_start m..n]))) m"
    by (rule count_concat_map_ge)
  moreover have "n \<noteq> 0" using cs by simp
  ultimately show ?thesis
    by (simp add: relationship_memories_def chapter_given_def split)
qed

text \<open>C30, applied: the affair of Byleth and Dimitri, open since chapter 1, is listed
  (at least) three times for the question up to chapter 3.\<close>

theorem relationship_duplicates_witness:
  "3 \<le> count (mset (relationship_memories open_affair_store ''byleth'' ''dimitri'' (Some 3)))
         (affair_fact 1 0.9)"
proof -
  have fresh: "mem_id (affair_fact 1 0.9) \<notin> fst ` set (all_memories empty_store)"
    by (simp add: empty_store_def)
  have st: "open_affair_store = load_one (affair_fact 1 0.9) empty_store"
    by (simp add: open_affair_store_def load_memories_def)
  have inv: "store_inv open_affair_store"
    using store_inv_load_one [OF store_inv_empty fresh] st by simp
  have r: "affair_fact 1 0.9 \<in> set (records open_affair_store)"
    using records_load_one [OF store_inv_empty fresh] st by (simp add: records_def empty_store_def)
  have f: "rel_match ''byleth'' ''dimitri'' (affair_fact 1 0.9) \<and>
      chapter_end (affair_fact 1 0.9) = None \<and> chapter_start (affair_fact 1 0.9) = 1"
    by (simp add: affair_fact_def create_memory_unit_def rel_match_def)
  have "nat (3 - chapter_start (affair_fact 1 0.9) + 1) \<le>
      count (mset (relationship_memories open_affair_store ''byleth'' ''dimitri'' (Some 3))) (affair_fact 1 0.9)"
    by (rule relationship_duplicates [OF inv r]) (use f in simp_all)
  then show ?thesis using f by simp
qed

text \<open>On a literal pattern the matcher agrees with Python's substring test.\<close>

theorem re_search_literal: "re_search (RLit w) s \<noteq> None \<longleftrightarrow> py_contains w s"
proof (induction s)
  case Nil
  then show ?case by (simp add: py_contains_sublist)
next
  case (Cons x xs)
  then show ?case by (simp add: py_contains_sublist sublist_Cons_right)
qed

text \<open>C31. The interactive loop ends as soon as the user types \<open>quit\<close>, \<open>exit\<close> or
  \<open>q\<close>: with fuel for the lines up to that one it returns.\<close>

theorem interactive_quit_terminates:
  assumes "inp i = Some l" and "is_quit l"
  shows "\<exists>out. interactive_session (Suc i) qi order inp = Some out"
  using interactive_reaches_quit [of inp 0 i l] assms by (simp add: interactive_session_def)

theorem interactive_quit_terminates_witness:
  "(\<lambda>j. if j = 1 then Some ''quit'' else Some ''hello'') (1::nat) = Some ''quit'' \<and> is_quit ''quit'' \<and>
   (\<exists>out. interactive_session 2 \<lparr>qi_store = empty_store, qi_client = False\<rparr> (\<lambda>S. [])
      (\<lambda>j. if j = 1 then Some ''quit'' else Some ''hello'') = Some out)"
proof -
  have q: "is_quit ''quit''" by (simp add: is_quit_def py_strip_def is_py_space_def py_lower_eval)
  show ?thesis
    using interactive_quit_terminates [of "\<lambda>j. if j = 1 then Some ''quit'' else Some ''hello''" 1 "''quit''",
        OF _ q, of "\<lparr>qi_store = empty_store, qi_client = False\<rparr>" "\<lambda>S. []"] q
    by (simp add: numeral_2_eq_2)
qed

text \<open>C32. At end of input, \<open>input()\<close> raises \<open>EOFError\<close>, which the loop's
  \<open>except Exception\<close> clause catches before reading again: without a quit command
  before the end of the input the loop never ends, whatever the fuel.\<close>

theorem interactive_eof_diverges:
  assumes "\<forall>j < n. \<forall>l. inp j = Some l \<longrightarrow> \<not> is_quit l" and "\<forall>j \<ge> n. inp j = None"
  shows "interactive_session f qi order inp = None"
proof -
  have "\<forall>j \<ge> 0. \<forall>l. inp j = Some l \<longrightarrow> \<not> is_quit l"
    using assms by (metis not_le option.distinct(1))
  then show ?thesis using interactive_no_quit by (simp add: interactive_session_def)
qed
theorem interactive_eof_diverges_witness:
  "(\<forall>j. (\<lambda>j::nat. None :: string option) j = None) \<and>
   interactive_session 5 \<lparr>qi_store = empty_store, qi_client = False\<rparr> (\<lambda>S. []) (\<lambda>j. None) = None"
  using interactive_eof_diverges [of 0 "\<lambda>j. None" 5 "\<lparr>qi_store = empty_store, qi_client = False\<rparr>" "\<lambda>S. []"] by simp

end
