(* ===== verification/Updater.thy ===== *)
theory Updater
  imports Memory_Unit
begin

text \<open>
  \<open>MemoryUpdater\<close> of \<open>src/updates/memory_updater.py\<close>: the time-based update
  policy that merges, replaces, keeps or creates a fact against the first similar
  active fact of a store. The store class it is written against,
  \<open>storage.memory_store.MemoryStore\<close>, is not in the repository; the updater calls
  only \<open>get_all_active()\<close> and \<open>upsert(memory)\<close>, so the store is an interface
  here: a record of those two operations over any state type \<open>'s\<close>, and a contract
  (\<open>upsert_contract\<close>) saying what an upsert by id does to the active records.
  Every lemma about the updater is stated over the interface and assumes only the
  contract; \<open>dict_store_ops\<close>, an insertion-ordered dictionary from ids to records,
  is one implementation and discharges it. The updater's own state is the store, its
  \<open>update_log\<close>, and the number of clock readings: \<open>datetime.now()\<close> is the
  parameter \<open>clock\<close> applied to that number. The store returns records by value, so
  the in-place mutation of \<open>existing\<close> and \<open>new_memory\<close> is an update of the
  copies that are then upserted.
\<close>

section \<open>The storage interface\<close>

record 's store_ops =
  get_all_active :: "'s \<Rightarrow> memory_unit list"
  upsert :: "memory_unit \<Rightarrow> 's \<Rightarrow> 's"

text \<open>An upsert by id: it keeps an invariant \<open>I\<close> of the store, and afterwards the active
  records are the old ones with a different id, plus the upserted record when it is
  active.\<close>

definition upsert_contract :: "'s store_ops \<Rightarrow> ('s \<Rightarrow> bool) \<Rightarrow> bool" where
  "upsert_contract ops I \<longleftrightarrow>
     (\<forall>m s. I s \<longrightarrow> I (upsert ops m s) \<and>
        set (get_all_active ops (upsert ops m s)) =
          {x \<in> set (get_all_active ops s). mem_id x \<noteq> mem_id m} \<union> (if is_active m then {m} else {}))"

section \<open>State of the updater\<close>

record log_entry =
  log_timestamp :: string
  log_action :: string
  log_old_memory_id :: "string option"
  log_new_memory_id :: string
  log_result_memory_id :: string
  log_chapter_start :: int
  log_fact_text :: string

record 's updater =
  up_store :: 's
  update_log :: "log_entry list"
  up_clock :: nat

definition init_updater :: "'s \<Rightarrow> 's updater" where
  "init_updater s = \<lparr>up_store = s, update_log = [], up_clock = 0\<rparr>"

text \<open>\<open>datetime.now().isoformat()\<close>: one reading of the clock.\<close>

definition now :: "(nat \<Rightarrow> string) \<Rightarrow> 's updater \<Rightarrow> string \<times> 's updater" where
  "now clock st = (clock (up_clock st), st\<lparr>up_clock := Suc (up_clock st)\<rparr>)"

definition log_update ::
  "(nat \<Rightarrow> string) \<Rightarrow> string \<Rightarrow> memory_unit option \<Rightarrow> memory_unit \<Rightarrow> memory_unit \<Rightarrow> 's updater \<Rightarrow> 's updater" where
  "log_update clock action old new result st =
     (let (ts, st1) = now clock st
      in st1\<lparr>update_log := update_log st1 @
           [\<lparr>log_timestamp = ts, log_action = action, log_old_memory_id = map_option mem_id old,
             log_new_memory_id = mem_id new, log_result_memory_id = mem_id result,
             log_chapter_start = chapter_start new, log_fact_text = take 50 (fact_text new) @ ''...''\<rparr>]\<rparr>)"

definition store_upsert :: "'s store_ops \<Rightarrow> memory_unit \<Rightarrow> 's updater \<Rightarrow> 's updater" where
  "store_upsert ops m st = st\<lparr>up_store := upsert ops m (up_store st)\<rparr>"

section \<open>Similarity\<close>

text \<open>\<open>_is_similar_memory\<close>: its four early returns in order.\<close>

definition is_similar_memory :: "memory_unit \<Rightarrow> memory_unit \<Rightarrow> bool" where
  "is_similar_memory e n =
     (if mem_type e \<noteq> mem_type n then False
      else if set (subjects e) \<noteq> set (subjects n) then False
      else if predicate e \<noteq> predicate n then False
      else if visibility e \<noteq> visibility n then False
      else True)"

definition find_similar_memory :: "'s store_ops \<Rightarrow> 's updater \<Rightarrow> memory_unit \<Rightarrow> memory_unit option" where
  "find_similar_memory ops st n = find (\<lambda>m. is_similar_memory m n) (get_all_active ops (up_store st))"

definition same_fact :: "memory_unit \<Rightarrow> memory_unit \<Rightarrow> bool" where
  "same_fact e n \<longleftrightarrow> object e = object n"

definition same_time_period :: "memory_unit \<Rightarrow> memory_unit \<Rightarrow> bool" where
  "same_time_period e n \<longleftrightarrow> \<bar>chapter_start n - chapter_start e\<bar> \<le> 5"

section \<open>Merge, replace, create\<close>

definition calculate_merged_confidence :: "memory_unit \<Rightarrow> memory_unit \<Rightarrow> rat" where
  "calculate_merged_confidence e n =
     (let existing_weight = 1; new_weight = 1; source_bonus = 1 / 10
      in min ((confidence e * existing_weight + confidence n * new_weight) / (existing_weight + new_weight)
              + source_bonus) 1)"

text \<open>\<open>" + ".join(set(sources))\<close>: the iteration order of the set is the parameter
  \<open>order\<close>.\<close>

definition merge_provenance ::
  "(string set \<Rightarrow> string list) \<Rightarrow> provenance \<Rightarrow> provenance \<Rightarrow> string \<Rightarrow> provenance" where
  "merge_provenance order ep np ts =
     (let sources = [prov_source ep, prov_source np]
      in \<lparr>prov_chapter = min (prov_chapter ep) (prov_chapter np),
          prov_source = (if ''synopsis'' \<in> set sources then ''synopsis'' else py_join '' + '' (order (set sources))),
          prov_timestamp = ts\<rparr>)"

text \<open>\<open>existing.chapter_end or existing.chapter_start\<close>: \<open>None\<close> and 0 are false.\<close>

definition end_or_start :: "memory_unit \<Rightarrow> int" where
  "end_or_start m = (case chapter_end m of None \<Rightarrow> chapter_start m | Some e \<Rightarrow> if e = 0 then chapter_start m else e)"

text \<open>\<open>_merge_memories\<close>: the new \<open>MemoryUnit(...)\<close> takes the class defaults for
  the fields it does not name.\<close>

definition merge_memories ::
  "(nat \<Rightarrow> string) \<Rightarrow> (string set \<Rightarrow> string list) \<Rightarrow> 's store_ops \<Rightarrow> memory_unit \<Rightarrow> memory_unit \<Rightarrow>
   's updater \<Rightarrow> memory_unit \<times> 's updater" where
  "merge_memories clock order ops e n st =
     (let conf = calculate_merged_confidence e n;
          (ts, st1) = now clock st;
          prov = merge_provenance order (provenance e) (provenance n) ts;
          merged = \<lparr>mem_id = mem_id e, mem_type = mem_type e, subjects = subjects e,
                    predicate = predicate e, object = object e, fact_text = fact_text e,
                    chapter_start = min (chapter_start e) (chapter_start n),
                    chapter_end = Some (max (end_or_start e) (end_or_start n)),
                    visibility = visibility e, confidence = conf, is_active = True, provenance = prov,
                    version = version e + 1, supersedes = supersedes e, superseded_by = None,
                    update_reason = None, update_confidence = None, embedding = embedding e,
                    attrs = attrs e\<rparr>
      in (merged, log_update clock ''merge'' (Some e) n merged (store_upsert ops merged st1)))"

text \<open>\<open>_replace_memory\<close>: the existing record is closed and its own
  \<open>supersedes\<close> link is cleared; the new record supersedes it with the next version.\<close>

definition replace_memory ::
  "(nat \<Rightarrow> string) \<Rightarrow> 's store_ops \<Rightarrow> memory_unit \<Rightarrow> memory_unit \<Rightarrow> 's updater \<Rightarrow> memory_unit \<times> 's updater" where
  "replace_memory clock ops e n st =
     (let e' = e\<lparr>is_active := False, chapter_end := Some (chapter_start n - 1), supersedes := None\<rparr>;
          st1 = store_upsert ops e' st;
          n' = n\<lparr>supersedes := Some (mem_id e'), version := version e' + 1\<rparr>;
          st2 = store_upsert ops n' st1
      in (n', log_update clock ''replace'' (Some e') n' n' st2))"

definition create_new_memory ::
  "(nat \<Rightarrow> string) \<Rightarrow> 's store_ops \<Rightarrow> memory_unit \<Rightarrow> 's updater \<Rightarrow> memory_unit \<times> 's updater" where
  "create_new_memory clock ops m st = (m, log_update clock ''create'' None m m (store_upsert ops m st))"

section \<open>update_memory and batch_update\<close>

definition update_memory ::
  "(nat \<Rightarrow> string) \<Rightarrow> (string set \<Rightarrow> string list) \<Rightarrow> 's store_ops \<Rightarrow> memory_unit \<Rightarrow> 's updater \<Rightarrow>
   (memory_unit \<times> string) \<times> 's updater" where
  "update_memory clock order ops n st =
     (case find_similar_memory ops st n of
        Some e \<Rightarrow>
          if same_fact e n then
            if same_time_period e n
            then (case merge_memories clock order ops e n st of (r, st') \<Rightarrow> ((r, ''merged''), st'))
            else (case replace_memory clock ops e n st of (r, st') \<Rightarrow> ((r, ''replaced_same_fact''), st'))
          else if chapter_start e < chapter_start n
          then (case replace_memory clock ops e n st of (r, st') \<Rightarrow> ((r, ''replaced_different_fact''), st'))
          else ((e, ''kept_existing''), st)
      | None \<Rightarrow> (case create_new_memory clock ops n st of (r, st') \<Rightarrow> ((r, ''created_new''), st')))"

fun batch_update ::
  "(nat \<Rightarrow> string) \<Rightarrow> (string set \<Rightarrow> string list) \<Rightarrow> 's store_ops \<Rightarrow> memory_unit list \<Rightarrow> 's updater \<Rightarrow>
   (memory_unit \<times> string) list \<times> 's updater" where
  "batch_update clock order ops [] st = ([], st)"
| "batch_update clock order ops (m # ms) st =
     (case update_memory clock order ops m st of
        (ra, st1) \<Rightarrow> (case batch_update clock order ops ms st1 of (rs, st2) \<Rightarrow> (ra # rs, st2)))"

definition clear_update_log :: "'s updater \<Rightarrow> 's updater" where
  "clear_update_log st = st\<lparr>update_log := []\<rparr>"

section \<open>A dictionary store\<close>

text \<open>An implementation of the interface: records by id in insertion order, upsert as
  dictionary assignment, the active records in that order.\<close>

type_synonym dict_store = "(string, memory_unit) pydict"

definition dict_store_ops :: "dict_store store_ops" where
  "dict_store_ops = \<lparr>get_all_active = (\<lambda>d. filter is_active (map snd d)), upsert = (\<lambda>m d. dict_set (mem_id m) m d)\<rparr>"

definition dict_store_ok :: "dict_store \<Rightarrow> bool" where
  "dict_store_ok d \<longleftrightarrow> distinct (map fst d) \<and> list_all (\<lambda>p. fst p = mem_id (snd p)) d"

section \<open>The invariant\<close>

text \<open>At most one active record per similarity class.\<close>

definition unique_active :: "'s store_ops \<Rightarrow> 's \<Rightarrow> bool" where
  "unique_active ops s \<longleftrightarrow>
     (\<forall>x \<in> set (get_all_active ops s). \<forall>y \<in> set (get_all_active ops s). is_similar_memory x y \<longrightarrow> x = y)"

section \<open>Fixture\<close>

text \<open>Three observations of the relationship of Byleth and Dimitri, in chapters 1, 3
  and 5, each with another object.\<close>

definition version_a :: memory_unit where
  "version_a = create_memory_unit ''a'' IC [''byleth'', ''dimitri''] ''Byleth and Dimitri are friends.''
     ''relationship_status'' ''friends'' 0.8 None 1 ''t0''"

definition version_b :: memory_unit where
  "version_b = create_memory_unit ''b'' IC [''byleth'', ''dimitri''] ''Byleth and Dimitri are rivals.''
     ''relationship_status'' ''rivals'' 0.8 None 3 ''t0''"

definition version_c :: memory_unit where
  "version_c = create_memory_unit ''c'' IC [''byleth'', ''dimitri''] ''Byleth and Dimitri are lovers.''
     ''relationship_status'' ''lovers'' 0.9 None 5 ''t0''"

section \<open>Lemmas\<close>

lemma is_similar_iff:
  "is_similar_memory e n \<longleftrightarrow> mem_type e = mem_type n \<and> set (subjects e) = set (subjects n) \<and>
     predicate e = predicate n \<and> visibility e = visibility n"
  by (simp add: is_similar_memory_def)

lemma is_similar_trans: "is_similar_memory x y \<Longrightarrow> is_similar_memory y z \<Longrightarrow> is_similar_memory x z"
  by (simp add: is_similar_iff)

lemma is_similar_sym: "is_similar_memory x y \<Longrightarrow> is_similar_memory y x"
  by (simp add: is_similar_iff)

lemma up_store_log_update [simp]: "up_store (log_update clock a old n r st) = up_store st"
  by (simp add: log_update_def now_def)

lemma up_store_store_upsert [simp]: "up_store (store_upsert ops m st) = upsert ops m (up_store st)"
  by (simp add: store_upsert_def)

lemma up_store_now [simp]: "up_store (snd (now clock st)) = up_store st"
  by (simp add: now_def)

lemma upsert_contractD:
  assumes "upsert_contract ops I" and "I s"
  shows "I (upsert ops m s)"
    and "set (get_all_active ops (upsert ops m s)) =
           {x \<in> set (get_all_active ops s). mem_id x \<noteq> mem_id m} \<union> (if is_active m then {m} else {})"
  using assms by (auto simp: upsert_contract_def)

lemma find_similar_SomeD:
  "find_similar_memory ops st n = Some e \<Longrightarrow>
     e \<in> set (get_all_active ops (up_store st)) \<and> is_similar_memory e n"
  by (auto simp: find_similar_memory_def dest: find_Some_iff [THEN iffD1])

lemma find_similar_NoneD:
  "find_similar_memory ops st n = None \<Longrightarrow> x \<in> set (get_all_active ops (up_store st)) \<Longrightarrow>
     \<not> is_similar_memory x n"
  by (simp add: find_similar_memory_def find_None_iff)

text \<open>An upsert keeps one active record per class when every active record similar to
  the upserted one has its id, and so is replaced by it.\<close>

lemma unique_active_upsert:
  assumes c: "upsert_contract ops I" and "I s" and u: "unique_active ops s"
    and ids: "\<forall>x \<in> set (get_all_active ops s). is_similar_memory x m \<longrightarrow> mem_id x = mem_id m"
  shows "unique_active ops (upsert ops m s)"
proof -
  have sym: "is_similar_memory m x \<Longrightarrow> is_similar_memory x m" for x by (rule is_similar_sym)
  show ?thesis
    using u ids sym unfolding unique_active_def upsert_contractD(2) [OF c \<open>I s\<close>]
    by (auto split: if_splits)
qed

lemma merge_memories_store:
  "up_store (snd (merge_memories clock order ops e n st)) =
     upsert ops (fst (merge_memories clock order ops e n st)) (up_store st) \<and>
   is_similar_memory (fst (merge_memories clock order ops e n st)) e \<and>
   mem_id (fst (merge_memories clock order ops e n st)) = mem_id e \<and>
   is_active (fst (merge_memories clock order ops e n st))"
  by (simp add: merge_memories_def now_def Let_def is_similar_iff)

lemma replace_memory_store:
  "fst (replace_memory clock ops e n st) = n\<lparr>supersedes := Some (mem_id e), version := version e + 1\<rparr> \<and>
   up_store (snd (replace_memory clock ops e n st)) =
     upsert ops (fst (replace_memory clock ops e n st))
       (upsert ops (e\<lparr>is_active := False, chapter_end := Some (chapter_start n - 1), supersedes := None\<rparr>) (up_store st))"
  by (simp add: replace_memory_def Let_def)

lemma create_new_memory_store:
  "fst (create_new_memory clock ops m st) = m \<and> up_store (snd (create_new_memory clock ops m st)) = upsert ops m (up_store st)"
  by (simp add: create_new_memory_def)

lemma update_memory_None:
  "find_similar_memory ops st n = None \<Longrightarrow>
     update_memory clock order ops n st = ((n, ''created_new''), snd (create_new_memory clock ops n st))"
  by (simp add: update_memory_def create_new_memory_def)

lemma update_memory_Some:
  "find_similar_memory ops st n = Some e \<Longrightarrow>
   update_memory clock order ops n st =
     (if same_fact e n then
        if same_time_period e n
        then ((fst (merge_memories clock order ops e n st), ''merged''), snd (merge_memories clock order ops e n st))
        else ((fst (replace_memory clock ops e n st), ''replaced_same_fact''), snd (replace_memory clock ops e n st))
      else if chapter_start e < chapter_start n
      then ((fst (replace_memory clock ops e n st), ''replaced_different_fact''), snd (replace_memory clock ops e n st))
      else ((e, ''kept_existing''), st))"
  by (simp add: update_memory_def case_prod_beta)

lemma update_memory_unique_active:
  assumes c: "upsert_contract ops I" and i: "I (up_store st)" and u: "unique_active ops (up_store st)"
  shows "I (up_store (snd (update_memory clock order ops n st))) \<and>
         unique_active ops (up_store (snd (update_memory clock order ops n st)))"
proof (cases "find_similar_memory ops st n")
  case None
  then have "\<forall>x \<in> set (get_all_active ops (up_store st)). \<not> is_similar_memory x n"
    using find_similar_NoneD by blast
  then show ?thesis
    using None unique_active_upsert [OF c i u] upsert_contractD(1) [OF c i]
    by (simp add: update_memory_None create_new_memory_store)
next
  case (Some e)
  then have e: "e \<in> set (get_all_active ops (up_store st))" "is_similar_memory e n"
    using find_similar_SomeD by blast+
  have same: "\<forall>x \<in> set (get_all_active ops (up_store st)). is_similar_memory x m \<longrightarrow> mem_id x = mem_id m"
    if "is_similar_memory m e" "mem_id m = mem_id e" for m
    using u e(1) that is_similar_trans unfolding unique_active_def by metis
  have merge: "I (up_store (snd (merge_memories clock order ops e n st))) \<and>
               unique_active ops (up_store (snd (merge_memories clock order ops e n st)))"
    using merge_memories_store [of clock order ops e n st] same unique_active_upsert [OF c i u]
      upsert_contractD(1) [OF c i] by metis
  define e' where "e' = e\<lparr>is_active := False, chapter_end := Some (chapter_start n - 1), supersedes := None\<rparr>"
  define s1 where "s1 = upsert ops e' (up_store st)"
  have i1: "I s1" and u1: "unique_active ops s1"
    using same [of e'] unique_active_upsert [OF c i u] upsert_contractD(1) [OF c i]
    by (simp_all add: s1_def e'_def is_similar_iff)
  have a1: "set (get_all_active ops s1) = {x \<in> set (get_all_active ops (up_store st)). mem_id x \<noteq> mem_id e}"
    using upsert_contractD(2) [OF c i] by (simp add: s1_def e'_def)
  have "\<forall>x \<in> set (get_all_active ops s1). \<not> is_similar_memory x (fst (replace_memory clock ops e n st))"
  proof
    fix x assume "x \<in> set (get_all_active ops s1)"
    with a1 have x: "x \<in> set (get_all_active ops (up_store st))" "mem_id x \<noteq> mem_id e" by auto
    show "\<not> is_similar_memory x (fst (replace_memory clock ops e n st))"
    proof
      assume "is_similar_memory x (fst (replace_memory clock ops e n st))"
      then have "is_similar_memory x e"
        using e(2) by (simp add: replace_memory_store is_similar_iff)
      with u x(1) e(1) have "x = e" unfolding unique_active_def by blast
      with x(2) show False by simp
    qed
  qed
  then have replace: "I (up_store (snd (replace_memory clock ops e n st))) \<and>
                      unique_active ops (up_store (snd (replace_memory clock ops e n st)))"
    using unique_active_upsert [OF c i1 u1] upsert_contractD(1) [OF c i1]
    by (simp add: replace_memory_store s1_def e'_def)
  show ?thesis
    using Some merge replace i u by (simp add: update_memory_Some)
qed

lemma dict_store_contract: "upsert_contract dict_store_ops dict_store_ok"
proof -
  have "dict_store_ok (dict_set (mem_id m) m d) \<and>
        set (filter is_active (map snd (dict_set (mem_id m) m d))) =
          {x \<in> set (filter is_active (map snd d)). mem_id x \<noteq> mem_id m} \<union> (if is_active m then {m} else {})"
    if ok: "dict_store_ok d" for m d
  proof -
    have d: "distinct (map fst d)" and k: "\<forall>p \<in> set d. fst p = mem_id (snd p)"
      using ok by (simp_all add: dict_store_ok_def list_all_iff)
    have s: "set (dict_set (mem_id m) m d) = insert (mem_id m, m) {p \<in> set d. fst p \<noteq> mem_id m}"
      using set_dict_set_distinct [OF d] .
    show ?thesis
      using d k by (auto simp: dict_store_ok_def list_all_iff s image_iff) (metis snd_conv)+
  qed
  then show ?thesis by (simp add: upsert_contract_def dict_store_ops_def)
qed


lemma version_fields:
  "mem_id version_a = ''a'' \<and> mem_id version_b = ''b'' \<and> mem_id version_c = ''c'' \<and>
   is_active version_a \<and> is_active version_b \<and> is_active version_c \<and>
   mem_type version_a = IC \<and> mem_type version_b = IC \<and> mem_type version_c = IC \<and>
   subjects version_a = [''byleth'', ''dimitri''] \<and> subjects version_b = [''byleth'', ''dimitri''] \<and>
   subjects version_c = [''byleth'', ''dimitri''] \<and>
   predicate version_a = ''relationship_status'' \<and> predicate version_b = ''relationship_status'' \<and>
   predicate version_c = ''relationship_status'' \<and>
   visibility version_a = ''shared'' \<and> visibility version_b = ''shared'' \<and> visibility version_c = ''shared'' \<and>
   object version_a = ''friends'' \<and> object version_b = ''rivals'' \<and> object version_c = ''lovers'' \<and>
   chapter_start version_a = 1 \<and> chapter_start version_b = 3 \<and> chapter_start version_c = 5 \<and>
   supersedes version_a = None \<and> supersedes version_b = None \<and> supersedes version_c = None"
  by (simp add: version_a_def version_b_def version_c_def create_memory_unit_def visibility_default_def)

section \<open>Properties\<close>

text \<open>C20. For every store that implements the upsert contract, \<open>batch_update\<close> keeps
  the store's invariant and leaves at most one active record per similarity class
  (same type, same set of subjects, same predicate, same visibility).\<close>

theorem batch_update_unique_active:
  assumes c: "upsert_contract ops I" and "I (up_store st)" and "unique_active ops (up_store st)"
  shows "I (up_store (snd (batch_update clock order ops ms st))) \<and>
         unique_active ops (up_store (snd (batch_update clock order ops ms st)))"
  using assms(2,3)
proof (induction ms arbitrary: st)
  case Nil
  then show ?case by simp
next
  case (Cons m ms)
  have "I (up_store (snd (update_memory clock order ops m st))) \<and>
        unique_active ops (up_store (snd (update_memory clock order ops m st)))"
    using update_memory_unique_active [OF c Cons.prems] .
  then show ?case
    using Cons.IH [of "snd (update_memory clock order ops m st)"] by (simp add: case_prod_beta)
qed

text \<open>C20, applied: three updates of an empty dictionary store.\<close>

theorem batch_update_unique_active_witness:
  "dict_store_ok (up_store (init_updater [])) \<and> unique_active dict_store_ops (up_store (init_updater [])) \<and>
   dict_store_ok (up_store (snd (batch_update (\<lambda>i. ''t'') (\<lambda>S. []) dict_store_ops
     [version_a, version_b, version_c] (init_updater [])))) \<and>
   unique_active dict_store_ops (up_store (snd (batch_update (\<lambda>i. ''t'') (\<lambda>S. []) dict_store_ops
     [version_a, version_b, version_c] (init_updater []))))"
proof -
  have "dict_store_ok (up_store (init_updater [])) \<and> unique_active dict_store_ops (up_store (init_updater []))"
    by (simp add: init_updater_def dict_store_ok_def unique_active_def dict_store_ops_def)
  then show ?thesis
    using batch_update_unique_active [OF dict_store_contract, of "init_updater []"] by blast
qed

text \<open>C21. Whatever branch it takes, \<open>update_memory\<close> of an active record returns a record
  that is active in the resulting store: the merged record, the replacing record, the
  created record, or the kept existing one.\<close>

theorem update_memory_result_active:
  assumes c: "upsert_contract ops I" and i: "I (up_store st)" and a: "is_active n"
  shows "fst (fst (update_memory clock order ops n st)) \<in>
           set (get_all_active ops (up_store (snd (update_memory clock order ops n st))))"
proof (cases "find_similar_memory ops st n")
  case None
  then show ?thesis
    using a upsert_contractD(2) [OF c i, of n] by (simp add: update_memory_None create_new_memory_store)
next
  case (Some e)
  have merge: "fst (merge_memories clock order ops e n st) \<in>
                 set (get_all_active ops (up_store (snd (merge_memories clock order ops e n st))))"
    using merge_memories_store [of clock order ops e n st]
      upsert_contractD(2) [OF c i, of "fst (merge_memories clock order ops e n st)"] by simp
  have i1: "I (upsert ops (e\<lparr>is_active := False, chapter_end := Some (chapter_start n - 1), supersedes := None\<rparr>)
              (up_store st))"
    using upsert_contractD(1) [OF c i] .
  have replace: "fst (replace_memory clock ops e n st) \<in>
                   set (get_all_active ops (up_store (snd (replace_memory clock ops e n st))))"
    using a upsert_contractD(2) [OF c i1, of "fst (replace_memory clock ops e n st)"]
    by (simp add: replace_memory_store)
  show ?thesis
    using Some merge replace find_similar_SomeD [OF Some] by (simp add: update_memory_Some)
qed

text \<open>C21, applied: the first observation, stored in an empty dictionary store.\<close>

theorem update_memory_result_active_witness:
  "dict_store_ok (up_store (init_updater [])) \<and> is_active version_a \<and>
   fst (fst (update_memory (\<lambda>i. ''t'') (\<lambda>S. []) dict_store_ops version_a (init_updater []))) \<in>
     set (get_all_active dict_store_ops
       (up_store (snd (update_memory (\<lambda>i. ''t'') (\<lambda>S. []) dict_store_ops version_a (init_updater [])))))"
proof -
  have "dict_store_ok (up_store (init_updater [])) \<and> is_active version_a"
    by (simp add: init_updater_def dict_store_ok_def version_a_def create_memory_unit_def)
  then show ?thesis
    using update_memory_result_active [OF dict_store_contract, of "init_updater []" version_a] by blast
qed

text \<open>C22. Whenever \<open>update_memory\<close> replaces the similar record \<open>e\<close> (a different
  object, or the same object more than five chapters later), the stored copy of \<open>e\<close>
  is closed with its own \<open>supersedes\<close> link cleared, whatever it was, while the new
  record supersedes \<open>e\<close>: every replacement cuts the version chain behind the record
  it closes.\<close>

theorem replace_erases_history:
  assumes f: "find_similar_memory dict_store_ops st n = Some e"
    and rep: "\<not> (same_fact e n \<and> same_time_period e n)"
    and later: "same_fact e n \<or> chapter_start e < chapter_start n"
    and ne: "mem_id n \<noteq> mem_id e"
  shows "dict_get (up_store (snd (update_memory clock order dict_store_ops n st))) (mem_id e) =
           Some (e\<lparr>is_active := False, chapter_end := Some (chapter_start n - 1), supersedes := None\<rparr>) \<and>
         supersedes (fst (fst (update_memory clock order dict_store_ops n st))) = Some (mem_id e)"
proof -
  have "update_memory clock order dict_store_ops n st =
          ((fst (replace_memory clock dict_store_ops e n st),
            if same_fact e n then ''replaced_same_fact'' else ''replaced_different_fact''),
           snd (replace_memory clock dict_store_ops e n st))"
    using rep later by (auto simp: update_memory_Some [OF f])
  then show ?thesis
    using ne by (simp add: replace_memory_store dict_store_ops_def)
qed

text \<open>C22, applied: version b of the relationship replaces version a in a store that
  holds only a.\<close>

theorem replace_erases_history_witness:
  "dict_get (up_store (snd (update_memory (\<lambda>i. ''t'') (\<lambda>S. []) dict_store_ops version_b
      (init_updater [(''a'', version_a)])))) ''a'' =
     Some (version_a\<lparr>is_active := False, chapter_end := Some 2, supersedes := None\<rparr>) \<and>
   supersedes (fst (fst (update_memory (\<lambda>i. ''t'') (\<lambda>S. []) dict_store_ops version_b
      (init_updater [(''a'', version_a)])))) = Some ''a''"
proof -
  have f: "find_similar_memory dict_store_ops (init_updater [(''a'', version_a)]) version_b = Some version_a"
    using version_fields by (simp add: find_similar_memory_def dict_store_ops_def init_updater_def
        is_similar_memory_def)
  have h: "\<not> (same_fact version_a version_b \<and> same_time_period version_a version_b) \<and>
      (same_fact version_a version_b \<or> chapter_start version_a < chapter_start version_b) \<and>
      mem_id version_b \<noteq> mem_id version_a"
    using version_fields by (simp add: same_fact_def)
  show ?thesis
    using replace_erases_history [OF f, of "\<lambda>i. ''t''" "\<lambda>S. []"] h version_fields by simp
qed

end
