(* ===== verification/Llm_Extractor.thy ===== *)
theory Llm_Extractor
  imports Extractor Json
begin

text \<open>
  The language-model path of \<open>MemoryExtractor\<close> (\<open>src/llm/memory_extractor.py\<close>):
  \<open>extract_memories_from_sentence\<close>, which asks the model for one fact as JSON,
  \<open>_parse_llm_response\<close>, which cuts the JSON object out of the reply and checks its
  fields, \<open>_repair_json_response\<close>, which rewrites a malformed reply with two regular
  expressions and parses it again, \<open>_validate_repaired_data\<close>, and
  \<open>_create_memory_unit\<close>, which turns the fields into a \<open>MemoryUnit\<close>. The model
  call is the parameter \<open>chat\<close> (the prompts are fixed functions of the sentence and
  the chapter; an exception of the client is \<open>Inl\<close>), \<open>json.loads\<close> is the
  parameter \<open>loads\<close> (\<open>None\<close> for a \<open>JSONDecodeError\<close>), and pydantic's
  conversion of a numeric string to \<open>float\<close> is the parameter \<open>parse_float\<close>.
  The two \<open>re.sub\<close> rewrites and the \<open>re.search\<close> are written out as scans over
  the text; printing is output.
\<close>

section \<open>Python truth values\<close>

fun py_truthy :: "json \<Rightarrow> bool" where
  "py_truthy JNull = False"
| "py_truthy (JBool b) = b"
| "py_truthy (JInt i) = (i \<noteq> 0)"
| "py_truthy (JFloat r) = (r \<noteq> 0)"
| "py_truthy (JStr s) = (s \<noteq> [])"
| "py_truthy (JArr xs) = (xs \<noteq> [])"
| "py_truthy (JObj kvs) = (kvs \<noteq> [])"

definition required_fields :: "string list" where
  "required_fields = [''mem_type'', ''subjects'', ''fact_text'', ''predicate'', ''object'', ''confidence'']"

section \<open>Parsing the reply\<close>

text \<open>\<open>re.search(r'\{.*\}', content, re.DOTALL).group(0)\<close>: with \<open>.\<close> matching
  every character and a greedy star, the match runs from the first \<open>{\<close> to the last
  \<open>}\<close> after it.\<close>

definition brace_span :: "string \<Rightarrow> string option" where
  "brace_span s =
     (let t = dropWhile (\<lambda>c. c \<noteq> CHR ''{'') s;
          u = rev (dropWhile (\<lambda>c. c \<noteq> CHR ''}'') (rev t))
      in if u = [] then None else Some u)"

text \<open>The loop over \<open>required_fields\<close>: a field that is missing or \<open>None\<close> ends
  the parse with \<open>None\<close>.\<close>

definition direct_fields_ok :: "(string \<times> json) list \<Rightarrow> bool" where
  "direct_fields_ok kvs \<longleftrightarrow>
     list_all (\<lambda>f. f \<in> set (map fst kvs) \<and> dict_get kvs f \<noteq> Some JNull) required_fields"

section \<open>Repairing the reply\<close>

definition fence :: string where
  "fence = [CHR 0x60, CHR 0x60, CHR 0x60]"

definition ends_with :: "string \<Rightarrow> string \<Rightarrow> bool" where
  "ends_with p s \<longleftrightarrow> starts_with (rev p) (rev s)"

text \<open>\<open>content.strip()\<close>, then \<open>cleaned[7:]\<close> after a leading
  \<open>```json\<close> and \<open>cleaned[:-3]\<close> before a trailing \<open>```\<close>.\<close>

definition strip_fences :: "string \<Rightarrow> string" where
  "strip_fences s =
     (let c = py_strip s;
          c1 = (if starts_with (fence @ ''json'') c then drop 7 c else c)
      in if ends_with fence c1 then take (length c1 - 3) c1 else c1)"

text \<open>The classes \<open>[a-zA-Z_]\<close> and \<open>[a-zA-Z0-9_]\<close> of the two patterns.\<close>

definition is_ident_start :: "char \<Rightarrow> bool" where
  "is_ident_start c \<longleftrightarrow>
     (CHR ''a'' \<le> c \<and> c \<le> CHR ''z'') \<or> (CHR ''A'' \<le> c \<and> c \<le> CHR ''Z'') \<or> c = CHR ''_''"

definition is_ident :: "char \<Rightarrow> bool" where
  "is_ident c \<longleftrightarrow> is_ident_start c \<or> (CHR ''0'' \<le> c \<and> c \<le> CHR ''9'')"

text \<open>\<open>re.sub(r'([a-zA-Z_][a-zA-Z0-9_]*):', r'"\1":', cleaned)\<close>. A match starts at
  an identifier character and takes the longest identifier run, which must be followed
  by a colon; when it is not, no later start inside the run can match either, so the
  scan resumes after the run.\<close>

function quote_keys :: "string \<Rightarrow> string" where
  "quote_keys [] = []"
| "quote_keys (c # cs) =
     (if is_ident_start c then
        (case dropWhile is_ident cs of
           [] \<Rightarrow> c # takeWhile is_ident cs
         | d # r \<Rightarrow>
             if d = CHR '':'' then CHR 0x22 # c # takeWhile is_ident cs @ [CHR 0x22, CHR '':''] @ quote_keys r
             else c # takeWhile is_ident cs @ quote_keys (d # r))
      else c # quote_keys cs)"
  by pat_completeness auto
termination
  by (relation "measure length")
    (auto dest!: dropWhile_eq_Cons_length intro: le_less_trans [OF length_dropWhile_le] less_SucI)

text \<open>\<open>re.sub(r':\s*([a-zA-Z_][a-zA-Z0-9_]*)', r': "\1"', cleaned)\<close>: a colon, any
  whitespace, and an identifier run become a colon, one space and the quoted run.\<close>

function quote_values :: "string \<Rightarrow> string" where
  "quote_values [] = []"
| "quote_values (c # cs) =
     (if c = CHR '':'' then
        (case dropWhile is_py_space cs of
           [] \<Rightarrow> c # quote_values cs
         | d # ds \<Rightarrow>
             if is_ident_start d
             then [CHR '':'', CHR '' '', CHR 0x22, d] @ takeWhile is_ident ds @ [CHR 0x22] @
                  quote_values (dropWhile is_ident ds)
             else c # quote_values cs)
      else c # quote_values cs)"
  by pat_completeness auto
termination
  by (relation "measure length")
    (auto dest!: dropWhile_eq_Cons_length intro: le_less_trans [OF length_dropWhile_le] less_SucI)

text \<open>\<open>_validate_repaired_data\<close>: \<open>all(field in data and data[field] is not None
  ...)\<close> stops at the first failing field; \<open>in\<close> and \<open>[]\<close> raise on values that are
  not dictionaries, and the exception ends the repair.\<close>

fun validate_fields :: "json \<Rightarrow> string list \<Rightarrow> py_error + bool" where
  "validate_fields d [] = Inr True"
| "validate_fields d (f # fs) =
     sbind (json_contains f d) (\<lambda>b.
       if \<not> b then Inr False
       else sbind (json_index d f) (\<lambda>v. if v = JNull then Inr False else validate_fields d fs))"

definition validate_repaired_data :: "json \<Rightarrow> py_error + bool" where
  "validate_repaired_data d = validate_fields d required_fields"

definition repair_cleaned :: "string \<Rightarrow> string" where
  "repair_cleaned content = quote_values (quote_keys (strip_fences content))"

definition repair_json_response :: "(string \<Rightarrow> json option) \<Rightarrow> string \<Rightarrow> json option" where
  "repair_json_response loads content =
     (case loads (repair_cleaned content) of
        None \<Rightarrow> None
      | Some parsed \<Rightarrow> (case validate_repaired_data parsed of Inr True \<Rightarrow> Some parsed | _ \<Rightarrow> None))"

text \<open>\<open>_parse_llm_response\<close>: a decoding error, or a decoded value without \<open>get\<close>,
  sends the reply to the repair; \<open>emit\<close> defaults to true.\<close>

definition parse_llm_response :: "(string \<Rightarrow> json option) \<Rightarrow> string \<Rightarrow> json option" where
  "parse_llm_response loads content =
     (case brace_span content of
        None \<Rightarrow> None
      | Some js \<Rightarrow>
          (case loads js of
             None \<Rightarrow> repair_json_response loads content
           | Some pd \<Rightarrow>
               (case json_get pd ''emit'' (JBool True) of
                  Inl e \<Rightarrow> repair_json_response loads content
                | Inr emit \<Rightarrow>
                    if \<not> py_truthy emit then None
                    else (case pd of
                            JObj kvs \<Rightarrow>
                              if \<not> direct_fields_ok kvs then None
                              else if \<not> py_truthy (the (dict_get kvs ''object''))
                              then None else Some pd
                          | _ \<Rightarrow> None))))"

section \<open>Building the record\<close>

text \<open>Pydantic's checks of the \<open>MemoryUnit\<close> fields: strings must be strings, the
  subjects a list of strings; a confidence may be a number, a boolean, or a string
  that \<open>float\<close> accepts. A failure is a \<open>ValidationError\<close>, a \<open>ValueError\<close>.\<close>

fun json_as_str :: "json \<Rightarrow> py_error + string" where
  "json_as_str (JStr s) = Inr s"
| "json_as_str _ = Inl ValueError"

fun json_as_strs :: "json \<Rightarrow> py_error + string list" where
  "json_as_strs (JArr xs) = sfold (\<lambda>acc x. sbind (json_as_str x) (\<lambda>s. Inr (acc @ [s]))) xs []"
| "json_as_strs _ = Inl ValueError"

definition json_as_float :: "(string \<Rightarrow> rat option) \<Rightarrow> json \<Rightarrow> py_error + rat" where
  "json_as_float parse_float v =
     (case v of
        JStr s \<Rightarrow> (case parse_float s of None \<Rightarrow> Inl ValueError | Some r \<Rightarrow> Inr r)
      | _ \<Rightarrow> (case py_num v of None \<Rightarrow> Inl ValueError | Some r \<Rightarrow> Inr r))"

text \<open>\<open>memory_data["fact_text"][:140]\<close>: a list slices to a list, which pydantic then
  rejects; other values cannot be sliced.\<close>

fun slice_140 :: "json \<Rightarrow> py_error + json" where
  "slice_140 (JStr s) = Inr (JStr (take 140 s))"
| "slice_140 (JArr xs) = Inr (JArr (take 140 xs))"
| "slice_140 _ = Inl TypeError"

text \<open>\<open>self.defaults["visibility_defaults"].get(memory_data["mem_type"], "shared")\<close>:
  a list or dictionary is not hashable.\<close>

fun visibility_of_type :: "json \<Rightarrow> py_error + json" where
  "visibility_of_type (JStr t) = Inr (JStr (visibility_default t))"
| "visibility_of_type (JArr _) = Inl TypeError"
| "visibility_of_type (JObj _) = Inl TypeError"
| "visibility_of_type _ = Inr (JStr ''shared'')"

definition create_memory_unit_from ::
  "(string \<Rightarrow> rat option) \<Rightarrow> string \<Rightarrow> string \<Rightarrow> (string \<times> json) list \<Rightarrow> int \<Rightarrow> py_error + memory_unit" where
  "create_memory_unit_from parse_float uid stamp kvs ch =
     (if \<not> list_all (\<lambda>f. f \<in> set (map fst kvs)) required_fields then Inl ValueError
      else
        (let field = (\<lambda>f. the (dict_get kvs f));
             vis0 = (case dict_get kvs ''visibility'' of None \<Rightarrow> JNull | Some v \<Rightarrow> v)
         in sbind (if py_truthy vis0 then Inr vis0 else visibility_of_type (field ''mem_type'')) (\<lambda>vis.
            sbind (slice_140 (field ''fact_text'')) (\<lambda>text.
            sbind (json_as_str (field ''mem_type'')) (\<lambda>typ.
            sbind (json_as_strs (field ''subjects'')) (\<lambda>subjs.
            sbind (json_as_str text) (\<lambda>txt.
            sbind (json_as_str (field ''predicate'')) (\<lambda>pred.
            sbind (json_as_str (field ''object'')) (\<lambda>obj.
            sbind (json_as_str vis) (\<lambda>v.
            sbind (json_as_float parse_float (field ''confidence'')) (\<lambda>conf.
              Inr (create_memory_unit uid typ subjs txt pred obj conf (Some v) ch stamp))))))))))))"

section \<open>The extraction\<close>

text \<open>\<open>extract_memories_from_sentence\<close>: without a client nothing is extracted;
  every exception of the call, the parse or the construction is caught and gives
  \<open>None\<close>.\<close>

definition extract_memory_llm ::
  "bool \<Rightarrow> (string \<Rightarrow> int \<Rightarrow> py_error + string) \<Rightarrow> (string \<Rightarrow> json option) \<Rightarrow> (string \<Rightarrow> rat option) \<Rightarrow>
   string \<Rightarrow> string \<Rightarrow> string \<Rightarrow> int \<Rightarrow> memory_unit option" where
  "extract_memory_llm has_client chat loads parse_float uid stamp sentence ch =
     (if \<not> has_client then None
      else case chat sentence ch of
        Inl e \<Rightarrow> None
      | Inr content \<Rightarrow>
          (case parse_llm_response loads content of
             None \<Rightarrow> None
           | Some md \<Rightarrow>
               (case json_get md ''emit'' (JBool True) of
                  Inl e \<Rightarrow> None
                | Inr emit \<Rightarrow>
                    if py_truthy md \<and> py_truthy emit
                    then (case md of
                            JObj kvs \<Rightarrow>
                              (case create_memory_unit_from parse_float uid stamp kvs ch of
                                 Inl e \<Rightarrow> None | Inr m \<Rightarrow> Some m)
                          | _ \<Rightarrow> None)
                    else None)))"


section \<open>Fixture\<close>

text \<open>A JSON string literal, and a reply object with every required field.\<close>

definition dq :: "string \<Rightarrow> string" where
  "dq s = CHR 0x22 # s @ [CHR 0x22]"

definition sample_reply :: json where
  "sample_reply =
     JObj [(''mem_type'', JStr ''IC''), (''subjects'', JArr [JStr ''byleth'', JStr ''dimitri'']),
           (''fact_text'', JStr ''Byleth and Dimitri started an affair.''),
           (''predicate'', JStr ''relationship_status''), (''object'', JStr ''started_affair''),
           (''confidence'', JFloat 0.9)]"

section \<open>Lemmas\<close>

lemma validate_fields_ok:
  "validate_fields d fs = Inr True \<Longrightarrow>
     \<forall>f \<in> set fs. \<exists>kvs v. d = JObj kvs \<and> dict_get kvs f = Some v \<and> v \<noteq> JNull"
proof (induction fs)
  case Nil
  then show ?case by simp
next
  case (Cons f fs)
  then show ?case
    by (cases d) (auto simp: sbind_Inr_iff split: if_splits option.splits)
qed

lemma repair_json_response_ok:
  assumes "repair_json_response loads content = Some d"
  shows "\<exists>kvs. d = JObj kvs \<and> list_all (\<lambda>f. \<exists>v. dict_get kvs f = Some v \<and> v \<noteq> JNull) required_fields"
proof -
  have v: "validate_fields d required_fields = Inr True"
    using assms by (auto simp: repair_json_response_def validate_repaired_data_def
        split: option.splits sum.splits bool.splits)
  from validate_fields_ok [OF v] obtain kvs where "d = JObj kvs"
    by (auto simp: required_fields_def)
  with validate_fields_ok [OF v] show ?thesis
    by (auto simp: list_all_iff)
qed

lemma direct_fields_ok_iff:
  "direct_fields_ok kvs \<Longrightarrow> list_all (\<lambda>f. \<exists>v. dict_get kvs f = Some v \<and> v \<noteq> JNull) required_fields"
  by (auto simp: direct_fields_ok_def list_all_iff dict_get_def) (metis map_of_eq_None_iff not_Some_eq)

lemma json_as_str_Inr [simp]: "json_as_str x = Inr s \<longleftrightarrow> x = JStr s"
  by (cases x) auto

lemma visibility_default_nonempty [simp]: "visibility_default t \<noteq> []"
  by (simp add: visibility_default_def)

lemma visibility_of_type_nonempty: "visibility_of_type t = Inr (JStr s) \<Longrightarrow> s \<noteq> []"
  by (cases t) (auto simp: visibility_default_def split: if_splits)

lemma create_memory_unit_from_post:
  assumes "create_memory_unit_from pf uid stamp kvs ch = Inr m"
  shows "mem_id m = uid \<and> chapter_start m = ch \<and> length (fact_text m) \<le> 140 \<and> is_active m \<and>
         version m = 1 \<and> supersedes m = None \<and> visibility m \<noteq> []"
  using assms visibility_of_type_nonempty
  by (auto simp: create_memory_unit_from_def create_memory_unit_def Let_def sbind_Inr_iff
      split: if_splits option.splits)

lemma ident_start_not_space: "is_ident_start c \<Longrightarrow> \<not> is_py_space c"
  by (auto simp: is_ident_start_def is_py_space_def)

section \<open>Properties\<close>

text \<open>C35. Whatever the model replies, a reply that \<open>_parse_llm_response\<close> accepts, on
  the direct path or after the repair, is a dictionary in which every required field is
  present and not \<open>None\<close>.\<close>

theorem parse_llm_response_fields:
  assumes "parse_llm_response loads content = Some d"
  shows "\<exists>kvs. d = JObj kvs \<and> list_all (\<lambda>f. \<exists>v. dict_get kvs f = Some v \<and> v \<noteq> JNull) required_fields"
  using assms repair_json_response_ok [of loads content d] direct_fields_ok_iff
  by (auto simp: parse_llm_response_def split: option.splits sum.splits if_splits json.splits)

text \<open>C35, applied: the reply \<open>{}\<close> read as the sample object.\<close>

theorem parse_llm_response_fields_witness:
  "parse_llm_response (\<lambda>s. Some sample_reply) ''{}'' = Some sample_reply \<and>
   (\<exists>kvs. sample_reply = JObj kvs \<and> list_all (\<lambda>f. \<exists>v. dict_get kvs f = Some v \<and> v \<noteq> JNull) required_fields)"
proof -
  have p: "parse_llm_response (\<lambda>s. Some sample_reply) ''{}'' = Some sample_reply"
    by (simp add: parse_llm_response_def brace_span_def sample_reply_def direct_fields_ok_def
        required_fields_def dict_get_def)
  then show ?thesis using parse_llm_response_fields [OF p] by simp
qed

text \<open>C37. The value repair quotes every identifier run after a colon and any
  whitespace, whatever the identifier: the JSON literals \<open>false\<close>, \<open>true\<close> and
  \<open>null\<close> are identifiers too, so \<open>: null\<close> becomes the string \<open>: "null"\<close>, which
  is not \<open>None\<close>, and \<open>: false\<close> the non-empty, hence true, string \<open>"false"\<close>.\<close>

theorem quote_values_quotes_identifier:
  assumes sp: "list_all is_py_space sp" and w: "w \<noteq> []" "is_ident_start (hd w)" "list_all is_ident w"
    and r: "r = [] \<or> \<not> is_ident (hd r)"
  shows "quote_values (CHR '':'' # sp @ w @ r) = '': '' @ dq w @ quote_values r"
proof -
  obtain d ds where wd: "w = d # ds" using w(1) by (cases w) auto
  have dw: "dropWhile is_py_space (sp @ d # ds @ r) = d # ds @ r"
    using sp w(2) wd by (simp add: dropWhile_append2 list_all_iff ident_start_not_space)
  have tw: "takeWhile is_ident (ds @ r) = ds" and dr: "dropWhile is_ident (ds @ r) = r"
    using w(3) wd r by (cases r; simp add: takeWhile_append2 dropWhile_append2 list_all_iff)+
  show ?thesis
    using w(2) by (simp add: wd dw tw dr dq_def)
qed

text \<open>C37, applied: \<open>: null}\<close> becomes \<open>: "null"}\<close>.\<close>

theorem quote_values_quotes_identifier_witness:
  "quote_values (CHR '':'' # '' '' @ ''null'' @ ''}'') = '': '' @ dq ''null'' @ ''}''"
proof -
  have h: "list_all is_py_space '' '' \<and> is_ident_start (hd ''null'') \<and> list_all is_ident ''null'' \<and>
      \<not> is_ident (hd ''}'')"
    by (simp add: is_py_space_def is_ident_start_def is_ident_def)
  have "quote_values ''}'' = ''}''" by simp
  then show ?thesis
    using quote_values_quotes_identifier [of "'' ''" "''null''" "''}''"] h by simp
qed

text \<open>C36. A record that the language-model path returns carries the uuid it was given,
  starts at the sentence's chapter, has at most 140 characters of text, is an active first
  version with no predecessor, and has a non-empty visibility.\<close>

theorem extract_memory_llm_post:
  assumes "extract_memory_llm hc chat loads pf uid stamp sentence ch = Some m"
  shows "mem_id m = uid \<and> chapter_start m = ch \<and> length (fact_text m) \<le> 140 \<and> is_active m \<and>
         version m = 1 \<and> supersedes m = None \<and> visibility m \<noteq> []"
  using assms create_memory_unit_from_post
  by (auto simp: extract_memory_llm_def split: if_splits sum.splits option.splits json.splits)


text \<open>C36, applied: a client whose reply reads as the sample object.\<close>

theorem extract_memory_llm_post_witness:
  "extract_memory_llm True (\<lambda>s c. Inr ''{}'') (\<lambda>s. Some sample_reply) (\<lambda>s. None) ''u1'' ''t0'' ''s'' 3 =
     Some (create_memory_unit ''u1'' IC [''byleth'', ''dimitri''] ''Byleth and Dimitri started an affair.''
             ''relationship_status'' ''started_affair'' 0.9 (Some ''shared'') 3 ''t0'') \<and>
   chapter_start (create_memory_unit ''u1'' IC [''byleth'', ''dimitri''] ''Byleth and Dimitri started an affair.''
             ''relationship_status'' ''started_affair'' 0.9 (Some ''shared'') 3 ''t0'') = 3"
proof -
  have p: "parse_llm_response (\<lambda>s. Some sample_reply) ''{}'' = Some sample_reply"
    by (simp add: parse_llm_response_def brace_span_def sample_reply_def direct_fields_ok_def
        required_fields_def dict_get_def)
  have e: "extract_memory_llm True (\<lambda>s c. Inr ''{}'') (\<lambda>s. Some sample_reply) (\<lambda>s. None) ''u1'' ''t0'' ''s'' 3 =
     Some (create_memory_unit ''u1'' IC [''byleth'', ''dimitri''] ''Byleth and Dimitri started an affair.''
             ''relationship_status'' ''started_affair'' 0.9 (Some ''shared'') 3 ''t0'')"
    using p by (simp add: extract_memory_llm_def sample_reply_def create_memory_unit_from_def
        required_fields_def dict_get_def json_as_float_def visibility_default_def)
  show ?thesis using extract_memory_llm_post [OF e] e by simp
qed

end
