(* ===== verification/Spec2Isabelle.thy ===== *)
theory Spec2Isabelle
  imports Consistency Retriever Pipeline Eval_Suite Query Updater Llm_Extractor
begin

text \<open>
  \<^bold>\<open>A verification library for the chapter memory store of sekai-memory-for-chatbot.\<close>

  \<^medskip>
  \<^bold>\<open>The program.\<close> Chapters of a story are turned into facts
  (\<open>MemoryUnit\<close>, \<open>src/models/memory_unit.py\<close>) by an extractor
  (\<open>src/llm/memory_extractor.py\<close>: a language model, or the rule-based
  \<open>MockMemoryExtractor\<close>). \<open>process_chapters_sequentially\<close>
  (\<open>src/generate_memory_sets.py\<close>) splits each synopsis into sentences and feeds every
  extracted candidate, chapter by chapter, to \<open>SimpleMemoryStore.smart_update_or_create\<close>
  (\<open>src/storage/simple_memory_store.py\<close>), which either supersedes an existing fact
  with the same canonical key or stores the candidate as a new fact. The store answers
  point-in-time queries (\<open>get_memories_at_chapter\<close>), timelines and version chains;
  \<open>SimpleMemoryRetriever\<close> (\<open>src/retrieval/simple_memory_retriever.py\<close>) ranks
  the facts visible at a chapter against a query, and \<open>src/query_memories.py\<close>
  answers questions in English over both. \<open>MemoryUpdater\<close>
  (\<open>src/updates/memory_updater.py\<close>) is a second update policy, written against a store
  class that is not in the repository. The evaluation harness (\<open>src/eval/\<close>) runs
  three evaluations on a store (retrieval quality, consistency, coverage of key facts),
  writes their results as JSON, and \<open>scoring.py\<close> gates the consolidated results
  against thresholds; \<open>sekai_eval.py all\<close> runs the four steps in order.

  \<^medskip>
  \<^bold>\<open>Theories.\<close>
  \<^item> \<open>Prelude\<close>: the Python builtins the code relies on, executable and related to
    library definitions: insertion-ordered dictionaries, substring search,
    \<open>str.lower\<close>, \<open>str.split\<close>, \<open>str.strip\<close>, \<open>str.replace\<close>, \<open>str(int)\<close>,
    \<open>"::".join\<close> and \<open>split("::")\<close> with their round trip, slicing with negative
    bounds, the stable descending sort, \<open>max(key=)\<close>, and Python exceptions as the
    \<open>Inl\<close> side of a sum with its bind \<open>sbind\<close> and loop \<open>sfold\<close>.
  \<^item> \<open>Memory_Unit\<close>: the \<open>MemoryUnit\<close> and \<open>Provenance\<close> records, the canonical
    key (C7, C8), \<open>can_update\<close> and \<open>get_update_score\<close> (C13), and
    \<open>_create_memory_unit\<close>.
  \<^item> \<open>Store\<close>: \<open>SimpleMemoryStore\<close> as an object heap and the two dictionaries of
    addresses \<open>chapter_memories\<close> and \<open>all_memories\<close> (the Python objects are shared
    and mutated in place); the invariant \<open>store_inv\<close>; soundness and refinement of the
    point-in-time query (C1, C2); termination and cycles of the evolution walk (C5, C6).
  \<^item> \<open>Resolver\<close>: \<open>smart_update_or_create\<close> and its helpers: preservation of the
    invariant and of well-formed chains (C3), the supersede postcondition (C4), when a
    candidate is created (C9), the tie rule (C10), duplicate keys when the candidate is
    less confident than every stored match (C11), the two-hop
    evolution (C12).
  \<^item> \<open>Consistency\<close>: the four scans of \<open>consistency_eval.py\<close>: exact
    characterisations of the time-overlap and crosstalk reports (C14, C15), when the
    symmetry scan raises (C16) and its dead reverse-key test (C17).
  \<^item> \<open>Retriever\<close>: the scores and retrievals: the top-k contract (C18), with the
    pair sort of the ranked branch shown equal to a stable sort by score on the way.
  \<^item> \<open>Extractor\<close>, \<open>Pipeline\<close>: \<open>validate_memory\<close>, whose private-record check
    needs only one of its two conditions (C38), the mock rules, and a pipeline run that
    keeps the store invariant (C19).
  \<^item> \<open>Llm_Extractor\<close>: the language-model path of \<open>MemoryExtractor\<close> with the model
    call, \<open>json.loads\<close> and pydantic's float parsing as parameters: an accepted reply
    has every required field (C35), an extracted record is a well-formed first version
    (C36), and the repair quotes every identifier after a colon, JSON literals
    included (C37).
  \<^item> \<open>Updater\<close>: \<open>MemoryUpdater\<close> over a store interface (\<open>store_ops\<close>:
    \<open>get_all_active\<close>, \<open>upsert\<close>) and its contract \<open>upsert_contract\<close>; a
    dictionary store implements it. \<open>batch_update\<close> keeps one active record per
    similarity class for every implementation (C20), every branch returns an active
    record (C21), and every replacement clears the closed record's own link to its
    predecessor (C22).
  \<^item> \<open>Json\<close>: JSON values, the dictionary and list operations of Python on them with
    their exceptions.
  \<^item> \<open>Scoring\<close>: \<open>apply_gates\<close> section by section, \<open>run_scoring\<close> and the
    default configuration: the gate statuses are consistent (C26), and the default
    configuration always raises (C24).
  \<^item> \<open>Eval_Utils\<close>, \<open>Retrieval_Eval\<close>, \<open>Coverage_Eval\<close>: \<open>text_similarity\<close>
    is the Jaccard index (C33); the retrieval report's counts and bounds (C27), metrics
    blind to the query's gold ids (C28); the coverage report's bounds.
  \<^item> \<open>Eval_Suite\<close>: the consistency result file, the command \<open>all\<close>, and what the
    gates do on the evaluations' own output: consistency gates never fail (C23), the
    per-chapter gate takes the mean of the chapter rates (C25), and a gate named after a
    result key makes \<open>run_scoring\<close> raise after writing its file (C34).
  \<^item> \<open>Query\<close>: \<open>_parse_query\<close> over a backtracking model of the \<open>re\<close> patterns
    (numbered groups, first match), the answer methods and the interactive loop: the
    capital-I patterns are dead (C29), a relationship answer lists a record once per
    chapter it is visible at (C30), \<open>quit\<close> ends the loop (C31) and end of input
    never does (C32).

  \<^medskip>
  \<^bold>\<open>Modelling choices.\<close> Python floats are exact rationals (\<open>rat\<close>); where a
  float sum lands within one rounding step of a threshold the model may decide
  differently from IEEE doubles. Strings are byte strings; \<open>str.lower\<close> maps A--Z.
  \<open>uuid.uuid4()\<close>, timestamps and the iteration order of Python sets are inputs.
  Exceptions are values (\<open>py_error\<close>). JSON parsing and file I/O are not modelled:
  loaders take parsed values, writers return the value they would dump; a missing
  result file is \<open>None\<close>.

  \<^medskip>
  \<^bold>\<open>Fuel.\<close> Two loops may run forever and are modelled with fuel, \<open>None\<close>
  meaning that the loop has not stopped. The \<open>while current_id\<close> loop of
  \<open>get_memory_evolution\<close> has no visited set: on well-formed chains one more than the
  start record's version is enough (C5), on a cycle no fuel is (C6). The interactive
  loop of \<open>query_memories.main\<close> stops within \<open>i + 1\<close> iterations when line \<open>i\<close> is
  a quit command (C31), and returns \<open>None\<close> for every fuel when input ends first (C32).

  \<^medskip>
  \<^bold>\<open>Not modelled.\<close> The language model itself and the text of its two prompts;
  \<open>json.loads\<close>, whose result is a parameter. \<open>src/main.py\<close>, which imports \<open>models.chapter\<close>,
  \<open>storage.temporal_memory_store\<close> and \<open>pipeline.memory_pipeline\<close>, none of them in
  the repository, and otherwise only prints. \<open>MockMemoryUpdater\<close>, which only creates
  a temporary file store of the absent module. Argument parsing, printing
  (\<open>print_*_summary\<close>) and file reading and writing throughout.
\<close>

end
